(* ===== verification/Prelude.thy ===== *)
theory Prelude
  imports Complex_Main "HOL-Library.Multiset" "HOL-Library.Monad_Syntax"
begin

section \<open>Prelude: shared names, collections and list lemmas\<close>

text \<open>
  The types that name the model's data, the collections of rewrite rules the component
  theories extend, and the generic facts on lists and strings that several components
  use. Nothing here is specific to one source file.
\<close>

type_synonym cents = int
  \<comment> \<open>an amount of money in minor currency units (JavaScript numbers that hold integers)\<close>
type_synonym pt = rat
  \<comment> \<open>a PDF coordinate or length in points; JavaScript numbers with a decimal part\<close>

named_theorems js_eval "evaluation rules of the JavaScript built-ins of the model"
named_theorems layout_simps "positions of the fixed invoice layout"
named_theorems verdict_simps "facts on the outcome of the e-mail verifier"

subsection \<open>Lists\<close>

lemma split_at_first:
  assumes "c \<in> set s"
  shows "s = takeWhile (\<lambda>x. x \<noteq> c) s @ c # tl (dropWhile (\<lambda>x. x \<noteq> c) s)"
proof -
  from assms have "dropWhile (\<lambda>x. x \<noteq> c) s \<noteq> []" by (simp add: dropWhile_eq_Nil_conv)
  moreover have "hd (dropWhile (\<lambda>x. x \<noteq> c) s) = c"
    using assms by (metis (mono_tags) hd_dropWhile calculation)
  ultimately have "dropWhile (\<lambda>x. x \<noteq> c) s = c # tl (dropWhile (\<lambda>x. x \<noteq> c) s)"
    by (metis list.collapse)
  then show ?thesis by (metis takeWhile_dropWhile_id)
qed

lemma split_unique_sep:
  assumes "l @ c # r = l' @ c # r'" "c \<notin> set l" "c \<notin> set l'"
  shows "l = l' \<and> r = r'"
  using assms
proof (induction l arbitrary: l')
  case Nil
  then show ?case by (cases l') auto
next
  case (Cons x xs)
  then show ?case by (cases l') auto
qed

end
