(* ===== verification/JS_Runtime.thy ===== *)
theory JS_Runtime
  imports Prelude
begin

section \<open>The JavaScript built-ins the sources call\<close>

text \<open>
  The services are JavaScript/TypeScript; their arithmetic and string handling go through
  a handful of built-ins whose semantics the component theories need: \<open>Math.round\<close>,
  \<open>Number.prototype.toFixed\<close>, \<open>parseInt\<close>, \<open>String.prototype.substring\<close>,
  \<open>split\<close>, \<open>join\<close>, \<open>toLowerCase\<close> and the white-space class \<open>\s\<close> of regular
  expressions. They are modelled from the ECMAScript specification, on the values the
  sources give them: numbers are rationals (the sources only compute with integers and
  decimal constants whose double rounding does not change the results used, see the header
  of the root theory), strings are lists of 8-bit characters read as Latin-1 code units.
\<close>

subsection \<open>Numbers\<close>

definition js_round :: "rat \<Rightarrow> int" where
  \<comment> \<open>\<open>Math.round\<close>: the nearest integer, ties towards \<open>+\<infinity>\<close>\<close>
  "js_round x = \<lfloor>x + 1 / 2\<rfloor>"

definition digit_char :: "nat \<Rightarrow> char" where
  "digit_char d = ''0123456789'' ! d"

definition is_digit :: "char \<Rightarrow> bool" where
  "is_digit c \<longleftrightarrow> 48 \<le> (of_char c :: nat) \<and> (of_char c :: nat) \<le> 57"

definition digit_val :: "char \<Rightarrow> nat" where
  "digit_val c = of_char c - 48"

fun dec_digits :: "nat \<Rightarrow> string" where
  \<comment> \<open>\<open>String(n)\<close> for a non-negative integer \<open>n\<close>\<close>
  "dec_digits n = (if n < 10 then [digit_char n] else dec_digits (n div 10) @ [digit_char (n mod 10)])"

declare dec_digits.simps [simp del]

definition js_to_fixed2 :: "int \<Rightarrow> string" where
  \<comment> \<open>\<open>(c / 100).toFixed(2)\<close> for an integer \<open>c\<close>: sign, integer part, point, two digits\<close>
  "js_to_fixed2 c =
     (let a = nat \<bar>c\<bar> in
      (if c < 0 then ''-'' else []) @ dec_digits (a div 100) @ ''.'' @
      [digit_char (a mod 100 div 10), digit_char (a mod 10)])"

fun dec_value_acc :: "nat \<Rightarrow> string \<Rightarrow> nat option" where
  "dec_value_acc acc [] = Some acc"
| "dec_value_acc acc (c # cs) =
     (if is_digit c then dec_value_acc (10 * acc + digit_val c) cs else None)"

definition dec_value :: "string \<Rightarrow> nat option" where
  \<comment> \<open>the value of a non-empty string of decimal digits\<close>
  "dec_value s = (if s = [] then None else dec_value_acc 0 s)"

subsection \<open>Strings\<close>

definition js_is_space :: "char \<Rightarrow> bool" where
  \<comment> \<open>the class \<open>\s\<close> restricted to code units below 256: TAB, LF, VT, FF, CR, SP, NBSP\<close>
  "js_is_space c \<longleftrightarrow> (of_char c :: nat) \<in> set [9, 10, 11, 12, 13, 32, 160]"

definition js_parse_int :: "string \<Rightarrow> int option" where
  \<comment> \<open>\<open>parseInt(s, 10)\<close>; \<open>None\<close> is \<open>NaN\<close>\<close>
  "js_parse_int s =
     (let t = dropWhile js_is_space s;
          neg = (t \<noteq> [] \<and> hd t = CHR ''-'');
          u = (if t \<noteq> [] \<and> (hd t = CHR ''-'' \<or> hd t = CHR ''+'') then tl t else t)
      in map_option (\<lambda>n. if neg then - int n else int n) (dec_value (takeWhile is_digit u)))"

definition js_substring :: "string \<Rightarrow> nat \<Rightarrow> nat \<Rightarrow> string" where
  \<comment> \<open>\<open>s.substring(i, j)\<close>: both ends clamped to the length, swapped when reversed\<close>
  "js_substring s i j =
     (let a = min i (length s); b = min j (length s)
      in take (max a b - min a b) (drop (min a b) s))"

fun js_split :: "char \<Rightarrow> string \<Rightarrow> string list" where
  \<comment> \<open>\<open>s.split(c)\<close> for a one-character separator; \<open>''''.split(c)\<close> is \<open>['']\<close>\<close>
  "js_split c [] = [[]]"
| "js_split c (x # xs) =
     (if x = c then [] # js_split c xs
      else (case js_split c xs of [] \<Rightarrow> [[x]] | w # ws \<Rightarrow> (x # w) # ws))"

fun js_join :: "string \<Rightarrow> string list \<Rightarrow> string" where
  \<comment> \<open>\<open>xs.join(sep)\<close>\<close>
  "js_join sep [] = []"
| "js_join sep [x] = x"
| "js_join sep (x # y # zs) = x @ sep @ js_join sep (y # zs)"

definition js_index :: "'a list \<Rightarrow> nat \<Rightarrow> 'a option" where
  \<comment> \<open>\<open>xs[i]\<close>, with \<open>None\<close> for \<open>undefined\<close> out of range\<close>
  "js_index xs i = (if i < length xs then Some (xs ! i) else None)"

definition js_lower_char :: "char \<Rightarrow> char" where
  \<comment> \<open>\<open>toLowerCase\<close> on Latin-1: A-Z and the capitals U+00C0..U+00DE except U+00D7\<close>
  "js_lower_char c =
     (let n = (of_char c :: nat) in
      if (65 \<le> n \<and> n \<le> 90) \<or> (192 \<le> n \<and> n \<le> 222 \<and> n \<noteq> 215) then char_of (n + 32) else c)"

definition js_lower :: "string \<Rightarrow> string" where
  "js_lower s = map js_lower_char s"

definition js_truthy_str :: "string option \<Rightarrow> bool" where
  \<comment> \<open>a string-or-undefined in a boolean context: \<open>undefined\<close> and \<open>''''\<close> are falsy\<close>
  "js_truthy_str v \<longleftrightarrow> v \<noteq> None \<and> v \<noteq> Some []"

definition js_or_str :: "string option \<Rightarrow> string option \<Rightarrow> string option" where
  \<comment> \<open>\<open>a || b\<close> on strings-or-undefined\<close>
  "js_or_str a b = (if js_truthy_str a then a else b)"

subsection \<open>Facts\<close>

lemma js_round_tenth [js_eval]: "js_round (of_int n * (1 / 10)) = (n + 5) div 10"
proof -
  have "of_int n * (1 / 10) + 1 / 2 = (of_int (n + 5) :: rat) / of_int 10"
    by (simp add: field_simps)
  then show ?thesis unfolding js_round_def by (simp only: floor_divide_of_int_eq)
qed

lemma digit_char_props:
  assumes "d < 10"
  shows "is_digit (digit_char d) \<and> digit_val (digit_char d) = d"
proof -
  from assms have "d \<in> {..<10}" by simp
  also have "{..<10::nat} = {0, 1, 2, 3, 4, 5, 6, 7, 8, 9}"
    by (simp add: lessThan_nat_numeral lessThan_Suc insert_commute)
  finally show ?thesis by (auto simp: digit_char_def digit_val_def is_digit_def)
qed

lemma digit_char_is_digit [simp]: "d < 10 \<Longrightarrow> is_digit (digit_char d)"
  using digit_char_props by blast

lemma digit_val_digit_char [simp]: "d < 10 \<Longrightarrow> digit_val (digit_char d) = d"
  using digit_char_props by blast

lemma dec_digits_ne [simp]: "dec_digits n \<noteq> []"
  by (subst dec_digits.simps) simp

lemma dec_digits_all_digits: "list_all is_digit (dec_digits n)"
proof (induction n rule: dec_digits.induct)
  case (1 n)
  then show ?case by (subst dec_digits.simps) simp
qed

lemma dec_value_acc_append:
  "dec_value_acc acc (xs @ ys) = Option.bind (dec_value_acc acc xs) (\<lambda>a. dec_value_acc a ys)"
  by (induction acc xs rule: dec_value_acc.induct) auto

lemma dec_value_acc_dec_digits:
  "dec_value_acc acc (dec_digits n) = Some (acc * 10 ^ length (dec_digits n) + n)"
proof (induction n arbitrary: acc rule: dec_digits.induct)
  case (1 n)
  show ?case
  proof (cases "n < 10")
    case True
    then show ?thesis by (subst (1 2) dec_digits.simps) simp
  next
    case False
    then have "dec_value_acc acc (dec_digits n) =
        dec_value_acc (acc * 10 ^ length (dec_digits (n div 10)) + n div 10) [digit_char (n mod 10)]"
      using "1.IH" by (subst dec_digits.simps) (simp add: dec_value_acc_append)
    also have "\<dots> = Some (acc * 10 ^ Suc (length (dec_digits (n div 10))) + n)"
      by (simp add: algebra_simps)
    finally show ?thesis using False by (subst (2) dec_digits.simps) simp
  qed
qed

lemma dec_value_dec_digits [js_eval]: "dec_value (dec_digits n) = Some n"
  by (simp add: dec_value_def dec_value_acc_dec_digits)

lemma js_substring_take_drop [js_eval]:
  "i \<le> j \<Longrightarrow> js_substring s i j = take (j - i) (drop i s)"
  by (auto simp: js_substring_def min_def max_def)

lemma js_lower_char_eq_iff_special:
  "(of_char c :: nat) \<in> {9, 10, 11, 12, 13, 32, 46, 64, 160} \<Longrightarrow> js_lower_char c = c"
  by (auto simp: js_lower_char_def)

lemma js_join_concat:
  "js_join [] xs = concat xs"
  by (induction "[] :: string" xs rule: js_join.induct) simp_all

end
