(* ===== verification/Money.thy ===== *)
theory Money
  imports JS_Runtime
begin

section \<open>Invoice data, tax and money formatting\<close>

text \<open>
  The invoice's data (\<open>InvoiceData\<close> of \<^verbatim>\<open>src/server/services/pdfService.ts\<close>), the
  tax arithmetic of \<open>generateInvoicePDF\<close> (GST at 10\%, rounded by \<open>Math.round\<close>), the
  currency strings it prints (\<open>$\<close> and \<open>toFixed(2)\<close> of the amount in dollars), the
  record \<open>saveInvoiceRecord\<close> hands to the storage layer, and the total the invoice e-mail
  of \<^verbatim>\<open>src/server/services/emailService.ts\<close> prints. Amounts are integers of cents.
\<close>

record invoice_data =
  inv_id :: string
  inv_email :: string
  inv_license_key :: string
  inv_amount_cents :: cents

definition gst_cents :: "cents \<Rightarrow> cents" where
  \<comment> \<open>\<open>Math.round(data.amountCents * 0.1)\<close>\<close>
  "gst_cents amount = js_round (of_int amount * (1 / 10))"

definition total_cents :: "cents \<Rightarrow> cents" where
  \<comment> \<open>\<open>data.amountCents + gstCents\<close>\<close>
  "total_cents amount = amount + gst_cents amount"

definition format_money :: "cents \<Rightarrow> string" where
  \<comment> \<open>the template \<open>`$${(c / 100).toFixed(2)}`\<close>\<close>
  "format_money c = ''$'' @ js_to_fixed2 c"

definition email_total_amount :: "cents \<Rightarrow> string" where
  \<comment> \<open>\<open>(data.amountCents / 100).toFixed(2)\<close> in \<open>sendInvoiceEmail\<close>\<close>
  "email_total_amount c = js_to_fixed2 c"

record invoice_record =
  rec_id :: string
  rec_user_email :: string
  rec_amount_cents :: cents
  rec_gst_cents :: cents
  rec_license_key :: string
  rec_pdf_file_name :: string
  rec_created_at :: string

definition save_invoice_record :: "invoice_data \<Rightarrow> cents \<Rightarrow> string \<Rightarrow> string \<Rightarrow> invoice_record" where
  \<comment> \<open>the row \<open>saveInvoiceRecord\<close> passes to \<open>prisma.invoice.create\<close>; \<open>now\<close> is \<open>new Date()\<close>\<close>
  "save_invoice_record d gst file now =
     \<lparr>rec_id = inv_id d, rec_user_email = inv_email d, rec_amount_cents = inv_amount_cents d,
      rec_gst_cents = gst, rec_license_key = inv_license_key d, rec_pdf_file_name = file,
      rec_created_at = now\<rparr>"

subsection \<open>Reading an amount back\<close>

text \<open>
  The inverse of the printed form, used to state that the printing loses nothing:
  an optional minus, the integer part, a point and exactly two digits.
\<close>

definition parse_fixed2 :: "string \<Rightarrow> int option" where
  "parse_fixed2 t =
     (let neg = (t \<noteq> [] \<and> hd t = CHR ''-'');
          u = (if neg then tl t else t);
          ip = takeWhile (\<lambda>c. c \<noteq> CHR ''.'') u;
          fr = dropWhile (\<lambda>c. c \<noteq> CHR ''.'') u
      in if length fr = 3 \<and> list_all is_digit (tl fr)
         then map_option (\<lambda>n. (if neg then -1 else 1) *
                 (int n * 100 + int (digit_val (fr ! 1)) * 10 + int (digit_val (fr ! 2))))
                (dec_value ip)
         else None)"

definition parse_money :: "string \<Rightarrow> cents option" where
  "parse_money s = (if s \<noteq> [] \<and> hd s = CHR ''$'' then parse_fixed2 (tl s) else None)"

subsection \<open>Facts\<close>

lemma is_digit_not_point [simp]: "is_digit c \<Longrightarrow> c \<noteq> CHR ''.''"
  by (auto simp: is_digit_def)

lemma is_digit_not_minus [simp]: "is_digit c \<Longrightarrow> c \<noteq> CHR ''-''"
  by (auto simp: is_digit_def)

lemma takeWhile_digits_point:
  "list_all is_digit ds \<Longrightarrow> takeWhile (\<lambda>c. c \<noteq> CHR ''.'') (ds @ CHR ''.'' # r) = ds"
  by (induction ds) auto

lemma dropWhile_digits_point:
  "list_all is_digit ds \<Longrightarrow> dropWhile (\<lambda>c. c \<noteq> CHR ''.'') (ds @ CHR ''.'' # r) = CHR ''.'' # r"
  by (induction ds) auto

lemma js_to_fixed2_shape:
  "js_to_fixed2 c =
     (if c < 0 then ''-'' else []) @ dec_digits (nat \<bar>c\<bar> div 100) @ CHR ''.'' #
       [digit_char (nat \<bar>c\<bar> mod 100 div 10), digit_char (nat \<bar>c\<bar> mod 10)]"
  by (simp add: js_to_fixed2_def Let_def)

lemma hd_dec_digits_not_minus: "hd (dec_digits n) \<noteq> CHR ''-''"
  using dec_digits_all_digits [of n] dec_digits_ne [of n]
  by (cases "dec_digits n") auto

lemma digits_of_hundreds: "(a::nat) div 100 * 100 + a mod 100 div 10 * 10 + a mod 10 = a"
proof -
  have "a mod 100 mod 10 = a mod 10" by (simp add: mod_mod_cancel)
  then have "a mod 100 div 10 * 10 + a mod 10 = a mod 100" by (metis div_mult_mod_eq)
  then show ?thesis by (metis add.assoc div_mult_mod_eq)
qed

lemma parse_fixed2_js_to_fixed2: "parse_fixed2 (js_to_fixed2 c) = Some c"
proof -
  let ?a = "nat \<bar>c\<bar>"
  let ?ds = "dec_digits (?a div 100)"
  let ?fr = "[digit_char (?a mod 100 div 10), digit_char (?a mod 10)]"
  have ds: "list_all is_digit ?ds" by (rule dec_digits_all_digits)
  have u: "(if c < 0 then tl (js_to_fixed2 c) else js_to_fixed2 c) = ?ds @ CHR ''.'' # ?fr"
    by (simp add: js_to_fixed2_shape)
  have neg: "(js_to_fixed2 c \<noteq> [] \<and> hd (js_to_fixed2 c) = CHR ''-'') \<longleftrightarrow> c < 0"
    using hd_dec_digits_not_minus [of "?a div 100"]
    by (simp add: js_to_fixed2_shape hd_append)
  have ip: "takeWhile (\<lambda>c. c \<noteq> CHR ''.'') (?ds @ CHR ''.'' # ?fr) = ?ds"
    using ds by (rule takeWhile_digits_point)
  have fr: "dropWhile (\<lambda>c. c \<noteq> CHR ''.'') (?ds @ CHR ''.'' # ?fr) = CHR ''.'' # ?fr"
    using ds by (rule dropWhile_digits_point)
  have val: "int (?a div 100) * 100 + int (?a mod 100 div 10) * 10 + int (?a mod 10) = \<bar>c\<bar>"
  proof -
    have "int (?a div 100 * 100 + ?a mod 100 div 10 * 10 + ?a mod 10) = \<bar>c\<bar>"
      by (simp only: digits_of_hundreds)
    then show ?thesis by (simp only: of_nat_add of_nat_mult)
  qed
  have digits: "list_all is_digit ?fr" by simp
  have "parse_fixed2 (js_to_fixed2 c) =
      map_option (\<lambda>n. (if c < 0 then -1 else 1) *
        (int n * 100 + int (?a mod 100 div 10) * 10 + int (?a mod 10))) (dec_value ?ds)"
    unfolding parse_fixed2_def Let_def neg u ip fr using digits by simp
  also have "\<dots> = Some ((if c < 0 then -1 else 1) * \<bar>c\<bar>)"
    using val by (simp add: dec_value_dec_digits)
  also have "\<dots> = Some c" by simp
  finally show ?thesis .
qed


lemma js_to_fixed2_inj: "js_to_fixed2 a = js_to_fixed2 b \<Longrightarrow> a = b"
  by (metis option.inject parse_fixed2_js_to_fixed2)

lemma format_money_inj [simp]: "format_money a = format_money b \<longleftrightarrow> a = b"
  unfolding format_money_def using js_to_fixed2_inj by auto

lemma half_up_tenth_bounds:
  "a - 5 < 10 * ((a + 5) div 10) \<and> 10 * ((a + 5) div 10) \<le> (a + 5 :: int)"
proof -
  have "10 * ((a + 5) div 10) + (a + 5) mod 10 = a + 5" by (rule mult_div_mod_eq)
  moreover have "0 \<le> (a + 5) mod 10" "(a + 5) mod 10 < 10" by simp_all
  ultimately show ?thesis by linarith
qed

subsection \<open>Properties\<close>

text \<open>
  C1: the tax \<open>Math.round(amountCents * 0.1)\<close> is the integer half-up rounding of a
  tenth: it equals \<open>(amount + 5) div 10\<close> for every integer amount, negative ones included.
\<close>

theorem gst_cents_half_up: "gst_cents a = (a + 5) div 10"
  unfolding gst_cents_def by (rule js_round_tenth)

text \<open>
  C2: for a non-negative amount the tax is non-negative and within half a cent of a tenth of
  it, \<open>|10 * gst - amount| \<le> 5\<close>, so the total lies between \<open>1.1 * amount - 0.5\<close> and
  \<open>1.1 * amount + 0.5\<close> cents.
\<close>

theorem gst_cents_bounds:
  assumes "0 \<le> a"
  shows "0 \<le> gst_cents a \<and> a - 5 < 10 * gst_cents a \<and> 10 * gst_cents a \<le> a + 5
         \<and> 11 * a - 5 < 10 * total_cents a \<and> 10 * total_cents a \<le> 11 * a + 5"
proof -
  define g where "g = (a + 5) div 10"
  have "a - 5 < 10 * g" "10 * g \<le> a + 5"
    using half_up_tenth_bounds [of a] by (simp_all add: g_def)
  with assms show ?thesis
    unfolding total_cents_def gst_cents_def js_round_tenth g_def [symmetric] by arith
qed

theorem gst_cents_bounds_witness:
  "0 \<le> (1995::int) \<and> gst_cents 1995 = 200 \<and> total_cents 1995 = 2195"
  using gst_cents_bounds [of 1995] unfolding total_cents_def gst_cents_def js_round_tenth by simp

text \<open>
  C3: every printed amount reads back as the amount it prints: \<open>$\<close>, an optional minus,
  the dollars, a point and the cents, for every integer number of cents.
\<close>

theorem format_money_roundtrip: "parse_money (format_money c) = Some c"
  by (simp add: parse_money_def format_money_def parse_fixed2_js_to_fixed2)

text \<open>
  Every printed amount has exactly two decimal places: it is \<open>$\<close>, then a
  non-empty integer part, a point and two digits.
\<close>

theorem format_money_two_decimals:
  "\<exists>w d1 d2. format_money c = ''$'' @ w @ [CHR ''.'', d1, d2] \<and> w \<noteq> [] \<and> is_digit d1 \<and> is_digit d2"
  by (auto simp: format_money_def js_to_fixed2_shape)

end
