(* ===== verification/Id_Wrap.thy ===== *)
theory Id_Wrap
  imports Money
begin

section \<open>Wrapping the invoice number\<close>

text \<open>
  The right-hand column of the invoice header prints the invoice number, which may be
  arbitrarily long, in a column 220 points wide (\<open>generateInvoicePDF\<close>,
  \<^verbatim>\<open>src/server/services/pdfService.ts\<close> lines 79--100). The code shrinks the font from
  10 points while the unwrapped number is wider than the column, down to 6 points; derives
  a characters-per-line count from the font size; and cuts the number into pieces of that
  many characters with a \<open>for\<close> loop (pdfkit has no \<open>splitTextToSize\<close>, so the
  helper branch is only taken with another engine). The text measurement of the PDF engine
  is the interface \<open>metrics\<close>: its functions are parameters of every lemma.
\<close>

datatype font = Helvetica | Helvetica_Bold

record metrics =
  width_of_string :: "font \<Rightarrow> nat \<Rightarrow> string \<Rightarrow> pt"
    \<comment> \<open>\<open>doc.widthOfString(s)\<close> at a font and size\<close>
  height_of_string :: "font \<Rightarrow> nat \<Rightarrow> pt \<Rightarrow> string \<Rightarrow> pt"
    \<comment> \<open>\<open>doc.heightOfString(s, {width})\<close> at a font and size\<close>
  line_height :: "font \<Rightarrow> nat \<Rightarrow> pt"
    \<comment> \<open>\<open>doc.currentLineHeight(true)\<close>\<close>

definition right_col_width :: pt where
  "right_col_width = 220"

function shrink_id_font :: "metrics \<Rightarrow> string \<Rightarrow> nat \<Rightarrow> nat" where
  \<comment> \<open>\<open>while (idFontSize > 6 && doc.widthOfString(invoiceIdRaw) > rightColWidth)
     idFontSize -= 1\<close>, the font being Helvetica at \<open>idFontSize\<close>\<close>
  "shrink_id_font m s fs =
     (if 6 < fs \<and> right_col_width < width_of_string m Helvetica fs s
      then shrink_id_font m s (fs - 1) else fs)"
  by pat_completeness auto
termination
  by (relation "measure (\<lambda>(m, s, fs). fs)") auto

declare shrink_id_font.simps [simp del]

definition id_font_size :: "metrics \<Rightarrow> string \<Rightarrow> nat" where
  \<comment> \<open>\<open>let idFontSize = 10\<close> followed by the loop\<close>
  "id_font_size m s = shrink_id_font m s 10"

definition approx_char_width :: "nat \<Rightarrow> pt" where
  \<comment> \<open>\<open>Math.max(4, idFontSize * 0.6)\<close>\<close>
  "approx_char_width fs = max 4 (of_nat fs * (6 / 10))"

definition chars_per_line :: "pt \<Rightarrow> nat \<Rightarrow> nat" where
  \<comment> \<open>\<open>Math.max(10, Math.floor(colWidth / approxCharWidth))\<close>\<close>
  "chars_per_line col fs = max 10 (nat \<lfloor>col / approx_char_width fs\<rfloor>)"

partial_function (option) chunk_loop :: "nat \<Rightarrow> string \<Rightarrow> nat \<Rightarrow> string list \<Rightarrow> string list option" where
  \<comment> \<open>\<open>for (let i = 0; i < s.length; i += n) lines.push(s.substring(i, i + n))\<close>;
     \<open>None\<close> is a loop that never ends (\<open>n = 0\<close>)\<close>
  "chunk_loop n s i lines =
     (if i < length s then chunk_loop n s (i + n) (lines @ [js_substring s i (i + n)])
      else Some lines)"

definition wrap_invoice_id ::
    "(string \<Rightarrow> pt \<Rightarrow> string list) option \<Rightarrow> string \<Rightarrow> nat \<Rightarrow> string list option" where
  \<comment> \<open>the helper \<open>splitTextToSize\<close> when the engine has one, else the chunking loop\<close>
  "wrap_invoice_id split_helper s fs =
     (case split_helper of
        Some f \<Rightarrow> Some (f s right_col_width)
      | None \<Rightarrow> chunk_loop (chars_per_line right_col_width fs) s 0 [])"

subsection \<open>The reference chunking\<close>

function chunks :: "nat \<Rightarrow> string \<Rightarrow> string list" where
  "chunks n s = (if s = [] \<or> n = 0 then [] else take n s # chunks n (drop n s))"
  by pat_completeness auto
termination
  by (relation "measure (\<lambda>(n, s). length s)") auto

declare chunks.simps [simp del]

subsection \<open>Samples for the witnesses\<close>

definition sample_metrics :: metrics where
  \<comment> \<open>a measurement for the witnesses: every character is 0.6 em wide, every line 1.2 em high\<close>
  "sample_metrics =
     \<lparr>width_of_string = (\<lambda>f n t. of_nat n * (6 / 10) * of_nat (length t)),
      height_of_string = (\<lambda>f n w t. of_nat n * (12 / 10) * of_nat (length (js_split CHR ''\<newline>'' t))),
      line_height = (\<lambda>f n. of_nat n * (12 / 10))\<rparr>"

lemma chunks_Nil [simp]: "chunks n [] = []"
  by (simp add: chunks.simps)

lemma chunks_nonempty: "s \<noteq> [] \<Longrightarrow> 0 < n \<Longrightarrow> chunks n s = take n s # chunks n (drop n s)"
  by (simp add: chunks.simps)

lemma concat_chunks: "0 < n \<Longrightarrow> concat (chunks n s) = s"
proof (induction n s rule: chunks.induct)
  case (1 n s)
  then show ?case
    by (cases "s = []") (simp_all add: chunks_nonempty)
qed

lemma chunks_length_bounds:
  "l \<in> set (chunks n s) \<Longrightarrow> 0 < length l \<and> length l \<le> n"
proof (induction n s rule: chunks.induct)
  case (1 n s)
  show ?case
  proof (cases "s = [] \<or> n = 0")
    case True
    with "1.prems" show ?thesis by (simp add: chunks.simps [of n s])
  next
    case False
    with "1.prems" have "l = take n s \<or> l \<in> set (chunks n (drop n s))"
      by (simp add: chunks.simps [of n s])
    with False "1.IH" show ?thesis by auto
  qed
qed

lemma length_chunks: "0 < n \<Longrightarrow> length (chunks n s) = (length s + n - 1) div n"
proof (induction n s rule: chunks.induct)
  case (1 n s)
  show ?case
  proof (cases "s = []")
    case True
    with "1.prems" show ?thesis by simp
  next
    case False
    with "1.IH" "1.prems" have "length (chunks n s) = Suc ((length s - n + n - 1) div n)"
      by (simp add: chunks_nonempty)
    also have "\<dots> = (length s + n - 1) div n"
    proof (cases "length s \<le> n")
      case True
      from \<open>s \<noteq> []\<close> have pos: "0 < length s" by simp
      then have a: "n \<le> length s + n - 1" and b: "length s + n - 1 - n = length s - 1"
        by arith+
      have c: "(length s + n - 1) div n = Suc ((length s - 1) div n)"
        using le_div_geq [OF "1.prems" a] b by simp
      from True pos have "length s - 1 < n" by arith
      then have d: "(length s - 1) div n = 0" by simp
      from True pos have e: "length s - n + n - 1 < n" by arith
      from c d e show ?thesis by simp
    next
      case False
      then have f: "length s + n - 1 = (length s - n + n - 1) + n" by arith
      have g: "\<And>m. (m + n) div n = Suc (m div n)" using "1.prems" by simp
      from g [of "length s - n + n - 1"] show ?thesis by (simp only: f)
    qed
    finally show ?thesis .
  qed
qed

lemma chunk_loop_chunks:
  assumes "0 < n"
  shows "chunk_loop n s i acc = Some (acc @ chunks n (drop i s))"
proof (induction "length s - i" arbitrary: i acc rule: less_induct)
  case less
  show ?case
  proof (cases "i < length s")
    case True
    with assms have "length s - (i + n) < length s - i" by arith
    with less have IH: "chunk_loop n s (i + n) (acc @ [take n (drop i s)]) =
        Some ((acc @ [take n (drop i s)]) @ chunks n (drop (i + n) s))" by blast
    from True assms have "chunks n (drop i s) = take n (drop i s) # chunks n (drop (i + n) s)"
      by (simp add: chunks_nonempty add.commute)
    with True IH show ?thesis
      by (subst chunk_loop.simps) (simp add: js_substring_take_drop)
  next
    case False
    then show ?thesis by (subst chunk_loop.simps) simp
  qed
qed

lemma approx_char_width_pos: "0 < approx_char_width fs"
  by (simp add: approx_char_width_def)

lemma chars_per_line_pos: "0 < chars_per_line col fs"
  by (simp add: chars_per_line_def)

lemma shrink_id_font_spec:
  "6 \<le> fs \<Longrightarrow>
   6 \<le> shrink_id_font m s fs \<and> shrink_id_font m s fs \<le> fs \<and>
   (6 < shrink_id_font m s fs \<longrightarrow> width_of_string m Helvetica (shrink_id_font m s fs) s \<le> right_col_width) \<and>
   (\<forall>k. shrink_id_font m s fs < k \<and> k \<le> fs \<longrightarrow> right_col_width < width_of_string m Helvetica k s)"
proof (induction m s fs rule: shrink_id_font.induct)
  case (1 m s fs)
  show ?case
  proof (cases "6 < fs \<and> right_col_width < width_of_string m Helvetica fs s")
    case True
    then have eq: "shrink_id_font m s fs = shrink_id_font m s (fs - 1)"
      by (simp add: shrink_id_font.simps [of m s fs])
    from True have "6 \<le> fs - 1" by arith
    with "1.IH" True have IH:
      "6 \<le> shrink_id_font m s (fs - 1) \<and> shrink_id_font m s (fs - 1) \<le> fs - 1 \<and>
       (6 < shrink_id_font m s (fs - 1) \<longrightarrow>
          width_of_string m Helvetica (shrink_id_font m s (fs - 1)) s \<le> right_col_width) \<and>
       (\<forall>k. shrink_id_font m s (fs - 1) < k \<and> k \<le> fs - 1 \<longrightarrow>
          right_col_width < width_of_string m Helvetica k s)" by blast
    have above: "\<forall>k. shrink_id_font m s (fs - 1) < k \<and> k \<le> fs \<longrightarrow>
        right_col_width < width_of_string m Helvetica k s"
    proof (intro allI impI)
      fix k assume k: "shrink_id_font m s (fs - 1) < k \<and> k \<le> fs"
      show "right_col_width < width_of_string m Helvetica k s"
      proof (cases "k = fs")
        case True
        with \<open>6 < fs \<and> right_col_width < width_of_string m Helvetica fs s\<close> show ?thesis by simp
      next
        case False
        with k IH show ?thesis by auto
      qed
    qed
    from IH above show ?thesis unfolding eq by auto
  next
    case False
    have eq: "shrink_id_font m s fs = fs"
      using False shrink_id_font.simps [of m s fs] by (simp only: if_False)
    with False "1.prems" show ?thesis by auto
  qed
qed

lemma wrap_invoice_id_pdfkit:
  "wrap_invoice_id None s fs = Some (chunks (chars_per_line right_col_width fs) s)"
  by (simp add: wrap_invoice_id_def chunk_loop_chunks chars_per_line_pos)

lemma wrap_invoice_id_returns: "\<exists>ls. wrap_invoice_id h s fs = Some ls"
  by (cases h) (simp_all add: wrap_invoice_id_def wrap_invoice_id_pdfkit chunk_loop_chunks chars_per_line_pos)

lemma length_chunks_ge_2:
  assumes "0 < n" "n < length s"
  shows "2 \<le> length (chunks n s)"
proof -
  from assms have "s \<noteq> []" "drop n s \<noteq> []" by auto
  with assms show ?thesis by (simp add: chunks_nonempty [of s n] chunks_nonempty [of "drop n s" n])
qed

subsection \<open>Properties\<close>

text \<open>
  C4: the font-shrinking loop ends at a size between 6 and 10 points; above 6 points the
  unwrapped invoice number fits the 220-point column at the chosen size, and at every larger
  size up to 10 it was too wide. So the loop picks the largest size at which the number fits,
  or the floor of 6 points, for any text measurement.
\<close>

theorem id_font_size_spec:
  "6 \<le> id_font_size m s \<and> id_font_size m s \<le> 10 \<and>
   (6 < id_font_size m s \<longrightarrow> width_of_string m Helvetica (id_font_size m s) s \<le> right_col_width) \<and>
   (\<forall>k. id_font_size m s < k \<and> k \<le> 10 \<longrightarrow> right_col_width < width_of_string m Helvetica k s)"
  unfolding id_font_size_def using shrink_id_font_spec [of 10 m s] by simp

theorem id_font_size_spec_witness:
  "id_font_size sample_metrics (replicate 40 CHR ''7'') = 9 \<and>
   width_of_string sample_metrics Helvetica 9 (replicate 40 CHR ''7'') \<le> right_col_width \<and>
   right_col_width < width_of_string sample_metrics Helvetica 10 (replicate 40 CHR ''7'')"
proof -
  have w: "width_of_string sample_metrics Helvetica n (replicate 40 CHR ''7'') = of_nat n * 24" for n
    by (simp add: sample_metrics_def)
  have "id_font_size sample_metrics (replicate 40 CHR ''7'') = 9"
    unfolding id_font_size_def
    by (simp add: shrink_id_font.simps [of sample_metrics _ 10] shrink_id_font.simps [of sample_metrics _ 9]
        w right_col_width_def)
  then show ?thesis
    using id_font_size_spec [of sample_metrics "replicate 40 CHR ''7''"] by (simp add: w right_col_width_def)
qed

text \<open>
  The characters-per-line count \<open>max(10, floor(220 / max(4, 0.6 * fs)))\<close>, computed on
  rationals, is the integer expression \<open>max 10 (if 3 fs \<le> 20 then 55 else 1100 div (3 fs))\<close>:
  55, 52, 45, 40 and 36 characters for the sizes 6 to 10.
\<close>

theorem chars_per_line_closed_form:
  "chars_per_line right_col_width fs = max 10 (if 3 * fs \<le> 20 then 55 else 1100 div (3 * fs))"
proof (cases "3 * fs \<le> 20")
  case True
  then have "approx_char_width fs = 4" by (simp add: approx_char_width_def max_def)
  with True show ?thesis by (simp add: chars_per_line_def right_col_width_def)
next
  case False
  then have a: "approx_char_width fs = of_nat fs * (6 / 10)" by (simp add: approx_char_width_def max_def)
  from False have "(220 :: rat) / (of_nat fs * (6 / 10)) = of_int 1100 / of_int (int (3 * fs))"
    by (simp add: field_simps)
  then have "\<lfloor>(220 :: rat) / approx_char_width fs\<rfloor> = int (1100 div (3 * fs))"
    unfolding a by (simp only: floor_divide_of_int_eq) (simp add: zdiv_int)
  with False show ?thesis by (simp add: chars_per_line_def right_col_width_def)
qed

text \<open>
  C5: when the chunking loop returns, its pieces concatenate back to the invoice number, each
  piece has between 1 and \<open>n\<close> characters, and there are \<open>ceil(length / n)\<close> of them.
  (It returns for every \<open>n > 0\<close>, see \<open>chunk_loop_chunks\<close>.)
\<close>

theorem chunk_loop_roundtrip:
  assumes "0 < n" "chunk_loop n s 0 [] = Some ls"
  shows "concat ls = s \<and> (\<forall>l \<in> set ls. 0 < length l \<and> length l \<le> n) \<and>
         length ls = (length s + n - 1) div n"
proof -
  from assms have "ls = chunks n s" by (simp add: chunk_loop_chunks)
  with assms(1) show ?thesis by (auto simp: concat_chunks length_chunks dest: chunks_length_bounds)
qed

theorem chunk_loop_roundtrip_witness:
  "chunk_loop 4 ''NK2IT-1756'' 0 [] = Some [''NK2I'', ''T-17'', ''56''] \<and>
   concat [''NK2I'', ''T-17'', ''56''] = ''NK2IT-1756''"
proof -
  have l: "chunk_loop 4 ''NK2IT-1756'' 0 [] = Some [''NK2I'', ''T-17'', ''56'']"
    by (simp add: chunk_loop_chunks chunks.simps)
  show ?thesis using chunk_loop_roundtrip [OF _ l] l by simp
qed

text \<open>
  C6: with pdfkit (no \<open>splitTextToSize\<close>), an invoice number longer than the
  characters-per-line count is wrapped into at least two lines, which concatenate back to it.
\<close>

theorem long_id_wraps:
  assumes "wrap_invoice_id None s fs = Some ls" "chars_per_line right_col_width fs < length s"
  shows "2 \<le> length ls \<and> concat ls = s"
proof -
  from assms(1) have "ls = chunks (chars_per_line right_col_width fs) s"
    by (simp add: wrap_invoice_id_pdfkit)
  with length_chunks_ge_2 [OF chars_per_line_pos assms(2)] concat_chunks [OF chars_per_line_pos]
  show ?thesis by simp
qed

theorem long_id_wraps_witness:
  "wrap_invoice_id None (replicate 60 CHR ''9'') 10 = Some (chunks 36 (replicate 60 CHR ''9'')) \<and>
   chars_per_line right_col_width 10 < length (replicate 60 CHR ''9'') \<and>
   2 \<le> length (chunks 36 (replicate 60 CHR ''9''))"
proof -
  have c: "chars_per_line right_col_width 10 = 36"
    by code_simp
  have w: "wrap_invoice_id None (replicate 60 CHR ''9'') 10 = Some (chunks 36 (replicate 60 CHR ''9''))"
    by (simp add: wrap_invoice_id_pdfkit c)
  from long_id_wraps [OF w] c w show ?thesis by simp
qed

end
