(* ===== verification/Invoice_Page.thy ===== *)
theory Invoice_Page
  imports Id_Wrap
begin

section \<open>The invoice page\<close>

text \<open>
  \<open>generateInvoicePDF\<close> (\<^verbatim>\<open>src/server/services/pdfService.ts\<close>) drives a pdfkit document:
  it sets a fill colour, a font and a size, which stay in force for the following calls, and
  draws texts, an image and a line at fixed coordinates. The model threads that document
  state through one definition per block of the source, in the source's order; the page's
  content is the list of drawing operations. What the environment supplies is a record:
  the text measurement, whether the logo file can be read, the formatted date, the
  \<open>splitTextToSize\<close> helper if the engine has one, and an error of the output stream.
\<close>

datatype align = Align_left | Align_center | Align_right

datatype draw_op =
    Draw_image pt pt pt
      \<comment> \<open>\<open>doc.image(logo, x, y, {width})\<close>\<close>
  | Draw_text font nat string string pt pt "pt option" align
      \<comment> \<open>font, size, fill colour, text, x, y, \<open>width\<close> option, \<open>align\<close>\<close>
  | Draw_line pt pt pt pt
      \<comment> \<open>\<open>moveTo(x1, y1).lineTo(x2, y2).stroke()\<close>\<close>

record page_doc =
  pg_width :: pt
  pg_height :: pt
  pg_margin :: pt
  fill :: string
  cur_font :: font
  cur_size :: nat
  cur_y :: pt
  ops :: "draw_op list"

record render_env =
  env_metrics :: metrics
  env_logo_readable :: bool
  env_date :: string
    \<comment> \<open>\<open>new Date().toLocaleDateString("en-AU")\<close>\<close>
  env_split_text :: "(string \<Rightarrow> pt \<Rightarrow> string list) option"
    \<comment> \<open>\<open>(doc as any).splitTextToSize\<close>; \<open>None\<close> for pdfkit\<close>
  env_stream_error :: "string option"
    \<comment> \<open>an \<open>error\<close> event of the PDF stream\<close>

subsection \<open>The pdfkit calls\<close>

definition new_document :: "pt \<Rightarrow> pt \<Rightarrow> pt \<Rightarrow> page_doc" where
  \<comment> \<open>\<open>new PDFDocument({size, margin})\<close>: black, Helvetica 12, cursor at the top margin\<close>
  "new_document w h mg =
     \<lparr>pg_width = w, pg_height = h, pg_margin = mg, fill = ''#000000'', cur_font = Helvetica,
      cur_size = 12, cur_y = mg, ops = []\<rparr>"

definition fill_color :: "string \<Rightarrow> page_doc \<Rightarrow> page_doc" where
  "fill_color c d = d\<lparr>fill := c\<rparr>"

definition set_font :: "font \<Rightarrow> page_doc \<Rightarrow> page_doc" where
  "set_font f d = d\<lparr>cur_font := f\<rparr>"

definition font_size :: "nat \<Rightarrow> page_doc \<Rightarrow> page_doc" where
  "font_size n d = d\<lparr>cur_size := n\<rparr>"

definition text_at ::
    "metrics \<Rightarrow> string \<Rightarrow> pt \<Rightarrow> pt \<Rightarrow> pt option \<Rightarrow> align \<Rightarrow> page_doc \<Rightarrow> page_doc" where
  \<comment> \<open>\<open>doc.text(s, x, y, opts)\<close>: drawn in the current state; the cursor moves below it\<close>
  "text_at m s x y w al d =
     d\<lparr>ops := ops d @ [Draw_text (cur_font d) (cur_size d) (fill d) s x y w al],
       cur_y := y + height_of_string m (cur_font d) (cur_size d)
                  (case w of Some c \<Rightarrow> c | None \<Rightarrow> pg_width d - pg_margin d - x) s\<rparr>"

definition image_at :: "pt \<Rightarrow> pt \<Rightarrow> pt \<Rightarrow> page_doc \<Rightarrow> page_doc" where
  "image_at x y w d = d\<lparr>ops := ops d @ [Draw_image x y w]\<rparr>"

definition stroke_line :: "pt \<Rightarrow> pt \<Rightarrow> pt \<Rightarrow> pt \<Rightarrow> page_doc \<Rightarrow> page_doc" where
  "stroke_line x1 y1 x2 y2 d = d\<lparr>ops := ops d @ [Draw_line x1 y1 x2 y2]\<rparr>"

subsection \<open>The blocks of the page, in the source's order\<close>

definition header_y :: pt where "header_y = 40"
definition logo_width :: pt where "logo_width = 140"
definition after_logo_y :: pt where
  \<comment> \<open>\<open>headerY + (logoWidth * 0.35) + 8\<close>\<close>
  "after_logo_y = header_y + logo_width * (35 / 100) + 8"
definition company_y :: pt where "company_y = after_logo_y + 36"

definition draw_logo :: "render_env \<Rightarrow> page_doc \<Rightarrow> page_doc" where
  \<comment> \<open>lines 39--46: an unreadable logo throws inside the \<open>try\<close> and is skipped\<close>
  "draw_logo env d =
     (if env_logo_readable env then image_at (pg_width d / 2 - logo_width / 2) header_y logo_width d
      else d)"

definition title_block :: "metrics \<Rightarrow> page_doc \<Rightarrow> page_doc" where
  \<comment> \<open>lines 52--55\<close>
  "title_block m d =
     text_at m ''INVOICE'' (pg_margin d) after_logo_y (Some (pg_width d - pg_margin d - pg_margin d))
       Align_center (font_size 22 (set_font Helvetica_Bold (fill_color ''#FF7A00'' d)))"

definition company_block :: "metrics \<Rightarrow> page_doc \<Rightarrow> page_doc" where
  \<comment> \<open>lines 58--68\<close>
  "company_block m d =
     (let x = pg_margin d;
          d1 = text_at m ''NK2IT PTY LTD'' x company_y None Align_left
                 (set_font Helvetica_Bold (font_size 12 (fill_color ''#000000'' d)));
          d2 = font_size 10 (set_font Helvetica d1);
          d3 = text_at m ''222, 20B Lexington Drive'' x (company_y + 18) None Align_left d2;
          d4 = text_at m ''Norwest Business Park'' x (company_y + 32) None Align_left d3
      in text_at m ''Baulkham Hills NSW 2153'' x (company_y + 46) None Align_left d4)"

definition right_col_x :: "page_doc \<Rightarrow> pt" where
  "right_col_x d = pg_width d - pg_margin d - right_col_width"

definition label_font_size :: nat where "label_font_size = 12"

definition id_y :: pt where
  \<comment> \<open>\<open>labelY + labelFontSize + 6\<close>, with \<open>labelY = metaY = companyY\<close>\<close>
  "id_y = company_y + of_nat label_font_size + 6"

definition id_block_height :: "metrics \<Rightarrow> nat \<Rightarrow> string \<Rightarrow> pt" where
  \<comment> \<open>\<open>invoiceIdText ? doc.heightOfString(invoiceIdText, {width, align}) : 0\<close>\<close>
  "id_block_height m fs t = (if t = [] then 0 else height_of_string m Helvetica fs right_col_width t)"

definition date_label_y :: "metrics \<Rightarrow> nat \<Rightarrow> string \<Rightarrow> pt" where
  \<comment> \<open>\<open>idY + invoiceIdHeight + 8\<close>\<close>
  "date_label_y m fs t = id_y + id_block_height m fs t + 8"

definition meta_block :: "render_env \<Rightarrow> nat \<Rightarrow> string list \<Rightarrow> page_doc \<Rightarrow> page_doc" where
  \<comment> \<open>lines 109--133, after the font size and the lines are known\<close>
  "meta_block env fs lines d =
     (let m = env_metrics env; x = right_col_x d; w = Some right_col_width;
          t = js_join ''\<newline>'' lines;
          d1 = text_at m ''INVOICE NUMBER:'' x company_y w Align_right
                 (font_size label_font_size (set_font Helvetica_Bold d));
          d2 = text_at m t x id_y w Align_right (font_size fs (set_font Helvetica d1));
          dy = date_label_y m fs t;
          d3 = text_at m ''Date:'' x dy w Align_right (font_size 10 (set_font Helvetica_Bold d2))
      in text_at m (env_date env) x (dy + 14) w Align_right (font_size 10 (set_font Helvetica d3)))"

definition bill_to_block :: "metrics \<Rightarrow> invoice_data \<Rightarrow> page_doc \<Rightarrow> page_doc" where
  \<comment> \<open>lines 137--140\<close>
  "bill_to_block m data d =
     (let d1 = text_at m ''BILL TO'' 50 (company_y + 80) None Align_left
                 (set_font Helvetica_Bold (font_size 14 d))
      in text_at m (''Email: '' @ inv_email data) 50 (company_y + 105) None Align_left
           (set_font Helvetica (font_size 12 d1)))"

definition table_top :: pt where "table_top = 280"
definition product_row :: pt where "product_row = table_top + 30"
definition totals_y :: pt where "totals_y = product_row + 80"
definition terms_y :: pt where "terms_y = totals_y + 100"

definition texts_at :: "metrics \<Rightarrow> (string \<times> pt) list \<Rightarrow> pt \<Rightarrow> page_doc \<Rightarrow> page_doc" where
  \<comment> \<open>a chain \<open>.text(s1, x1, y).text(s2, x2, y)\<dots>\<close> on one row\<close>
  "texts_at m cells y d = fold (\<lambda>(s, x). text_at m s x y None Align_left) cells d"

definition table_block :: "metrics \<Rightarrow> invoice_data \<Rightarrow> page_doc \<Rightarrow> page_doc" where
  \<comment> \<open>lines 142--165\<close>
  "table_block m data d =
     (let price = format_money (inv_amount_cents data);
          d1 = texts_at m [(''NO'', 50), (''QUANTITY'', 90), (''PRODUCT DESCRIPTION'', 160),
                 (''UNIT PRICE'', 380), (''TOTAL PRICE'', 470)] table_top
                 (set_font Helvetica_Bold (font_size 12 d));
          d2 = stroke_line 50 (table_top + 20) 550 (table_top + 20) d1
      in texts_at m [(''1'', 50), (''1'', 90), (''Symantec Endpoint Protection License'', 160),
                 (price, 380), (price, 470)] product_row
           (set_font Helvetica (font_size 12 d2)))"

definition license_block :: "metrics \<Rightarrow> invoice_data \<Rightarrow> page_doc \<Rightarrow> page_doc" where
  \<comment> \<open>lines 167--172\<close>
  "license_block m data d =
     (let d1 = text_at m ''License Key:'' 50 (product_row + 40) None Align_left
                 (set_font Helvetica_Bold (font_size 12 d))
      in text_at m (inv_license_key data) 140 (product_row + 40) None Align_left (set_font Helvetica d1))"

definition totals_block :: "metrics \<Rightarrow> invoice_data \<Rightarrow> page_doc \<Rightarrow> page_doc" where
  \<comment> \<open>lines 174--182: the font of the licence key line is still in force\<close>
  "totals_block m data d =
     (let a = inv_amount_cents data;
          d1 = texts_at m [(''AMOUNT:'', 400), (format_money a, 470)] totals_y d;
          d2 = texts_at m [(''GST (10%):'', 400), (format_money (gst_cents a), 470)] (totals_y + 20) d1
      in texts_at m [(''TOTAL:'', 400), (format_money (total_cents a), 470)] (totals_y + 40)
           (set_font Helvetica_Bold d2))"

definition terms_text :: "string list" where
  \<comment> \<open>lines 190--204\<close>
  "terms_text = [
     ''Payment Terms: Once the payment is processed, a license key will be sent to the registered email address.'',
     [],
     ''Refund Policy: All sales are final. No refunds will be issued after the software has been purchased or delivered.'',
     ''If the software is defective or an incorrect product is delivered, please contact customer support within 7 days.'',
     [],
     ''License Terms: The purchase provides a non-transferable license to use the Symantec Endpoint Agent software.'',
     ''Ownership remains with Symantec and is subject to the terms of the EULA (End-User License Agreement).'',
     [],
     ''Support: Basic customer support is available through support@nk2it.com.au. If you require extended support,'',
     ''you must coordinate with respective vendors.'',
     [],
     ''Limitation of Liability: Our liability is limited to the purchase price of the software. We are not responsible'',
     ''for any consequential, incidental, or indirect damages arising from the use or inability to use the software.'']"

fun terms_loop :: "metrics \<Rightarrow> string list \<Rightarrow> pt \<Rightarrow> page_doc \<Rightarrow> page_doc \<times> pt" where
  \<comment> \<open>\<open>termsText.forEach\<close>: a blank line adds 10 points, a line is drawn and adds 15\<close>
  "terms_loop m [] y d = (d, y)"
| "terms_loop m (l # ls) y d =
     (if l = [] then terms_loop m ls (y + 10) d
      else terms_loop m ls (y + 15) (text_at m l 50 y (Some 500) Align_left d))"

definition terms_block :: "metrics \<Rightarrow> page_doc \<Rightarrow> page_doc" where
  \<comment> \<open>lines 185--216\<close>
  "terms_block m d =
     fst (terms_loop m terms_text (terms_y + 30)
       (set_font Helvetica (font_size 10
         (text_at m ''TERMS & CONDITIONS:'' 50 terms_y None Align_left
           (set_font Helvetica_Bold (font_size 14 d))))))"

definition footer_y :: "page_doc \<Rightarrow> pt" where
  "footer_y d = pg_height d - 80"

definition footer_block :: "metrics \<Rightarrow> page_doc \<Rightarrow> page_doc" where
  \<comment> \<open>lines 218--240\<close>
  "footer_block m d =
     (let d1 = text_at m ''Thank you for your purchase! Powered by NK2IT'' 50 (footer_y d) (Some 500)
                 Align_center (set_font Helvetica_Bold (font_size 14 (fill_color ''#00A65A'' d)))
      in text_at m ''Email: support@nk2it.com.au | Phone: 1300 NK2 IT | Website: nk2it.com.au'' 50
           (footer_y d + 30) (Some 500) Align_center
           (set_font Helvetica (font_size 10 (fill_color ''#000000'' d1))))"

subsection \<open>The whole renderer\<close>

definition invoice_page :: "render_env \<Rightarrow> invoice_data \<Rightarrow> page_doc option" where
  \<comment> \<open>the body of the promise of \<open>generateInvoicePDF\<close>, lines 33--242; \<open>None\<close> when the
     wrapping loop does not end\<close>
  "invoice_page env data =
     (let m = env_metrics env;
          d0 = new_document 612 792 50;
          d1 = company_block m (title_block m (draw_logo env d0));
          raw = inv_id data;
          fs = id_font_size m raw;
          d2 = font_size fs (set_font Helvetica d1)
      in map_option
           (\<lambda>lines. footer_block m (terms_block m (totals_block m data (license_block m data
                      (table_block m data (bill_to_block m data (meta_block env fs lines d2)))))))
           (wrap_invoice_id (env_split_text env) raw fs))"

definition generate_invoice_pdf :: "render_env \<Rightarrow> invoice_data \<Rightarrow> (string + draw_op list) option" where
  \<comment> \<open>the promise: rejected by a stream error, resolved with the page at \<open>end\<close>,
     unsettled (\<open>None\<close>) when the page is never finished\<close>
  "generate_invoice_pdf env data =
     map_option (\<lambda>d. case env_stream_error env of Some e \<Rightarrow> Inl e | None \<Rightarrow> Inr (ops d))
       (invoice_page env data)"

subsection \<open>How each block changes the document\<close>

text \<open>
  Each block appends drawing operations that depend only on the fill colour, font, size and
  page dimensions in force, and leaves a state that depends only on those. These rules,
  collected in \<open>layout_simps\<close>, compute the page without unfolding the pdfkit calls.
\<close>

fun text_row :: "font \<Rightarrow> nat \<Rightarrow> string \<Rightarrow> (string \<times> pt) list \<Rightarrow> pt \<Rightarrow> draw_op list" where
  "text_row f n c [] y = []"
| "text_row f n c ((s, x) # cells) y = Draw_text f n c s x y None Align_left # text_row f n c cells y"

fun terms_ops :: "font \<Rightarrow> nat \<Rightarrow> string \<Rightarrow> string list \<Rightarrow> pt \<Rightarrow> draw_op list" where
  "terms_ops f n c [] y = []"
| "terms_ops f n c (l # ls) y =
     (if l = [] then terms_ops f n c ls (y + 10)
      else Draw_text f n c l 50 y (Some 500) Align_left # terms_ops f n c ls (y + 15))"

definition page_ops :: "render_env \<Rightarrow> invoice_data \<Rightarrow> nat \<Rightarrow> string list \<Rightarrow> draw_op list" where
  \<comment> \<open>the operations of a page whose id was wrapped into \<open>lines\<close> at size \<open>fs\<close>\<close>
  "page_ops env data fs lines =
     ops (footer_block (env_metrics env) (terms_block (env_metrics env)
       (totals_block (env_metrics env) data (license_block (env_metrics env) data
       (table_block (env_metrics env) data (bill_to_block (env_metrics env) data
       (meta_block env fs lines (font_size fs (set_font Helvetica
         (company_block (env_metrics env) (title_block (env_metrics env)
           (draw_logo env (new_document 612 792 50)))))))))))))"

subsection \<open>Samples for the witnesses\<close>

definition sample_env :: render_env where
  "sample_env = \<lparr>env_metrics = sample_metrics, env_logo_readable = True, env_date = ''25/08/2025'',
                 env_split_text = None, env_stream_error = None\<rparr>"

definition sample_invoice :: invoice_data where
  "sample_invoice = \<lparr>inv_id = ''NK2IT-1756000000'', inv_email = ''user@example.com'',
                     inv_license_key = ''ABCD-EFGH'', inv_amount_cents = 1995\<rparr>"

lemmas pdfkit_defs = text_at_def fill_color_def set_font_def font_size_def image_at_def
  stroke_line_def

lemma texts_at_state [layout_simps]:
  "ops (texts_at m cells y d) = ops d @ text_row (cur_font d) (cur_size d) (fill d) cells y \<and>
   fill (texts_at m cells y d) = fill d \<and> cur_font (texts_at m cells y d) = cur_font d \<and>
   cur_size (texts_at m cells y d) = cur_size d \<and> pg_width (texts_at m cells y d) = pg_width d \<and>
   pg_height (texts_at m cells y d) = pg_height d \<and> pg_margin (texts_at m cells y d) = pg_margin d"
  unfolding texts_at_def
  by (induction cells arbitrary: d) (auto simp: text_at_def)

lemma terms_loop_state [layout_simps]:
  "ops (fst (terms_loop m ls y d)) = ops d @ terms_ops (cur_font d) (cur_size d) (fill d) ls y \<and>
   fill (fst (terms_loop m ls y d)) = fill d \<and> cur_font (fst (terms_loop m ls y d)) = cur_font d \<and>
   cur_size (fst (terms_loop m ls y d)) = cur_size d \<and> pg_width (fst (terms_loop m ls y d)) = pg_width d \<and>
   pg_height (fst (terms_loop m ls y d)) = pg_height d \<and>
   pg_margin (fst (terms_loop m ls y d)) = pg_margin d"
  by (induction m ls y d rule: terms_loop.induct) (auto simp: text_at_def)

lemma draw_logo_state [layout_simps]:
  "ops (draw_logo env d) =
     ops d @ (if env_logo_readable env then [Draw_image (pg_width d / 2 - 70) 40 140] else []) \<and>
   fill (draw_logo env d) = fill d \<and> cur_font (draw_logo env d) = cur_font d \<and>
   cur_size (draw_logo env d) = cur_size d \<and> pg_width (draw_logo env d) = pg_width d \<and>
   pg_height (draw_logo env d) = pg_height d \<and> pg_margin (draw_logo env d) = pg_margin d"
  by (simp add: draw_logo_def image_at_def header_y_def logo_width_def)

lemma title_block_state [layout_simps]:
  "ops (title_block m d) = ops d @ [Draw_text Helvetica_Bold 22 ''#FF7A00'' ''INVOICE'' (pg_margin d)
      after_logo_y (Some (pg_width d - pg_margin d - pg_margin d)) Align_center] \<and>
   fill (title_block m d) = ''#FF7A00'' \<and> cur_font (title_block m d) = Helvetica_Bold \<and>
   cur_size (title_block m d) = 22 \<and> pg_width (title_block m d) = pg_width d \<and>
   pg_height (title_block m d) = pg_height d \<and> pg_margin (title_block m d) = pg_margin d"
  by (simp add: title_block_def pdfkit_defs)

lemma company_block_state [layout_simps]:
  "ops (company_block m d) = ops d @
     [Draw_text Helvetica_Bold 12 ''#000000'' ''NK2IT PTY LTD'' (pg_margin d) company_y None Align_left,
      Draw_text Helvetica 10 ''#000000'' ''222, 20B Lexington Drive'' (pg_margin d) (company_y + 18) None Align_left,
      Draw_text Helvetica 10 ''#000000'' ''Norwest Business Park'' (pg_margin d) (company_y + 32) None Align_left,
      Draw_text Helvetica 10 ''#000000'' ''Baulkham Hills NSW 2153'' (pg_margin d) (company_y + 46) None Align_left] \<and>
   fill (company_block m d) = ''#000000'' \<and> cur_font (company_block m d) = Helvetica \<and>
   cur_size (company_block m d) = 10 \<and> pg_width (company_block m d) = pg_width d \<and>
   pg_height (company_block m d) = pg_height d \<and> pg_margin (company_block m d) = pg_margin d"
  by (simp add: company_block_def Let_def pdfkit_defs)

lemma meta_block_state [layout_simps]:
  "ops (meta_block env fs lines d) = ops d @
     [Draw_text Helvetica_Bold 12 (fill d) ''INVOICE NUMBER:'' (right_col_x d) company_y (Some right_col_width) Align_right,
      Draw_text Helvetica fs (fill d) (js_join ''\<newline>'' lines) (right_col_x d) id_y (Some right_col_width) Align_right,
      Draw_text Helvetica_Bold 10 (fill d) ''Date:'' (right_col_x d)
        (date_label_y (env_metrics env) fs (js_join ''\<newline>'' lines)) (Some right_col_width) Align_right,
      Draw_text Helvetica 10 (fill d) (env_date env) (right_col_x d)
        (date_label_y (env_metrics env) fs (js_join ''\<newline>'' lines) + 14) (Some right_col_width) Align_right] \<and>
   fill (meta_block env fs lines d) = fill d \<and> cur_font (meta_block env fs lines d) = Helvetica \<and>
   cur_size (meta_block env fs lines d) = 10 \<and> pg_width (meta_block env fs lines d) = pg_width d \<and>
   pg_height (meta_block env fs lines d) = pg_height d \<and> pg_margin (meta_block env fs lines d) = pg_margin d"
  by (simp add: meta_block_def Let_def pdfkit_defs right_col_x_def label_font_size_def)

lemma bill_to_block_state [layout_simps]:
  "ops (bill_to_block m data d) = ops d @
     [Draw_text Helvetica_Bold 14 (fill d) ''BILL TO'' 50 (company_y + 80) None Align_left,
      Draw_text Helvetica 12 (fill d) (''Email: '' @ inv_email data) 50 (company_y + 105) None Align_left] \<and>
   fill (bill_to_block m data d) = fill d \<and> cur_font (bill_to_block m data d) = Helvetica \<and>
   cur_size (bill_to_block m data d) = 12 \<and> pg_width (bill_to_block m data d) = pg_width d \<and>
   pg_height (bill_to_block m data d) = pg_height d \<and> pg_margin (bill_to_block m data d) = pg_margin d"
  by (simp add: bill_to_block_def Let_def pdfkit_defs)

lemma table_block_state [layout_simps]:
  "ops (table_block m data d) = ops d @
     text_row Helvetica_Bold 12 (fill d) [(''NO'', 50), (''QUANTITY'', 90), (''PRODUCT DESCRIPTION'', 160),
       (''UNIT PRICE'', 380), (''TOTAL PRICE'', 470)] table_top @
     [Draw_line 50 (table_top + 20) 550 (table_top + 20)] @
     text_row Helvetica 12 (fill d) [(''1'', 50), (''1'', 90), (''Symantec Endpoint Protection License'', 160),
       (format_money (inv_amount_cents data), 380), (format_money (inv_amount_cents data), 470)] product_row \<and>
   fill (table_block m data d) = fill d \<and> cur_font (table_block m data d) = Helvetica \<and>
   cur_size (table_block m data d) = 12 \<and> pg_width (table_block m data d) = pg_width d \<and>
   pg_height (table_block m data d) = pg_height d \<and> pg_margin (table_block m data d) = pg_margin d"
  by (simp add: table_block_def Let_def pdfkit_defs texts_at_state)

lemma license_block_state [layout_simps]:
  "ops (license_block m data d) = ops d @
     [Draw_text Helvetica_Bold 12 (fill d) ''License Key:'' 50 (product_row + 40) None Align_left,
      Draw_text Helvetica 12 (fill d) (inv_license_key data) 140 (product_row + 40) None Align_left] \<and>
   fill (license_block m data d) = fill d \<and> cur_font (license_block m data d) = Helvetica \<and>
   cur_size (license_block m data d) = 12 \<and> pg_width (license_block m data d) = pg_width d \<and>
   pg_height (license_block m data d) = pg_height d \<and> pg_margin (license_block m data d) = pg_margin d"
  by (simp add: license_block_def Let_def pdfkit_defs)

lemma totals_block_state [layout_simps]:
  "ops (totals_block m data d) = ops d @
     text_row (cur_font d) (cur_size d) (fill d)
       [(''AMOUNT:'', 400), (format_money (inv_amount_cents data), 470)] totals_y @
     text_row (cur_font d) (cur_size d) (fill d)
       [(''GST (10%):'', 400), (format_money (gst_cents (inv_amount_cents data)), 470)] (totals_y + 20) @
     text_row Helvetica_Bold (cur_size d) (fill d)
       [(''TOTAL:'', 400), (format_money (total_cents (inv_amount_cents data)), 470)] (totals_y + 40) \<and>
   fill (totals_block m data d) = fill d \<and> cur_font (totals_block m data d) = Helvetica_Bold \<and>
   cur_size (totals_block m data d) = cur_size d \<and> pg_width (totals_block m data d) = pg_width d \<and>
   pg_height (totals_block m data d) = pg_height d \<and> pg_margin (totals_block m data d) = pg_margin d"
  by (simp add: totals_block_def Let_def pdfkit_defs texts_at_state)

lemma terms_block_state [layout_simps]:
  "ops (terms_block m d) = ops d @
     [Draw_text Helvetica_Bold 14 (fill d) ''TERMS & CONDITIONS:'' 50 terms_y None Align_left] @
     terms_ops Helvetica 10 (fill d) terms_text (terms_y + 30) \<and>
   fill (terms_block m d) = fill d \<and> cur_font (terms_block m d) = Helvetica \<and>
   cur_size (terms_block m d) = 10 \<and> pg_width (terms_block m d) = pg_width d \<and>
   pg_height (terms_block m d) = pg_height d \<and> pg_margin (terms_block m d) = pg_margin d"
  by (simp add: terms_block_def pdfkit_defs terms_loop_state)

lemma footer_block_state [layout_simps]:
  "ops (footer_block m d) = ops d @
     [Draw_text Helvetica_Bold 14 ''#00A65A'' ''Thank you for your purchase! Powered by NK2IT'' 50
        (pg_height d - 80) (Some 500) Align_center,
      Draw_text Helvetica 10 ''#000000'' ''Email: support@nk2it.com.au | Phone: 1300 NK2 IT | Website: nk2it.com.au''
        50 (pg_height d - 80 + 30) (Some 500) Align_center]"
  by (simp add: footer_block_def Let_def pdfkit_defs footer_y_def)

lemma new_document_state [layout_simps]:
  "ops (new_document w h mg) = [] \<and> fill (new_document w h mg) = ''#000000'' \<and>
   cur_font (new_document w h mg) = Helvetica \<and> cur_size (new_document w h mg) = 12 \<and>
   pg_width (new_document w h mg) = w \<and> pg_height (new_document w h mg) = h \<and>
   pg_margin (new_document w h mg) = mg"
  by (simp add: new_document_def)

lemma set_font_size_state [layout_simps]:
  "ops (font_size n (set_font f d)) = ops d \<and> fill (font_size n (set_font f d)) = fill d \<and>
   cur_font (font_size n (set_font f d)) = f \<and> cur_size (font_size n (set_font f d)) = n \<and>
   pg_width (font_size n (set_font f d)) = pg_width d \<and> pg_height (font_size n (set_font f d)) = pg_height d \<and>
   pg_margin (font_size n (set_font f d)) = pg_margin d"
  by (simp add: font_size_def set_font_def)

lemma invoice_page_Some:
  "invoice_page env data = Some d \<longleftrightarrow>
   (\<exists>lines. wrap_invoice_id (env_split_text env) (inv_id data) (id_font_size (env_metrics env) (inv_id data))
              = Some lines \<and>
            d = footer_block (env_metrics env) (terms_block (env_metrics env)
              (totals_block (env_metrics env) data (license_block (env_metrics env) data
              (table_block (env_metrics env) data (bill_to_block (env_metrics env) data
              (meta_block env (id_font_size (env_metrics env) (inv_id data)) lines
                (font_size (id_font_size (env_metrics env) (inv_id data)) (set_font Helvetica
                (company_block (env_metrics env) (title_block (env_metrics env)
                  (draw_logo env (new_document 612 792 50)))))))))))))"
  by (auto simp: invoice_page_def Let_def)

lemma generate_invoice_pdf_Inr:
  "generate_invoice_pdf env data = Some (Inr os) \<longleftrightarrow>
   env_stream_error env = None \<and>
   (\<exists>lines. wrap_invoice_id (env_split_text env) (inv_id data) (id_font_size (env_metrics env) (inv_id data))
              = Some lines \<and> os = page_ops env data (id_font_size (env_metrics env) (inv_id data)) lines)"
  by (auto simp: generate_invoice_pdf_def invoice_page_Some page_ops_def split: option.splits)

lemma layout_positions [layout_simps]:
  "right_col_width = 220 \<and> after_logo_y = 97 \<and> company_y = 133 \<and> id_y = 151 \<and>
   table_top = 280 \<and> product_row = 310 \<and> totals_y = 390 \<and> terms_y = 490"
  by (simp add: right_col_width_def after_logo_y_def company_y_def id_y_def header_y_def
      logo_width_def label_font_size_def table_top_def product_row_def totals_y_def terms_y_def)

lemma length_js_split: "length (js_split c s) = count_list s c + 1"
  by (induction c s rule: js_split.induct) (auto split: list.splits)

lemma count_js_join: "length ls - 1 \<le> count_list (js_join [c] ls) c"
  by (induction ls rule: induct_list012) auto

lemma chars_per_line_le_55: "chars_per_line right_col_width fs \<le> 55"
proof -
  have "4 \<le> approx_char_width fs" by (simp add: approx_char_width_def)
  then have "220 / approx_char_width fs \<le> (220 :: rat) / 4"
    by (intro divide_left_mono) auto
  then have "\<lfloor>220 / approx_char_width fs\<rfloor> \<le> \<lfloor>(220 :: rat) / 4\<rfloor>" by (rule floor_mono)
  also have "\<lfloor>(220 :: rat) / 4\<rfloor> = 55" by code_simp
  finally have "nat \<lfloor>220 / approx_char_width fs\<rfloor> \<le> 55" by linarith
  then show ?thesis by (simp add: chars_per_line_def right_col_width_def)
qed

lemma js_join_nonempty: "ls \<noteq> [] \<Longrightarrow> hd ls \<noteq> [] \<Longrightarrow> js_join sep ls \<noteq> []"
  by (induction sep ls rule: js_join.induct) auto

lemma generate_invoice_pdf_returns: "generate_invoice_pdf env data \<noteq> None"
  using wrap_invoice_id_returns [of "env_split_text env" "inv_id data"
      "id_font_size (env_metrics env) (inv_id data)"]
  by (auto simp: generate_invoice_pdf_def invoice_page_def Let_def)

subsection \<open>Properties\<close>

text \<open>
  C7: the renderer always settles: for every environment (any text measurement, logo,
  date, engine and stream) and every invoice, the promise of \<open>generateInvoicePDF\<close>
  resolves or rejects; the wrapping loop cannot hang because its step is at least 10.
\<close>

theorem render_settles: "\<exists>r. generate_invoice_pdf env data = Some r"
  using generate_invoice_pdf_returns by blast

text \<open>
  C8: with pdfkit, the page prints the invoice number in the right column at (342, 151),
  right-aligned in Helvetica at the size the shrinking loop chose, as lines of at most
  \<open>charsPerLine\<close> characters joined by newlines that together are exactly the number.
\<close>

theorem rendered_id_lines:
  assumes "env_split_text env = None" "env_stream_error env = None"
  shows "\<exists>os ls. generate_invoice_pdf env data = Some (Inr os) \<and>
    Draw_text Helvetica (id_font_size (env_metrics env) (inv_id data)) ''#000000'' (js_join ''\<newline>'' ls)
      342 151 (Some 220) Align_right \<in> set os \<and>
    concat ls = inv_id data \<and>
    (\<forall>l \<in> set ls. 0 < length l \<and>
       length l \<le> chars_per_line right_col_width (id_font_size (env_metrics env) (inv_id data)))"
proof -
  let ?fs = "id_font_size (env_metrics env) (inv_id data)"
  let ?ls = "chunks (chars_per_line right_col_width ?fs) (inv_id data)"
  have w: "wrap_invoice_id (env_split_text env) (inv_id data) ?fs = Some ?ls"
    using assms(1) by (simp add: wrap_invoice_id_pdfkit)
  have "generate_invoice_pdf env data = Some (Inr (page_ops env data ?fs ?ls))"
    using assms(2) w by (simp add: generate_invoice_pdf_Inr)
  moreover have "Draw_text Helvetica ?fs ''#000000'' (js_join ''\<newline>'' ?ls) 342 151 (Some 220) Align_right
      \<in> set (page_ops env data ?fs ?ls)"
    by (simp add: page_ops_def layout_simps right_col_x_def)
  moreover have "concat ?ls = inv_id data" by (simp add: concat_chunks chars_per_line_pos)
  moreover have "\<forall>l \<in> set ?ls. 0 < length l \<and> length l \<le> chars_per_line right_col_width ?fs"
    using chunks_length_bounds by blast
  ultimately show ?thesis by blast
qed

theorem rendered_id_lines_witness:
  "env_split_text sample_env = None \<and> env_stream_error sample_env = None \<and>
   (\<exists>os ls. generate_invoice_pdf sample_env sample_invoice = Some (Inr os) \<and> concat ls = ''NK2IT-1756000000'')"
  using rendered_id_lines [of sample_env sample_invoice]
  by (auto simp: sample_env_def sample_invoice_def)

text \<open>
  C9: the "Date" label is drawn exactly 8 points below the bottom of the invoice-number
  block as pdfkit measures it (\<open>heightOfString\<close> of the drawn text, at the drawn size, in
  the 220pt column), and the date 14 points below the label, whatever the measured height;
  so with a non-negative height the date never overlaps the number block.
\<close>

theorem date_below_id_block:
  assumes "env_stream_error env = None"
  shows "\<exists>os fs t. generate_invoice_pdf env data = Some (Inr os) \<and>
    Draw_text Helvetica fs ''#000000'' t 342 151 (Some 220) Align_right \<in> set os \<and>
    Draw_text Helvetica_Bold 10 ''#000000'' ''Date:'' 342
      (151 + (if t = [] then 0 else height_of_string (env_metrics env) Helvetica fs 220 t) + 8)
      (Some 220) Align_right \<in> set os \<and>
    Draw_text Helvetica 10 ''#000000'' (env_date env) 342
      (151 + (if t = [] then 0 else height_of_string (env_metrics env) Helvetica fs 220 t) + 22)
      (Some 220) Align_right \<in> set os"
proof -
  let ?fs = "id_font_size (env_metrics env) (inv_id data)"
  obtain ls where w: "wrap_invoice_id (env_split_text env) (inv_id data) ?fs = Some ls"
    using wrap_invoice_id_returns by blast
  have g: "generate_invoice_pdf env data = Some (Inr (page_ops env data ?fs ls))"
    using assms w by (simp add: generate_invoice_pdf_Inr)
  show ?thesis
    by (rule exI [of _ "page_ops env data ?fs ls"], rule exI [of _ ?fs],
        rule exI [of _ "js_join ''\<newline>'' ls"])
       (simp add: g page_ops_def layout_simps right_col_x_def date_label_y_def id_block_height_def
          right_col_width_def add.assoc)
qed

theorem date_below_id_block_witness:
  "env_stream_error sample_env = None \<and>
   (\<exists>os fs t. generate_invoice_pdf sample_env sample_invoice = Some (Inr os) \<and>
     Draw_text Helvetica_Bold 10 ''#000000'' ''Date:'' 342
       (151 + (if t = [] then 0 else height_of_string sample_metrics Helvetica fs 220 t) + 8)
       (Some 220) Align_right \<in> set os)"
proof -
  have e: "env_stream_error sample_env = None" and m: "env_metrics sample_env = sample_metrics"
    by (simp_all add: sample_env_def)
  from date_below_id_block [OF e, of sample_invoice] obtain os fs t where
    "generate_invoice_pdf sample_env sample_invoice = Some (Inr os)"
    "Draw_text Helvetica_Bold 10 ''#000000'' ''Date:'' 342
       (151 + (if t = [] then 0 else height_of_string (env_metrics sample_env) Helvetica fs 220 t) + 8)
       (Some 220) Align_right \<in> set os"
    by blast
  then show ?thesis using e unfolding m by blast
qed

text \<open>
  C11: the page prints the invoice's data where the layout puts it: the payer's e-mail after
  "Email: " at (50, 238), the unit and line price at (380, 310) and (470, 310), the licence
  key at (140, 350), the amount and GST in Helvetica 12 at (470, 390) and (470, 410), and the
  total in Helvetica-Bold 12 at (470, 430), all in black: the totals inherit the font of the
  licence-key line, and only the total line switches to bold.
\<close>

theorem invoice_prints_data:
  assumes "env_stream_error env = None"
  shows "\<exists>os. generate_invoice_pdf env data = Some (Inr os) \<and>
    Draw_text Helvetica 12 ''#000000'' (''Email: '' @ inv_email data) 50 238 None Align_left \<in> set os \<and>
    Draw_text Helvetica 12 ''#000000'' (format_money (inv_amount_cents data)) 380 310 None Align_left \<in> set os \<and>
    Draw_text Helvetica 12 ''#000000'' (format_money (inv_amount_cents data)) 470 310 None Align_left \<in> set os \<and>
    Draw_text Helvetica 12 ''#000000'' (inv_license_key data) 140 350 None Align_left \<in> set os \<and>
    Draw_text Helvetica 12 ''#000000'' (format_money (inv_amount_cents data)) 470 390 None Align_left \<in> set os \<and>
    Draw_text Helvetica 12 ''#000000'' (format_money (gst_cents (inv_amount_cents data))) 470 410 None Align_left
      \<in> set os \<and>
    Draw_text Helvetica_Bold 12 ''#000000'' (format_money (total_cents (inv_amount_cents data))) 470 430 None
      Align_left \<in> set os"
proof -
  let ?fs = "id_font_size (env_metrics env) (inv_id data)"
  obtain ls where w: "wrap_invoice_id (env_split_text env) (inv_id data) ?fs = Some ls"
    using wrap_invoice_id_returns by blast
  have g: "generate_invoice_pdf env data = Some (Inr (page_ops env data ?fs ls))"
    using assms w by (simp add: generate_invoice_pdf_Inr)
  show ?thesis
    by (rule exI [of _ "page_ops env data ?fs ls"]) (simp add: g page_ops_def layout_simps)
qed

text \<open>C10: an empty invoice id is a boundary case the code handles: with pdfkit no id line is
  produced, the id text is empty, its measured height is taken as 0, and the Date label and
  the date sit at the fixed positions 8pt and 22pt below \<open>idY\<close>.\<close>

theorem empty_id_header:
  assumes "env_stream_error env = None" "env_split_text env = None" "inv_id data = []"
  shows "\<exists>os fs. generate_invoice_pdf env data = Some (Inr os) \<and>
    Draw_text Helvetica fs ''#000000'' [] 342 151 (Some 220) Align_right \<in> set os \<and>
    Draw_text Helvetica_Bold 10 ''#000000'' ''Date:'' 342 159 (Some 220) Align_right \<in> set os \<and>
    Draw_text Helvetica 10 ''#000000'' (env_date env) 342 173 (Some 220) Align_right \<in> set os"
proof -
  let ?fs = "id_font_size (env_metrics env) (inv_id data)"
  have w: "wrap_invoice_id (env_split_text env) (inv_id data) ?fs = Some []"
    using assms(2,3) by (simp add: wrap_invoice_id_pdfkit)
  have g: "generate_invoice_pdf env data = Some (Inr (page_ops env data ?fs []))"
    using assms(1) w by (simp add: generate_invoice_pdf_Inr)
  show ?thesis
    by (rule exI [of _ "page_ops env data ?fs []"], rule exI [of _ ?fs])
       (simp add: g page_ops_def layout_simps right_col_x_def date_label_y_def id_block_height_def
          id_y_def company_y_def after_logo_y_def header_y_def logo_width_def label_font_size_def)
qed

theorem empty_id_header_witness:
  "\<exists>os fs. generate_invoice_pdf sample_env (sample_invoice\<lparr>inv_id := []\<rparr>) = Some (Inr os) \<and>
    Draw_text Helvetica_Bold 10 ''#000000'' ''Date:'' 342 159 (Some 220) Align_right \<in> set os"
proof -
  have "env_stream_error sample_env = None" "env_split_text sample_env = None"
       "inv_id (sample_invoice\<lparr>inv_id := []\<rparr>) = []"
    by (simp_all add: sample_env_def)
  from empty_id_header [OF this] show ?thesis by blast
qed

theorem invoice_prints_data_witness:
  "env_stream_error sample_env = None \<and>
   (\<exists>os. generate_invoice_pdf sample_env sample_invoice = Some (Inr os) \<and>
     Draw_text Helvetica_Bold 12 ''#000000'' ''$21.95'' 470 430 None Align_left \<in> set os)"
proof -
  have "gst_cents 1995 = 200" unfolding gst_cents_def js_round_tenth by simp
  then have t: "format_money (total_cents (inv_amount_cents sample_invoice)) = ''$21.95''"
    by (simp add: sample_invoice_def total_cents_def format_money_def js_to_fixed2_def
        dec_digits.simps digit_char_def)
  show ?thesis
    using invoice_prints_data [of sample_env sample_invoice] t by (auto simp: sample_env_def)
qed

text \<open>
  C12: an unreadable logo does not abort rendering: without the logo the promise still
  resolves, with a non-empty page and no image, and with the logo it resolves with the same
  page preceded by the centred 140-point image at (236, 40).
\<close>

theorem missing_logo_nonfatal:
  assumes "env_stream_error env = None"
  shows "\<exists>os. generate_invoice_pdf (env\<lparr>env_logo_readable := False\<rparr>) data = Some (Inr os) \<and>
    os \<noteq> [] \<and> (\<forall>x y w. Draw_image x y w \<notin> set os) \<and>
    generate_invoice_pdf (env\<lparr>env_logo_readable := True\<rparr>) data = Some (Inr (Draw_image 236 40 140 # os))"
proof -
  let ?fs = "id_font_size (env_metrics env) (inv_id data)"
  obtain ls where w: "wrap_invoice_id (env_split_text env) (inv_id data) ?fs = Some ls"
    using wrap_invoice_id_returns by blast
  let ?os = "page_ops (env\<lparr>env_logo_readable := False\<rparr>) data ?fs ls"
  have g0: "generate_invoice_pdf (env\<lparr>env_logo_readable := False\<rparr>) data = Some (Inr ?os)"
    using assms w by (simp add: generate_invoice_pdf_Inr)
  have g1: "generate_invoice_pdf (env\<lparr>env_logo_readable := True\<rparr>) data =
      Some (Inr (page_ops (env\<lparr>env_logo_readable := True\<rparr>) data ?fs ls))"
    using assms w by (simp add: generate_invoice_pdf_Inr)
  have eq: "page_ops (env\<lparr>env_logo_readable := True\<rparr>) data ?fs ls = Draw_image 236 40 140 # ?os"
    by (simp add: page_ops_def layout_simps right_col_x_def)
  have img: "\<forall>x y w. Draw_image x y w \<notin> set ?os"
    by (simp add: page_ops_def layout_simps terms_text_def)
  have ne: "?os \<noteq> []" by (simp add: page_ops_def layout_simps)
  from g0 g1 eq img ne show ?thesis by auto
qed

theorem missing_logo_nonfatal_witness:
  "env_stream_error sample_env = None \<and>
   (\<exists>os. generate_invoice_pdf (sample_env\<lparr>env_logo_readable := False\<rparr>) sample_invoice = Some (Inr os) \<and>
     os \<noteq> [])"
  using missing_logo_nonfatal [of sample_env sample_invoice] by (auto simp: sample_env_def)

text \<open>
  C13 (a gap of the layout): nothing bounds the header against the product table. If every
  line of text is at least as tall as its font size, an invoice number of 1000 characters or
  more pushes the date of the right column to y \<open>\<ge>\<close> 280, the top of the product table,
  which it overlaps (the table's "UNIT PRICE" column starts at x = 380, inside the right
  column 342..562).
\<close>

theorem long_id_reaches_table:
  assumes "env_split_text env = None" "env_stream_error env = None"
    and "\<forall>f n w t. of_nat n * of_nat (length (js_split CHR ''\<newline>'' t))
                    \<le> height_of_string (env_metrics env) f n w t"
    and "1000 \<le> length (inv_id data)"
  shows "\<exists>os y. generate_invoice_pdf env data = Some (Inr os) \<and>
    Draw_text Helvetica 10 ''#000000'' (env_date env) 342 y (Some 220) Align_right \<in> set os \<and>
    table_top \<le> y"
proof -
  let ?m = "env_metrics env"
  let ?fs = "id_font_size ?m (inv_id data)"
  let ?n = "chars_per_line right_col_width ?fs"
  let ?ls = "chunks ?n (inv_id data)"
  let ?t = "js_join ''\<newline>'' ?ls"
  have w: "wrap_invoice_id (env_split_text env) (inv_id data) ?fs = Some ?ls"
    using assms(1) by (simp add: wrap_invoice_id_pdfkit)
  have g: "generate_invoice_pdf env data = Some (Inr (page_ops env data ?fs ?ls))"
    using assms(2) w by (simp add: generate_invoice_pdf_Inr)
  have fs6: "6 \<le> ?fs" using shrink_id_font_spec [of 10 ?m "inv_id data"] by (simp add: id_font_size_def)
  have n55: "?n \<le> 55" by (rule chars_per_line_le_55)
  have "18 \<le> length (inv_id data) div ?n"
  proof -
    have "1000 div 55 \<le> length (inv_id data) div 55" using assms(4) by (rule div_le_mono)
    also have "\<dots> \<le> length (inv_id data) div ?n" by (rule div_le_mono2 [OF chars_per_line_pos n55])
    finally show ?thesis by simp
  qed
  also have "\<dots> \<le> (length (inv_id data) + ?n - 1) div ?n"
    using chars_per_line_pos [of right_col_width ?fs] by (intro div_le_mono) arith
  also have "\<dots> = length ?ls" by (simp add: length_chunks chars_per_line_pos)
  finally have lines: "18 \<le> length ?ls" .
  have ne: "inv_id data \<noteq> []" using assms(4) by auto
  then have hd_ne: "?ls \<noteq> [] \<and> hd ?ls \<noteq> []"
    using chars_per_line_pos [of right_col_width ?fs]
    by (simp add: chunks_nonempty)
  then have t_ne: "?t \<noteq> []" by (simp add: js_join_nonempty)
  have "length ?ls \<le> length (js_split CHR ''\<newline>'' ?t)"
    using count_js_join [of ?ls "CHR ''\<newline>''"] by (simp add: length_js_split)
  then have "(108 :: rat) \<le> of_nat ?fs * of_nat (length (js_split CHR ''\<newline>'' ?t))"
    using lines fs6 by (simp add: mult_mono [of 6 "of_nat ?fs" 18, simplified] order_trans)
  also have "\<dots> \<le> id_block_height ?m ?fs ?t"
    using assms(3) t_ne by (simp add: id_block_height_def)
  finally have h: "108 \<le> id_block_height ?m ?fs ?t" .
  have mem: "Draw_text Helvetica 10 ''#000000'' (env_date env) 342 (151 + id_block_height ?m ?fs ?t + 22)
      (Some 220) Align_right \<in> set (page_ops env data ?fs ?ls)"
    by (simp add: page_ops_def layout_simps right_col_x_def date_label_y_def add.assoc)
  have "table_top \<le> 151 + id_block_height ?m ?fs ?t + 22" using h by (simp add: layout_simps)
  with g mem show ?thesis by blast
qed

lemma sample_metrics_tall:
  "\<forall>f n w t. of_nat n * of_nat (length (js_split CHR ''\<newline>'' t))
               \<le> height_of_string sample_metrics f n w t"
proof (intro allI)
  fix f n w t
  let ?k = "of_nat (length (js_split CHR ''\<newline>'' t)) :: rat"
  have "of_nat n * ?k * 1 \<le> of_nat n * ?k * (12 / 10)"
    by (intro mult_left_mono) auto
  then show "of_nat n * ?k \<le> height_of_string sample_metrics f n w t"
    by (simp add: sample_metrics_def algebra_simps)
qed

theorem long_id_reaches_table_witness:
  "env_split_text sample_env = None \<and> env_stream_error sample_env = None \<and>
   1000 \<le> length (inv_id (sample_invoice\<lparr>inv_id := replicate 1000 CHR ''7''\<rparr>)) \<and>
   (\<exists>os y. generate_invoice_pdf sample_env (sample_invoice\<lparr>inv_id := replicate 1000 CHR ''7''\<rparr>)
             = Some (Inr os) \<and> table_top \<le> y)"
  using long_id_reaches_table [of sample_env "sample_invoice\<lparr>inv_id := replicate 1000 CHR ''7''\<rparr>"]
    sample_metrics_tall
  by (auto simp: sample_env_def)

end
