(* ===== verification/Legacy_Pdf.thy ===== *)
theory Legacy_Pdf
  imports Invoice_Page
begin

section \<open>The legacy invoice wrapper\<close>

text \<open>
  \<open>generateInvoicePdf\<close> of \<^verbatim>\<open>src/server/newpdfinvoice.ts\<close> keeps old scripts working: it
  first delegates to \<open>generateInvoicePDF\<close> of the invoice service (\<open>Invoice_Page\<close>) and writes
  the buffer to \<open>outPath\<close>; if the module cannot be loaded, the service rejects or the write
  fails, it draws a minimal A4 invoice itself and streams it to \<open>outPath\<close>. The fallback uses
  the same pdfkit document state as the service and wraps the invoice number with the same
  chunking loop, in a 375.28pt column.

  The environment says whether the service module loads (and, if so, the service's own
  environment), whether \<open>fs.writeFileSync\<close> succeeds, the text metrics and the logo for the
  fallback, and an \<open>error\<close> event of its write stream. The result is the promise's value
  (\<open>None\<close> if it never settles) and the files written, in order.
\<close>

record legacy_params =
  lp_invoice_no :: string
  lp_date :: string
  lp_out_path :: string
  lp_email :: "string option"
    \<comment> \<open>\<open>None\<close>: \<open>undefined\<close> or \<open>null\<close>\<close>
  lp_license_key :: "string option"
  lp_amount_cents :: "cents option"

record legacy_env =
  le_service :: "render_env option"
    \<comment> \<open>\<open>None\<close>: \<open>require('./services/pdfService')\<close> throws or exports no function\<close>
  le_write_ok :: bool
    \<comment> \<open>\<open>fs.writeFileSync(outPath, buffer)\<close> returns\<close>
  le_metrics :: metrics
  le_logo_readable :: bool
  le_stream_error :: "string option"
    \<comment> \<open>an \<open>error\<close> event of \<open>fs.createWriteStream(outPath)\<close>\<close>

datatype legacy_value = Legacy_path string | Legacy_buffer "draw_op list"

type_synonym legacy_result = "(string + legacy_value) \<times> (string \<times> draw_op list) list"

subsection \<open>Delegation\<close>

definition legacy_amount :: "legacy_params \<Rightarrow> cents" where
  \<comment> \<open>\<open>amountCents = 0\<close> as a destructuring default\<close>
  "legacy_amount p = (case lp_amount_cents p of None \<Rightarrow> 0 | Some c \<Rightarrow> c)"

definition legacy_delegate_data :: "legacy_params \<Rightarrow> invoice_data" where
  \<comment> \<open>the argument of \<open>pdfService.generateInvoicePDF\<close>\<close>
  "legacy_delegate_data p =
     \<lparr>inv_id = lp_invoice_no p,
      inv_email = (if js_truthy_str (lp_email p) then the (lp_email p) else ''no-reply@nk2it.com.au''),
      inv_license_key = (case lp_license_key p of None \<Rightarrow> ''NO-LICENSE-KEY'' | Some k \<Rightarrow> k),
      inv_amount_cents = legacy_amount p\<rparr>"

subsection \<open>The fallback generator\<close>

definition a4_width :: pt where "a4_width = 59528 / 100"
definition a4_height :: pt where "a4_height = 84189 / 100"
definition legacy_margin :: pt where "legacy_margin = 40"
definition legacy_header_y :: pt where "legacy_header_y = 30"
definition meta_y :: pt where "meta_y = legacy_header_y + 6"
definition meta_width :: pt where
  \<comment> \<open>\<open>pageWidth - 140\<close>, \<open>pageWidth\<close> the width between the margins\<close>
  "meta_width = (a4_width - legacy_margin - legacy_margin) - 140"
definition legacy_id_font_size :: nat where "legacy_id_font_size = 10"

definition move_down :: "metrics \<Rightarrow> rat \<Rightarrow> page_doc \<Rightarrow> page_doc" where
  \<comment> \<open>\<open>doc.moveDown(k)\<close>: \<open>k\<close> lines of the current font and size\<close>
  "move_down m k d = d\<lparr>cur_y := cur_y d + k * line_height m (cur_font d) (cur_size d)\<rparr>"

definition legacy_header :: "metrics \<Rightarrow> bool \<Rightarrow> page_doc" where
  \<comment> \<open>lines 33--61: the document, the logo in a \<open>try\<close>, and the INVOICE title\<close>
  "legacy_header m logo =
     (let d0 = new_document a4_width a4_height legacy_margin;
          d1 = (if logo then image_at legacy_margin legacy_header_y 120 d0 else d0);
          d2 = text_at m ''INVOICE'' legacy_margin meta_y (Some meta_width) Align_right
                 (font_size 12 (set_font Helvetica_Bold d1))
      in move_down m (2 / 10) (font_size 10 (set_font Helvetica d2)))"

definition legacy_id_parts :: "string \<Rightarrow> string list option" where
  \<comment> \<open>lines 68--74: \<open>charsPerLine\<close> from \<open>metaWidth\<close> and the chunking \<open>for\<close> loop\<close>
  "legacy_id_parts s = chunk_loop (chars_per_line meta_width legacy_id_font_size) s 0 []"

definition legacy_id_block :: "metrics \<Rightarrow> string \<Rightarrow> string \<Rightarrow> string list \<Rightarrow> page_doc \<Rightarrow> page_doc" where
  \<comment> \<open>lines 76--86: the id lines flow at the cursor (\<open>doc.x\<close> is \<open>metaX\<close> since the title), the
     date goes below them, then the cursor moves three lines down\<close>
  "legacy_id_block m raw date parts d =
     (let txt = (if js_join ''\<newline>'' parts \<noteq> [] then js_join ''\<newline>'' parts else raw);
          id_y = meta_y + 14;
          d1 = text_at m txt legacy_margin (cur_y d) (Some meta_width) Align_right d;
          after_id_y = (if cur_y d1 \<noteq> 0 then cur_y d1
                        else id_y + of_nat (length parts) * of_nat (legacy_id_font_size + 2));
          date_y = max (meta_y + 34) (after_id_y + 6)
      in move_down m 3 (text_at m (''Date: '' @ date) legacy_margin date_y (Some meta_width) Align_right d1))"

definition legacy_body :: "metrics \<Rightarrow> cents \<Rightarrow> page_doc \<Rightarrow> page_doc" where
  \<comment> \<open>lines 89--92: the item line and the total, without GST\<close>
  "legacy_body m amount d =
     (let d1 = text_at m ''Item'' 50 220 None Align_left (font_size 12 (set_font Helvetica_Bold d));
          d2 = text_at m ''1 x Symantec Endpoint Protection License'' 50 240 None Align_left
                 (font_size 10 (set_font Helvetica d1));
          d3 = text_at m ''TOTAL:'' 400 300 None Align_left (set_font Helvetica_Bold d2)
      in text_at m (format_money amount) 470 300 None Align_left (set_font Helvetica d3))"

definition legacy_fallback_doc :: "legacy_env \<Rightarrow> legacy_params \<Rightarrow> page_doc option" where
  \<comment> \<open>lines 33--94: the fallback page; \<open>None\<close> if the chunking loop never ends\<close>
  "legacy_fallback_doc env p =
     (let m = le_metrics env;
          d = font_size legacy_id_font_size (legacy_header m (le_logo_readable env))
      in map_option (\<lambda>parts. legacy_body m (legacy_amount p)
                               (legacy_id_block m (lp_invoice_no p) (lp_date p) parts d))
           (legacy_id_parts (lp_invoice_no p)))"

definition legacy_fallback :: "legacy_env \<Rightarrow> legacy_params \<Rightarrow> legacy_result option" where
  \<comment> \<open>the fallback and its promise: \<open>finish\<close> resolves with \<open>outPath\<close>, \<open>error\<close> rejects;
     \<open>createWriteStream('')\<close> fails to open\<close>
  "legacy_fallback env p =
     map_option (\<lambda>d. if lp_out_path p = [] then (Inl ''ENOENT: no such file or directory, open'', [])
                     else case le_stream_error env of
                            Some e \<Rightarrow> (Inl e, [])
                          | None \<Rightarrow> (Inr (Legacy_path (lp_out_path p)), [(lp_out_path p, ops d)]))
       (legacy_fallback_doc env p)"

definition generate_invoice_pdf_legacy :: "legacy_env \<Rightarrow> legacy_params \<Rightarrow> legacy_result option" where
  \<comment> \<open>\<open>generateInvoicePdf(params)\<close>\<close>
  "generate_invoice_pdf_legacy env p =
     (case le_service env of
        None \<Rightarrow> legacy_fallback env p
      | Some renv \<Rightarrow>
          (case generate_invoice_pdf renv (legacy_delegate_data p) of
             None \<Rightarrow> None
           | Some (Inl _) \<Rightarrow> legacy_fallback env p
           | Some (Inr buf) \<Rightarrow>
               (if lp_out_path p = [] then Some (Inr (Legacy_buffer buf), [])
                else if le_write_ok env then Some (Inr (Legacy_path (lp_out_path p)), [(lp_out_path p, buf)])
                else legacy_fallback env p)))"

subsection \<open>Samples\<close>

definition sample_legacy_params :: legacy_params where
  "sample_legacy_params =
     \<lparr>lp_invoice_no = ''NK2IT-1756000000'', lp_date = ''25/08/2025'', lp_out_path = ''invoice.pdf'',
      lp_email = None, lp_license_key = None, lp_amount_cents = Some 1995\<rparr>"

definition sample_legacy_env :: "render_env option \<Rightarrow> legacy_env" where
  "sample_legacy_env svc =
     \<lparr>le_service = svc, le_write_ok = True, le_metrics = sample_metrics, le_logo_readable = False,
      le_stream_error = None\<rparr>"

subsection \<open>Facts\<close>

lemma legacy_chars_per_line: "chars_per_line meta_width legacy_id_font_size = 62"
  unfolding chars_per_line_def approx_char_width_def meta_width_def a4_width_def legacy_margin_def
    legacy_id_font_size_def
  by code_simp

lemma legacy_id_parts_chunks: "legacy_id_parts s = Some (chunks 62 s)"
  by (simp add: legacy_id_parts_def legacy_chars_per_line chunk_loop_chunks)

lemma legacy_header_state:
  "cur_font (legacy_header m logo) = Helvetica \<and> cur_size (legacy_header m logo) = 10 \<and>
   fill (legacy_header m logo) = ''#000000'' \<and>
   cur_y (legacy_header m logo) =
     meta_y + height_of_string m Helvetica_Bold 12 meta_width ''INVOICE'' + 2 / 10 * line_height m Helvetica 10 \<and>
   ops (legacy_header m logo) =
     (if logo then [Draw_image legacy_margin legacy_header_y 120] else []) @
     [Draw_text Helvetica_Bold 12 ''#000000'' ''INVOICE'' legacy_margin meta_y (Some meta_width) Align_right]"
  by (simp add: legacy_header_def Let_def move_down_def text_at_def font_size_def set_font_def
      image_at_def new_document_def)


lemma legacy_fallback_ops:
  "map_option ops (legacy_fallback_doc env p) = Some
     (let m = le_metrics env; raw = lp_invoice_no p;
          id_text = (if js_join ''\<newline>'' (chunks 62 raw) \<noteq> [] then js_join ''\<newline>'' (chunks 62 raw) else raw);
          y_id = meta_y + height_of_string m Helvetica_Bold 12 meta_width ''INVOICE'' + 2 / 10 * line_height m Helvetica 10;
          y_after = y_id + height_of_string m Helvetica 10 meta_width id_text;
          y_date = max (meta_y + 34)
                     ((if y_after \<noteq> 0 then y_after else meta_y + 14 + of_nat (length (chunks 62 raw)) * 12) + 6)
      in (if le_logo_readable env then [Draw_image legacy_margin legacy_header_y 120] else []) @
         [Draw_text Helvetica_Bold 12 ''#000000'' ''INVOICE'' legacy_margin meta_y (Some meta_width) Align_right,
          Draw_text Helvetica 10 ''#000000'' id_text legacy_margin y_id (Some meta_width) Align_right,
          Draw_text Helvetica 10 ''#000000'' (''Date: '' @ lp_date p) legacy_margin y_date (Some meta_width) Align_right,
          Draw_text Helvetica_Bold 12 ''#000000'' ''Item'' 50 220 None Align_left,
          Draw_text Helvetica 10 ''#000000'' ''1 x Symantec Endpoint Protection License'' 50 240 None Align_left,
          Draw_text Helvetica_Bold 10 ''#000000'' ''TOTAL:'' 400 300 None Align_left,
          Draw_text Helvetica 10 ''#000000'' (format_money (legacy_amount p)) 470 300 None Align_left])"
  by (simp add: legacy_fallback_doc_def legacy_id_parts_chunks legacy_id_block_def legacy_body_def Let_def
      text_at_def move_down_def font_size_def set_font_def legacy_header_state legacy_id_font_size_def)


lemma legacy_fallback_returns: "legacy_fallback env p \<noteq> None"
  by (simp add: legacy_fallback_def legacy_fallback_doc_def legacy_id_parts_chunks Let_def)

lemma generate_invoice_pdf_stream_error:
  "env_stream_error renv = Some e \<Longrightarrow> generate_invoice_pdf renv data = Some (Inl e)"
  using generate_invoice_pdf_returns [of renv data] by (auto simp: generate_invoice_pdf_def)

lemma generate_invoice_pdf_no_error:
  "env_stream_error renv = None \<Longrightarrow> \<exists>buf. generate_invoice_pdf renv data = Some (Inr buf)"
  using generate_invoice_pdf_returns [of renv data] by (auto simp: generate_invoice_pdf_def)

lemma js_join_Cons_prefix: "\<exists>r. js_join sep (x # xs) = x @ r"
  by (cases xs) auto

lemma js_join_chunks_empty: "js_join sep (chunks n s) = [] \<Longrightarrow> 0 < n \<Longrightarrow> s = []"
proof (rule ccontr)
  assume j: "js_join sep (chunks n s) = []" and n: "0 < n" and s: "s \<noteq> []"
  obtain r where "js_join sep (chunks n s) = take n s @ r"
    using js_join_Cons_prefix chunks_nonempty [OF s n] by metis
  with j s n show False by simp
qed


lemma legacy_id_text: "0 < n \<Longrightarrow>
  (if js_join sep (chunks n raw) \<noteq> [] then js_join sep (chunks n raw) else raw) = js_join sep (chunks n raw)"
  using js_join_chunks_empty [of sep n raw] by auto

subsection \<open>Properties\<close>

text \<open>C34: the legacy wrapper always settles: neither the delegated service nor the fallback's
  chunking loop can hang.\<close>

theorem legacy_settles: "\<exists>r. generate_invoice_pdf_legacy env p = Some r"
proof (cases "le_service env")
  case None
  then show ?thesis using legacy_fallback_returns [of env p] by (simp add: generate_invoice_pdf_legacy_def)
next
  case (Some renv)
  then show ?thesis
  proof (cases "env_stream_error renv")
    case None
    then obtain buf where "generate_invoice_pdf renv (legacy_delegate_data p) = Some (Inr buf)"
      using generate_invoice_pdf_no_error by blast
    with Some show ?thesis using legacy_fallback_returns [of env p]
      by (auto simp: generate_invoice_pdf_legacy_def)
  next
    case (Some e)
    with \<open>le_service env = Some renv\<close> show ?thesis using legacy_fallback_returns [of env p]
      by (auto simp: generate_invoice_pdf_legacy_def generate_invoice_pdf_stream_error)
  qed
qed

text \<open>C35: when the service module cannot be loaded, the service rejects, or writing its buffer
  fails, the wrapper's result is exactly that of the inline fallback generator.\<close>

theorem legacy_falls_back:
  assumes "le_service env = None \<or>
           (\<exists>renv. le_service env = Some renv \<and> env_stream_error renv \<noteq> None) \<or>
           (lp_out_path p \<noteq> [] \<and> \<not> le_write_ok env)"
  shows "generate_invoice_pdf_legacy env p = legacy_fallback env p"
proof (cases "le_service env")
  case None
  then show ?thesis by (simp add: generate_invoice_pdf_legacy_def)
next
  case (Some renv)
  show ?thesis
  proof (cases "env_stream_error renv")
    case None
    then obtain buf where "generate_invoice_pdf renv (legacy_delegate_data p) = Some (Inr buf)"
      using generate_invoice_pdf_no_error by blast
    with Some None assms show ?thesis by (auto simp: generate_invoice_pdf_legacy_def)
  next
    case (Some e)
    with \<open>le_service env = Some renv\<close> show ?thesis
      by (simp add: generate_invoice_pdf_legacy_def generate_invoice_pdf_stream_error)
  qed
qed

theorem legacy_falls_back_witness:
  "generate_invoice_pdf_legacy (sample_legacy_env None) sample_legacy_params =
   legacy_fallback (sample_legacy_env None) sample_legacy_params"
  using legacy_falls_back [of "sample_legacy_env None" sample_legacy_params]
  by (simp add: sample_legacy_env_def)

text \<open>When the service loads and renders, the wrapper writes the service's page to
  \<open>outPath\<close> and resolves with the path, or resolves with the buffer when \<open>outPath\<close> is empty.\<close>

theorem legacy_delegates:
  assumes "le_service env = Some renv" "env_stream_error renv = None"
  shows "\<exists>buf. generate_invoice_pdf renv (legacy_delegate_data p) = Some (Inr buf) \<and>
           generate_invoice_pdf_legacy env p =
             (if lp_out_path p = [] then Some (Inr (Legacy_buffer buf), [])
              else if le_write_ok env then Some (Inr (Legacy_path (lp_out_path p)), [(lp_out_path p, buf)])
              else legacy_fallback env p)"
proof -
  obtain buf where "generate_invoice_pdf renv (legacy_delegate_data p) = Some (Inr buf)"
    using generate_invoice_pdf_no_error assms(2) by blast
  with assms(1) show ?thesis by (auto simp: generate_invoice_pdf_legacy_def)
qed

theorem legacy_delegates_witness:
  "\<exists>buf. generate_invoice_pdf sample_env (legacy_delegate_data sample_legacy_params) = Some (Inr buf) \<and>
     generate_invoice_pdf_legacy (sample_legacy_env (Some sample_env)) sample_legacy_params =
       Some (Inr (Legacy_path ''invoice.pdf''), [(''invoice.pdf'', buf)])"
  using legacy_delegates [of "sample_legacy_env (Some sample_env)" sample_env sample_legacy_params]
  by (simp add: sample_legacy_env_def sample_env_def sample_legacy_params_def)


text \<open>C33: on the fallback page the invoice number is drawn as lines of at most 62 characters
  and the date directly after it, at least 6pt below the measured bottom of the number and
  never above \<open>metaY + 34\<close>, for any measurement with non-negative heights.\<close>

theorem legacy_date_below_id:
  assumes d: "legacy_fallback_doc env p = Some d"
    and h: "\<forall>f n w s. 0 \<le> height_of_string (le_metrics env) f n w s"
    and l: "\<forall>f n. 0 \<le> line_height (le_metrics env) f n"
  shows "\<exists>pre y_id y_date rest.
     ops d = pre @
       Draw_text Helvetica 10 ''#000000'' (js_join ''\<newline>'' (chunks 62 (lp_invoice_no p))) legacy_margin y_id
         (Some meta_width) Align_right #
       Draw_text Helvetica 10 ''#000000'' (''Date: '' @ lp_date p) legacy_margin y_date (Some meta_width) Align_right #
       rest \<and>
     y_id + height_of_string (le_metrics env) Helvetica 10 meta_width
              (js_join ''\<newline>'' (chunks 62 (lp_invoice_no p))) + 6 \<le> y_date \<and>
     meta_y + 34 \<le> y_date"
proof -
  define m where "m = le_metrics env"
  define id_text where "id_text = js_join ''\<newline>'' (chunks 62 (lp_invoice_no p))"
  define y_id where "y_id = meta_y + height_of_string m Helvetica_Bold 12 meta_width ''INVOICE'' +
                            2 / 10 * line_height m Helvetica 10"
  define y_date where "y_date = max (meta_y + 34) (y_id + height_of_string m Helvetica 10 meta_width id_text + 6)"
  have pos: "0 < y_id + height_of_string m Helvetica 10 meta_width id_text"
    using h l unfolding y_id_def m_def meta_y_def legacy_header_y_def by (simp add: add_pos_nonneg)
  have "ops d = ((if le_logo_readable env then [Draw_image legacy_margin legacy_header_y 120] else []) @
         [Draw_text Helvetica_Bold 12 ''#000000'' ''INVOICE'' legacy_margin meta_y (Some meta_width) Align_right]) @
         Draw_text Helvetica 10 ''#000000'' id_text legacy_margin y_id (Some meta_width) Align_right #
         Draw_text Helvetica 10 ''#000000'' (''Date: '' @ lp_date p) legacy_margin y_date (Some meta_width) Align_right #
         [Draw_text Helvetica_Bold 12 ''#000000'' ''Item'' 50 220 None Align_left,
          Draw_text Helvetica 10 ''#000000'' ''1 x Symantec Endpoint Protection License'' 50 240 None Align_left,
          Draw_text Helvetica_Bold 10 ''#000000'' ''TOTAL:'' 400 300 None Align_left,
          Draw_text Helvetica 10 ''#000000'' (format_money (legacy_amount p)) 470 300 None Align_left]"
    using legacy_fallback_ops [of env p] d pos
    by (simp add: Let_def legacy_id_text m_def id_text_def y_id_def y_date_def)
  moreover have "y_id + height_of_string m Helvetica 10 meta_width id_text + 6 \<le> y_date" "meta_y + 34 \<le> y_date"
    by (simp_all add: y_date_def)
  ultimately show ?thesis unfolding m_def id_text_def by blast
qed

theorem legacy_date_below_id_witness:
  "\<exists>pre y_id y_date rest.
     ops (the (legacy_fallback_doc (sample_legacy_env None) sample_legacy_params)) = pre @
       Draw_text Helvetica 10 ''#000000'' ''NK2IT-1756000000'' legacy_margin y_id (Some meta_width) Align_right #
       Draw_text Helvetica 10 ''#000000'' ''Date: 25/08/2025'' legacy_margin y_date (Some meta_width) Align_right #
       rest \<and> y_id + 12 + 6 \<le> y_date"
proof -
  have d: "legacy_fallback_doc (sample_legacy_env None) sample_legacy_params =
             Some (the (legacy_fallback_doc (sample_legacy_env None) sample_legacy_params))"
    by (simp add: legacy_fallback_doc_def legacy_id_parts_chunks Let_def)
  have h: "\<forall>f n w s. 0 \<le> height_of_string (le_metrics (sample_legacy_env None)) f n w s"
       "\<forall>f n. 0 \<le> line_height (le_metrics (sample_legacy_env None)) f n"
    by (simp_all add: sample_legacy_env_def sample_metrics_def)
  have c: "js_join ''\<newline>'' (chunks 62 ''NK2IT-1756000000'') = ''NK2IT-1756000000''"
          "height_of_string (le_metrics (sample_legacy_env None)) Helvetica 10 meta_width ''NK2IT-1756000000'' = 12"
    by code_simp+
  from legacy_date_below_id [OF d h] obtain pre y_id y_date rest where
    o: "ops (the (legacy_fallback_doc (sample_legacy_env None) sample_legacy_params)) = pre @
          Draw_text Helvetica 10 ''#000000'' (js_join ''\<newline>'' (chunks 62 (lp_invoice_no sample_legacy_params)))
            legacy_margin y_id (Some meta_width) Align_right #
          Draw_text Helvetica 10 ''#000000'' (''Date: '' @ lp_date sample_legacy_params) legacy_margin y_date
            (Some meta_width) Align_right # rest" and
    y: "y_id + height_of_string (le_metrics (sample_legacy_env None)) Helvetica 10 meta_width
          (js_join ''\<newline>'' (chunks 62 (lp_invoice_no sample_legacy_params))) + 6 \<le> y_date"
    by blast
  have p: "lp_invoice_no sample_legacy_params = ''NK2IT-1756000000''" "lp_date sample_legacy_params = ''25/08/2025''"
    by (simp_all add: sample_legacy_params_def)
  show ?thesis using o y unfolding p c by auto
qed

text \<open>C36: the fallback page prints the amount itself as the value after TOTAL, without the
  10% GST that the service adds: the only text in the value cell at (470, 300) is the
  amount, which differs from the service's total whenever the GST is not zero.\<close>

theorem legacy_total_without_gst:
  assumes "legacy_fallback_doc env p = Some d"
  shows "Draw_text Helvetica 10 ''#000000'' (format_money (legacy_amount p)) 470 300 None Align_left \<in> set (ops d) \<and>
         (\<forall>f n c s w al. Draw_text f n c s 470 300 w al \<in> set (ops d) \<longrightarrow> s = format_money (legacy_amount p)) \<and>
         (gst_cents (legacy_amount p) \<noteq> 0 \<longrightarrow> format_money (legacy_amount p) \<noteq> format_money (total_cents (legacy_amount p)))"
proof -
  define m where "m = le_metrics env"
  define id_text where "id_text = js_join ''\<newline>'' (chunks 62 (lp_invoice_no p))"
  define y_id where "y_id = meta_y + height_of_string m Helvetica_Bold 12 meta_width ''INVOICE'' +
                            2 / 10 * line_height m Helvetica 10"
  define y_after where "y_after = y_id + height_of_string m Helvetica 10 meta_width
                                  (if id_text \<noteq> [] then id_text else lp_invoice_no p)"
  define y_date where "y_date = max (meta_y + 34) ((if y_after \<noteq> 0 then y_after
                          else meta_y + 14 + of_nat (length (chunks 62 (lp_invoice_no p))) * 12) + 6)"
  have o: "ops d =
         (if le_logo_readable env then [Draw_image legacy_margin legacy_header_y 120] else []) @
         [Draw_text Helvetica_Bold 12 ''#000000'' ''INVOICE'' legacy_margin meta_y (Some meta_width) Align_right,
          Draw_text Helvetica 10 ''#000000'' (if id_text \<noteq> [] then id_text else lp_invoice_no p) legacy_margin y_id
            (Some meta_width) Align_right,
          Draw_text Helvetica 10 ''#000000'' (''Date: '' @ lp_date p) legacy_margin y_date (Some meta_width) Align_right,
          Draw_text Helvetica_Bold 12 ''#000000'' ''Item'' 50 220 None Align_left,
          Draw_text Helvetica 10 ''#000000'' ''1 x Symantec Endpoint Protection License'' 50 240 None Align_left,
          Draw_text Helvetica_Bold 10 ''#000000'' ''TOTAL:'' 400 300 None Align_left,
          Draw_text Helvetica 10 ''#000000'' (format_money (legacy_amount p)) 470 300 None Align_left]"
    using legacy_fallback_ops [of env p] assms
    unfolding id_text_def y_id_def y_after_def y_date_def m_def by (simp only: Let_def option.map option.inject)
  have "Draw_text f n c s 470 300 w al \<in> set (ops d) \<Longrightarrow> s = format_money (legacy_amount p)"
    for f n c s w al
    using o by (simp add: legacy_margin_def split: if_split_asm)
  moreover have "Draw_text Helvetica 10 ''#000000'' (format_money (legacy_amount p)) 470 300 None Align_left \<in> set (ops d)"
    using o by simp
  moreover have "gst_cents (legacy_amount p) \<noteq> 0 \<longrightarrow>
                   format_money (legacy_amount p) \<noteq> format_money (total_cents (legacy_amount p))"
    by (simp add: total_cents_def)
  ultimately show ?thesis by blast
qed

theorem legacy_total_without_gst_witness:
  "Draw_text Helvetica 10 ''#000000'' ''$19.95'' 470 300 None Align_left
     \<in> set (ops (the (legacy_fallback_doc (sample_legacy_env None) sample_legacy_params))) \<and>
   ''$19.95'' \<noteq> format_money (total_cents 1995)"
proof -
  have d: "legacy_fallback_doc (sample_legacy_env None) sample_legacy_params =
             Some (the (legacy_fallback_doc (sample_legacy_env None) sample_legacy_params))"
    by (simp add: legacy_fallback_doc_def legacy_id_parts_chunks Let_def)
  have a: "legacy_amount sample_legacy_params = 1995"
    by (simp add: legacy_amount_def sample_legacy_params_def)
  have g: "gst_cents 1995 \<noteq> 0" "format_money 1995 = ''$19.95''"
    by code_simp+
  show ?thesis using legacy_total_without_gst [OF d] a g by simp
qed

end
