(* ===== verification/Verifier.thy ===== *)
theory Verifier
  imports JS_Runtime
begin

section \<open>The e-mail verifier\<close>

text \<open>
  \<open>EmailVerifier\<close> of \<^verbatim>\<open>src/server/services/email-verifier.js\<close>: a format check with the
  regular expression \<open>/^[^\s@]+@[^\s@]+\.[^\s@]+$/i\<close>, then a DNS mail-exchanger lookup of
  the domain, classified into a risk tier. The resolver \<open>dns.resolveMx\<close> is the interface
  \<open>resolver\<close>: a function from a domain to the records or an error message. A batch maps
  the verification over the inputs; the lookups of \<open>Promise.all\<close> run concurrently, but
  each result depends only on its own input, so the batch is the list of single results.
\<close>

subsection \<open>The format check, the mail-exchanger order and \<open>verifyEmail\<close>\<close>

definition email_char :: "char \<Rightarrow> bool" where
  \<comment> \<open>the class \<open>[^\s@]\<close>; the flag \<open>i\<close> does not change it\<close>
  "email_char c \<longleftrightarrow> \<not> js_is_space c \<and> c \<noteq> CHR ''@''"

definition email_re_lang :: "string \<Rightarrow> bool" where
  \<comment> \<open>the language of \<open>^[^\s@]+@[^\s@]+\.[^\s@]+$\<close>, read off the pattern\<close>
  "email_re_lang s \<longleftrightarrow>
     (\<exists>l a b. s = l @ CHR ''@'' # a @ CHR ''.'' # b \<and> l \<noteq> [] \<and> a \<noteq> [] \<and> b \<noteq> [] \<and>
              list_all email_char l \<and> list_all email_char a \<and> list_all email_char b)"

definition email_re_match :: "string \<Rightarrow> bool" where
  \<comment> \<open>\<open>EMAIL_RE.test(s)\<close> decided without backtracking: one \<open>@\<close> splits the string
     into a non-empty local part and a domain with a point that is neither first nor last\<close>
  "email_re_match s =
     (case js_split CHR ''@'' s of
        [l, d] \<Rightarrow> l \<noteq> [] \<and> list_all email_char l \<and> list_all email_char d \<and>
                  CHR ''.'' \<in> set (tl (butlast d))
      | _ \<Rightarrow> False)"

record mx_record =
  mx_priority :: nat
  mx_exchange :: string

datatype dns_answer = Dns_ok "mx_record list" | Dns_error string

type_synonym resolver = "string \<Rightarrow> dns_answer"
  \<comment> \<open>\<open>await dns.resolveMx(domain)\<close>: the records, or the message of the rejection\<close>

definition mx_cmp :: "mx_record \<Rightarrow> mx_record \<Rightarrow> int" where
  \<comment> \<open>the comparator \<open>(a, b) => a.priority - b.priority\<close>\<close>
  "mx_cmp a b = int (mx_priority a) - int (mx_priority b)"

fun mx_insert :: "mx_record \<Rightarrow> mx_record list \<Rightarrow> mx_record list" where
  \<comment> \<open>place a record after every record the comparator does not put after it\<close>
  "mx_insert x [] = [x]"
| "mx_insert x (y # ys) = (if 0 < mx_cmp y x then x # y # ys else y # mx_insert x ys)"

definition mx_sort :: "mx_record list \<Rightarrow> mx_record list" where
  \<comment> \<open>\<open>mx.sort(cmp)\<close>: ECMAScript requires a stable sort consistent with the comparator;
     the model inserts the records from left to right\<close>
  "mx_sort xs = foldl (\<lambda>acc x. mx_insert x acc) [] xs"

datatype risk = Risk_low | Risk_medium | Risk_high | Risk_unknown

datatype reason = Invalid_format | No_mx_records | Dns_lookup_failed

record verification =
  v_email :: string
  v_is_valid :: bool
  v_risk :: risk
  v_reason :: "reason option"
  v_mx_records :: "string list"
  v_error :: "string option"
    \<comment> \<open>\<open>result._error\<close>, set only when the lookup failed\<close>

definition undefined_hostname_error :: string where
  \<comment> \<open>the rejection of \<open>dns.resolveMx(undefined)\<close>\<close>
  "undefined_hostname_error = ''The \"hostname\" argument must be of type string''"

definition resolve_domain :: "resolver \<Rightarrow> string option \<Rightarrow> dns_answer" where
  "resolve_domain resolve hn =
     (case hn of None \<Rightarrow> Dns_error undefined_hostname_error | Some d \<Rightarrow> resolve d)"

definition verify_email :: "resolver \<Rightarrow> string option \<Rightarrow> verification" where
  \<comment> \<open>\<open>verifyEmail(email)\<close>, \<open>None\<close> for \<open>undefined\<close> or \<open>null\<close>\<close>
  "verify_email resolve e =
     (let r = \<lparr>v_email = js_lower (case e of None \<Rightarrow> [] | Some s \<Rightarrow> s), v_is_valid = False,
               v_risk = Risk_unknown, v_reason = None, v_mx_records = [], v_error = None\<rparr>
      in if \<not> js_truthy_str e \<or> \<not> email_re_match (case e of None \<Rightarrow> [] | Some s \<Rightarrow> s)
         then r\<lparr>v_is_valid := False, v_risk := Risk_high, v_reason := Some Invalid_format\<rparr>
         else (case resolve_domain resolve (js_index (js_split CHR ''@'' (v_email r)) 1) of
                 Dns_ok mx \<Rightarrow>
                   (let r1 = r\<lparr>v_mx_records := map mx_exchange (mx_sort mx)\<rparr>
                    in if mx \<noteq> [] then r1\<lparr>v_is_valid := True, v_risk := Risk_low\<rparr>
                       else r1\<lparr>v_is_valid := False, v_risk := Risk_medium, v_reason := Some No_mx_records\<rparr>)
               | Dns_error msg \<Rightarrow>
                   r\<lparr>v_is_valid := False, v_risk := Risk_medium, v_reason := Some Dns_lookup_failed,
                     v_error := Some msg\<rparr>))"

definition verify_batch :: "resolver \<Rightarrow> string option list \<Rightarrow> verification list" where
  \<comment> \<open>\<open>verifyBatch(emails)\<close>: \<open>Promise.all((emails || []).map(verifyEmail))\<close>\<close>
  "verify_batch resolve es = map (verify_email resolve) es"

definition verification_ok :: "verification \<Rightarrow> bool" where
  \<comment> \<open>how the fields of a result agree: risk, reason, validity and records\<close>
  "verification_ok v \<longleftrightarrow>
     (v_is_valid v \<longleftrightarrow> v_risk v = Risk_low) \<and> (v_is_valid v \<longleftrightarrow> v_reason v = None) \<and>
     (v_reason v = Some Invalid_format \<longleftrightarrow> v_risk v = Risk_high) \<and> v_risk v \<noteq> Risk_unknown \<and>
     (v_is_valid v \<longrightarrow> v_mx_records v \<noteq> []) \<and>
     (v_error v \<noteq> None \<longleftrightarrow> v_reason v = Some Dns_lookup_failed)"

subsection \<open>Splitting at a character\<close>

lemma js_split_no_sep: "c \<notin> set s \<Longrightarrow> js_split c s = [s]"
  by (induction c s rule: js_split.induct) auto

lemma js_split_sep: "c \<notin> set l \<Longrightarrow> js_split c (l @ c # r) = l # js_split c r"
  by (induction l) (auto split: list.splits)

lemma js_split_ne: "js_split c s \<noteq> []"
  by (induction c s rule: js_split.induct) (auto split: list.splits)

lemma js_split_pieces: "w \<in> set (js_split c s) \<Longrightarrow> c \<notin> set w"
  by (induction c s arbitrary: w rule: js_split.induct) (auto split: list.splits if_splits)

lemma js_join_js_split: "js_join [c] (js_split c s) = s"
proof (induction c s rule: js_split.induct)
  case (1 c)
  then show ?case by simp
next
  case (2 c x xs)
  show ?case
  proof (cases "x = c")
    case True
    with 2 js_split_ne [of c xs] show ?thesis by (cases "js_split c xs") auto
  next
    case False
    with 2 show ?thesis
      by (cases "js_split c xs" rule: remdups_adj.cases) auto
  qed
qed

subsection \<open>The format check\<close>

lemma email_char_not_at: "list_all email_char w \<Longrightarrow> CHR ''@'' \<notin> set w"
  by (auto simp: email_char_def list_all_iff)

lemma email_char_point [simp]: "email_char CHR ''.''"
  by (simp add: email_char_def js_is_space_def)

lemma point_inside_iff:
  "CHR ''.'' \<in> set (tl (butlast d)) \<longleftrightarrow> (\<exists>a b. d = a @ CHR ''.'' # b \<and> a \<noteq> [] \<and> b \<noteq> [])"
proof
  assume "CHR ''.'' \<in> set (tl (butlast d))"
  then obtain m1 m2 where m: "tl (butlast d) = m1 @ CHR ''.'' # m2" by (metis split_list)
  then have "butlast d \<noteq> []" by auto
  then obtain x where x: "butlast d = x # tl (butlast d)" by (cases "butlast d") auto
  from \<open>butlast d \<noteq> []\<close> have "d \<noteq> []" by auto
  then have "d = butlast d @ [last d]" by simp
  with x m have "d = (x # m1) @ CHR ''.'' # (m2 @ [last d])" by simp
  then show "\<exists>a b. d = a @ CHR ''.'' # b \<and> a \<noteq> [] \<and> b \<noteq> []" by blast
next
  assume "\<exists>a b. d = a @ CHR ''.'' # b \<and> a \<noteq> [] \<and> b \<noteq> []"
  then obtain a b where d: "d = a @ CHR ''.'' # b" "a \<noteq> []" "b \<noteq> []" by blast
  then have "butlast d = a @ CHR ''.'' # butlast b" by (simp add: butlast_append)
  with d(2) show "CHR ''.'' \<in> set (tl (butlast d))" by (cases a) auto
qed

lemma email_re_match_split:
  "email_re_match s \<longleftrightarrow>
     (\<exists>l d. s = l @ CHR ''@'' # d \<and> l \<noteq> [] \<and> list_all email_char l \<and> list_all email_char d \<and>
            CHR ''.'' \<in> set (tl (butlast d)))"
proof
  assume m: "email_re_match s"
  then obtain l d where sp: "js_split CHR ''@'' s = [l, d]"
    by (auto simp: email_re_match_def split: list.splits)
  have "s = l @ CHR ''@'' # d"
    using js_join_js_split [of "CHR ''@''" s] sp by simp
  with m sp show "\<exists>l d. s = l @ CHR ''@'' # d \<and> l \<noteq> [] \<and> list_all email_char l \<and>
      list_all email_char d \<and> CHR ''.'' \<in> set (tl (butlast d))"
    by (auto simp: email_re_match_def)
next
  assume "\<exists>l d. s = l @ CHR ''@'' # d \<and> l \<noteq> [] \<and> list_all email_char l \<and>
      list_all email_char d \<and> CHR ''.'' \<in> set (tl (butlast d))"
  then obtain l d where s: "s = l @ CHR ''@'' # d" and l: "l \<noteq> []" "list_all email_char l"
      and d: "list_all email_char d" "CHR ''.'' \<in> set (tl (butlast d))" by blast
  have "js_split CHR ''@'' s = [l, d]"
    using s email_char_not_at [OF l(2)] email_char_not_at [OF d(1)]
    by (simp add: js_split_sep js_split_no_sep)
  with l d show "email_re_match s" by (simp add: email_re_match_def)
qed

subsection \<open>Mail-exchanger records and their order\<close>

lemma mset_mx_insert: "mset (mx_insert x ys) = add_mset x (mset ys)"
  by (induction ys) auto

lemma set_mx_insert: "set (mx_insert x ys) = insert x (set ys)"
  using mset_mx_insert [of x ys] by (metis set_mset_add_mset_insert set_mset_mset)

lemma sorted_mx_insert:
  "sorted (map mx_priority ys) \<Longrightarrow> sorted (map mx_priority (mx_insert x ys))"
  by (induction ys) (auto simp: mx_cmp_def set_mx_insert)

lemma filter_mx_insert:
  assumes "sorted (map mx_priority ys)"
  shows "filter (\<lambda>z. v = mx_priority z) (mx_insert x ys) =
         filter (\<lambda>z. v = mx_priority z) ys @ (if v = mx_priority x then [x] else [])"
  using assms
proof (induction ys)
  case Nil
  then show ?case by simp
next
  case (Cons y ys)
  show ?case
  proof (cases "0 < mx_cmp y x")
    case True
    then have "\<forall>z \<in> set (y # ys). mx_priority x < mx_priority z"
      using Cons.prems by (auto simp: mx_cmp_def)
    then have "filter (\<lambda>z. mx_priority x = mx_priority z) (y # ys) = []"
      by (auto simp: filter_empty_conv)
    with True show ?thesis by auto
  next
    case False
    from Cons.prems have "sorted (map mx_priority ys)" by simp
    with Cons.IH have IH: "filter (\<lambda>z. v = mx_priority z) (mx_insert x ys) =
        filter (\<lambda>z. v = mx_priority z) ys @ (if v = mx_priority x then [x] else [])" by blast
    from False have "mx_insert x (y # ys) = y # mx_insert x ys" by simp
    then show ?thesis by (simp only: filter.simps IH) simp
  qed
qed

lemma mx_foldl_props:
  assumes "sorted (map mx_priority acc)"
  shows "mset (foldl (\<lambda>acc x. mx_insert x acc) acc xs) = mset acc + mset xs \<and>
         sorted (map mx_priority (foldl (\<lambda>acc x. mx_insert x acc) acc xs)) \<and>
         (\<forall>v. filter (\<lambda>z. v = mx_priority z) (foldl (\<lambda>acc x. mx_insert x acc) acc xs) =
              filter (\<lambda>z. v = mx_priority z) acc @ filter (\<lambda>z. v = mx_priority z) xs)"
  using assms
proof (induction xs arbitrary: acc)
  case Nil
  then show ?case by simp
next
  case (Cons x xs)
  from Cons.prems have s: "sorted (map mx_priority (mx_insert x acc))" by (rule sorted_mx_insert)
  from Cons.IH [OF s] Cons.prems show ?case
    by (simp add: mset_mx_insert filter_mx_insert)
qed

lemma mx_sort_sort_key: "mx_sort xs = sort_key mx_priority xs"
proof -
  from mx_foldl_props [of "[]" xs] have p:
    "mset (mx_sort xs) = mset xs" "sorted (map mx_priority (mx_sort xs))"
    "\<And>v. filter (\<lambda>z. v = mx_priority z) (mx_sort xs) = filter (\<lambda>z. v = mx_priority z) xs"
    by (simp_all add: mx_sort_def)
  have "sort_key mx_priority xs = mx_sort xs"
    by (rule properties_for_sort_key [OF p(1) _ p(2)]) (rule p(3))
  then show ?thesis by simp
qed

lemma mx_sort_Nil_iff [simp]: "mx_sort xs = [] \<longleftrightarrow> xs = []"
  by (metis mx_sort_sort_key mset_sort mset_zero_iff)

subsection \<open>Facts about the verification\<close>

lemma js_lower_char_at: "js_lower_char c = CHR ''@'' \<longleftrightarrow> c = CHR ''@''"
proof
  assume l: "js_lower_char c = CHR ''@''"
  let ?n = "of_char c :: nat"
  have n: "?n < 256" by (rule nat_of_char_less_256)
  show "c = CHR ''@''"
  proof (cases "(65 \<le> ?n \<and> ?n \<le> 90) \<or> (192 \<le> ?n \<and> ?n \<le> 222 \<and> ?n \<noteq> 215)")
    case True
    with l have "char_of (?n + 32) = CHR ''@''" by (simp add: js_lower_char_def Let_def)
    then have "(of_char (char_of (?n + 32)) :: nat) = 64" by simp
    with True n show ?thesis by (auto simp: of_char_of)
  next
    case False
    with l show ?thesis by (simp add: js_lower_char_def Let_def)
  qed
next
  assume "c = CHR ''@''"
  then show "js_lower_char c = CHR ''@''" by (simp add: js_lower_char_def)
qed

lemma js_lower_char_at_self [simp]: "js_lower_char CHR ''@'' = CHR ''@''"
  by (simp add: js_lower_char_def)

lemma at_notin_js_lower: "CHR ''@'' \<notin> set (js_lower w) \<longleftrightarrow> CHR ''@'' \<notin> set w"
proof -
  have "CHR ''@'' \<in> set (js_lower w) \<longleftrightarrow> (\<exists>x \<in> set w. CHR ''@'' = js_lower_char x)"
    by (auto simp: js_lower_def image_iff)
  then show ?thesis using js_lower_char_at by metis
qed

lemma verify_email_domain:
  assumes "email_re_match s" "s = l @ CHR ''@'' # d" "CHR ''@'' \<notin> set l"
  shows "js_index (js_split CHR ''@'' (js_lower s)) 1 = Some (js_lower d)"
proof -
  from assms(1) obtain l' d' where s': "s = l' @ CHR ''@'' # d'" "list_all email_char l'"
      "list_all email_char d'"
    by (auto simp: email_re_match_split)
  from assms(2,3) s' email_char_not_at [OF s'(2)] have "l = l' \<and> d = d'"
    using split_unique_sep [of l "CHR ''@''" d l' d'] by simp
  with email_char_not_at [OF s'(3)] have "CHR ''@'' \<notin> set d" by simp
  moreover have "js_lower s = js_lower l @ CHR ''@'' # js_lower d"
    using assms(2) by (simp add: js_lower_def)
  ultimately show ?thesis
    using assms(3) by (simp add: js_split_sep js_split_no_sep js_index_def at_notin_js_lower)
qed

lemma verify_email_lookup:
  assumes "email_re_match s" "s = l @ CHR ''@'' # d" "CHR ''@'' \<notin> set l"
  shows "verify_email r (Some s) =
    (let r0 = \<lparr>v_email = js_lower s, v_is_valid = False, v_risk = Risk_unknown, v_reason = None,
               v_mx_records = [], v_error = None\<rparr>
     in case r (js_lower d) of
          Dns_ok mx \<Rightarrow>
            (if mx \<noteq> [] then r0\<lparr>v_mx_records := map mx_exchange (mx_sort mx), v_is_valid := True,
                                  v_risk := Risk_low\<rparr>
             else r0\<lparr>v_mx_records := [], v_is_valid := False, v_risk := Risk_medium,
                     v_reason := Some No_mx_records\<rparr>)
        | Dns_error msg \<Rightarrow>
            r0\<lparr>v_is_valid := False, v_risk := Risk_medium, v_reason := Some Dns_lookup_failed,
               v_error := Some msg\<rparr>)"
proof -
  from assms(2) have "js_truthy_str (Some s)" by (simp add: js_truthy_str_def)
  with assms verify_email_domain [OF assms] show ?thesis
    by (simp add: verify_email_def resolve_domain_def mx_sort_def Let_def split: dns_answer.split)
qed

subsection \<open>Properties\<close>

text \<open>
  C14: the executable format check decides exactly the language of the regular expression
  \<open>^[^\s@]+@[^\s@]+\.[^\s@]+$\<close>: a non-empty local part, one \<open>@\<close>, and a domain made of
  two non-empty parts around a point, no part containing white space or \<open>@\<close>.
\<close>

theorem email_re_match_iff: "email_re_match s \<longleftrightarrow> email_re_lang s"
proof
  assume "email_re_match s"
  then obtain l d where s: "s = l @ CHR ''@'' # d" "l \<noteq> []" "list_all email_char l"
      "list_all email_char d" "CHR ''.'' \<in> set (tl (butlast d))"
    by (auto simp: email_re_match_split)
  from s(5) obtain a b where d: "d = a @ CHR ''.'' # b" "a \<noteq> []" "b \<noteq> []"
    by (auto simp: point_inside_iff)
  from s d show "email_re_lang s" unfolding email_re_lang_def by auto
next
  assume "email_re_lang s"
  then obtain l a b where s: "s = l @ CHR ''@'' # a @ CHR ''.'' # b" "l \<noteq> []" "a \<noteq> []" "b \<noteq> []"
      "list_all email_char l" "list_all email_char a" "list_all email_char b"
    by (auto simp: email_re_lang_def)
  then have "CHR ''.'' \<in> set (tl (butlast (a @ CHR ''.'' # b)))"
    using point_inside_iff by blast
  with s show "email_re_match s" unfolding email_re_match_split
    by (intro exI [of _ l] exI [of _ "a @ CHR ''.'' # b"]) auto
qed

text \<open>
  C15: sorting the records with the comparator \<open>a.priority - b.priority\<close> orders them by
  ascending priority, keeps every record, and keeps records of equal priority in the order
  the resolver returned them (it is the library's stable \<open>sort_key\<close>).
\<close>

theorem mx_sort_stable:
  "sorted (map mx_priority (mx_sort xs)) \<and> mset (mx_sort xs) = mset xs \<and>
   (\<forall>v. filter (\<lambda>z. mx_priority z = v) (mx_sort xs) = filter (\<lambda>z. mx_priority z = v) xs)"
  by (simp add: mx_sort_sort_key sort_key_stable)

text \<open>
  An input that fails the format check is classified \<open>high\<close> risk with reason
  \<open>invalid_format\<close>, not valid, with no records and no error, and the result is the same for
  every resolver: no DNS lookup is made.
\<close>

theorem verify_invalid_format:
  assumes "s = [] \<or> \<not> email_re_match s"
  shows "verify_email r (Some s) =
           \<lparr>v_email = js_lower s, v_is_valid = False, v_risk = Risk_high, v_reason = Some Invalid_format,
            v_mx_records = [], v_error = None\<rparr> \<and>
         verify_email r (Some s) = verify_email r' (Some s)"
  using assms by (auto simp: verify_email_def js_truthy_str_def)

theorem verify_invalid_format_witness:
  "(''not-an-email'' = [] \<or> \<not> email_re_match ''not-an-email'') \<and>
   v_risk (verify_email (\<lambda>_. Dns_error ''unreachable'') (Some ''not-an-email'')) = Risk_high"
proof -
  have n: "\<not> email_re_match ''not-an-email''" by code_simp
  show ?thesis using verify_invalid_format [of "''not-an-email''" "\<lambda>_. Dns_error ''unreachable''"] n
    by simp
qed

text \<open>
  C16: a well-formed address whose (lower-cased) domain has mail exchangers is valid with
  \<open>low\<close> risk and no reason, and its records are the exchanges sorted by ascending
  priority, ties in the resolver's order.
\<close>

theorem verify_mx_found:
  assumes "email_re_match s" "s = l @ CHR ''@'' # d" "CHR ''@'' \<notin> set l"
    and "r (js_lower d) = Dns_ok mx" "mx \<noteq> []"
  shows "verify_email r (Some s) =
    \<lparr>v_email = js_lower s, v_is_valid = True, v_risk = Risk_low, v_reason = None,
     v_mx_records = map mx_exchange (sort_key mx_priority mx), v_error = None\<rparr>"
  using assms by (simp add: verify_email_lookup mx_sort_sort_key)

theorem verify_mx_found_witness:
  "verify_email (\<lambda>_. Dns_ok [\<lparr>mx_priority = 20, mx_exchange = ''b.mx''\<rparr>, \<lparr>mx_priority = 10, mx_exchange = ''a.mx''\<rparr>])
     (Some ''user@example.com'') =
   \<lparr>v_email = ''user@example.com'', v_is_valid = True, v_risk = Risk_low, v_reason = None,
    v_mx_records = [''a.mx'', ''b.mx''], v_error = None\<rparr>"
proof -
  have m: "email_re_match ''user@example.com''" by code_simp
  have low: "js_lower ''user@example.com'' = ''user@example.com''" by code_simp
  show ?thesis
    using verify_mx_found [OF m, of "''user''" "''example.com''"] low by simp
qed

text \<open>
  C17: for a well-formed address, a lookup that returns no records gives \<open>medium\<close> risk
  with reason \<open>no_mx_records\<close>, and a failed lookup gives \<open>medium\<close> risk with reason
  \<open>dns_lookup_failed\<close> and the resolver's message kept in \<open>_error\<close>; neither is valid and
  neither throws. The comment on the failure branch (\<open>email-verifier.js\<close> line 37) says a
  failed lookup is treated as "unknown"; the code, as the spec's step 5 asks, sets
  \<open>medium\<close>.
\<close>

theorem verify_lookup_errors:
  assumes "email_re_match s" "s = l @ CHR ''@'' # d" "CHR ''@'' \<notin> set l"
  shows "(r (js_lower d) = Dns_ok [] \<longrightarrow> verify_email r (Some s) =
            \<lparr>v_email = js_lower s, v_is_valid = False, v_risk = Risk_medium,
             v_reason = Some No_mx_records, v_mx_records = [], v_error = None\<rparr>) \<and>
         (r (js_lower d) = Dns_error msg \<longrightarrow> verify_email r (Some s) =
            \<lparr>v_email = js_lower s, v_is_valid = False, v_risk = Risk_medium,
             v_reason = Some Dns_lookup_failed, v_mx_records = [], v_error = Some msg\<rparr>)"
  using assms by (simp add: verify_email_lookup)

theorem verify_lookup_errors_witness:
  "verify_email (\<lambda>_. Dns_error ''ENOTFOUND'') (Some ''user@nowhere.example'') =
     \<lparr>v_email = ''user@nowhere.example'', v_is_valid = False, v_risk = Risk_medium,
      v_reason = Some Dns_lookup_failed, v_mx_records = [], v_error = Some ''ENOTFOUND''\<rparr>"
proof -
  have m: "email_re_match ''user@nowhere.example''" by code_simp
  have low: "js_lower ''user@nowhere.example'' = ''user@nowhere.example''" by code_simp
  show ?thesis
    using verify_lookup_errors [OF m, of "''user''" "''nowhere.example''" "\<lambda>_. Dns_error ''ENOTFOUND''"
        "''ENOTFOUND''"] low by simp
qed

text \<open>
  C18: every result of \<open>verifyEmail\<close>, for every input and resolver, has consistent
  fields: valid exactly when the risk is \<open>low\<close> and exactly when there is no reason,
  \<open>invalid_format\<close> exactly when the risk is \<open>high\<close>, never \<open>unknown\<close> (a tier the
  spec's result type lists and the comment at line 37 names for a failed lookup, but which
  the code never produces), records whenever valid, and an error message exactly for a failed
  lookup.
\<close>

theorem verification_invariant: "verification_ok (verify_email r e)"
  by (auto simp: verification_ok_def verify_email_def Let_def resolve_domain_def
      split: dns_answer.split option.split)

theorem verification_invariant_witness:
  "verification_ok (verify_email (\<lambda>_. Dns_ok []) None) \<and>
   v_risk (verify_email (\<lambda>_. Dns_ok []) None) = Risk_high"
  using verification_invariant [of "\<lambda>_. Dns_ok []" None]
  by (simp add: verify_email_def js_truthy_str_def)

text \<open>
  A batch verification returns one result per input, in input order, each the result
  of verifying that input alone: a failure of one item does not affect the others.
\<close>

theorem verify_batch_pointwise:
  "length (verify_batch r es) = length es \<and>
   (\<forall>i < length es. verify_batch r es ! i = verify_email r (es ! i))"
  by (simp add: verify_batch_def)

theorem verify_batch_pointwise_witness:
  "verify_batch (\<lambda>_. Dns_ok []) [Some ''a@b.co'', None] ! 1 = verify_email (\<lambda>_. Dns_ok []) None"
  using verify_batch_pointwise [of "\<lambda>_. Dns_ok []" "[Some ''a@b.co'', None]"] by simp

end
