(* ===== verification/Mailer.thy ===== *)
theory Mailer
  imports Verifier
begin

section \<open>The e-mail delivery service\<close>

text \<open>
  \<open>EmailService\<close> of \<^verbatim>\<open>src/server/services/emailService.js\<close>: a transporter built once
  from the environment (or none when \<open>SMTP_HOST\<close> is unset), \<open>verifyAndSend\<close>, which
  verifies the recipient and sends only to valid, non-high-risk addresses, and
  \<open>verifyAndSendBulk\<close>, which verifies a whole batch first and then sends to each
  recipient that passed, one after the other, catching every error per recipient.

  The world outside the process is explicit: the DNS answer of each verification round
  (\<open>w_dns\<close>, indexed by the round, so that the answer may change between the batch
  verification and the later single verification), the transport's answer to a message,
  and the outbox of every message handed to the transport. A round is one call of
  \<open>verifyEmail\<close> or one \<open>verifyBatch\<close>, whose lookups run concurrently.
\<close>

subsection \<open>Environment and transporter\<close>

record smtp_env =
  env_smtp_host :: "string option"
  env_smtp_port :: "string option"
  env_smtp_secure :: "string option"
  env_smtp_user :: "string option"
  env_smtp_pass :: "string option"
  env_email_from :: "string option"

record transport_config =
  tc_host :: "string option"
  tc_port :: "int option"
    \<comment> \<open>\<open>None\<close> is \<open>NaN\<close>\<close>
  tc_secure :: bool
  tc_auth :: "(string option \<times> string option) option"

definition create_transporter :: "smtp_env \<Rightarrow> transport_config option" where
  \<comment> \<open>\<open>createTransporter()\<close>; \<open>nodemailer.createTransport\<close> does not throw on these options\<close>
  "create_transporter env =
     (if \<not> js_truthy_str (env_smtp_host env) then None
      else Some \<lparr>tc_host = env_smtp_host env,
                 tc_port = (case js_parse_int (case env_smtp_port env of None \<Rightarrow> ''undefined'' | Some p \<Rightarrow> p) of
                              None \<Rightarrow> Some 587 | Some n \<Rightarrow> if n = 0 then Some 587 else Some n),
                 tc_secure = (env_smtp_secure env = Some ''true''),
                 tc_auth = (if js_truthy_str (env_smtp_user env)
                            then Some (env_smtp_user env, env_smtp_pass env) else None)\<rparr>)"

subsection \<open>The world\<close>

record attachment =
  att_filename :: string
  att_content :: string
  att_content_type :: string

record mail =
  mail_from :: "string option"
  mail_to :: string
  mail_subject :: string
  mail_html :: string
  mail_attachments :: "attachment list"

record world =
  w_dns :: "nat \<Rightarrow> resolver"
  w_round :: nat
  w_send :: "mail \<Rightarrow> string + string"
    \<comment> \<open>\<open>transporter.sendMail\<close>: the error message or the \<open>messageId\<close>\<close>
  w_outbox :: "mail list"

definition verify_in :: "world \<Rightarrow> string option \<Rightarrow> verification \<times> world" where
  "verify_in w e = (verify_email (w_dns w (w_round w)) e, w\<lparr>w_round := Suc (w_round w)\<rparr>)"

definition batch_in :: "world \<Rightarrow> string option list \<Rightarrow> verification list \<times> world" where
  "batch_in w es = (verify_batch (w_dns w (w_round w)) es, w\<lparr>w_round := Suc (w_round w)\<rparr>)"

definition dispatch :: "world \<Rightarrow> mail \<Rightarrow> (string + string) \<times> world" where
  \<comment> \<open>hand a message to the transport: it is in the outbox whatever the answer\<close>
  "dispatch w m = (w_send w m, w\<lparr>w_outbox := w_outbox w @ [m]\<rparr>)"

subsection \<open>Sending\<close>

record send_result =
  sr_verified :: bool
  sr_sent :: bool
  sr_verification :: verification
  sr_message_id :: "string option"

definition reason_text :: "reason option \<Rightarrow> string" where
  \<comment> \<open>\<open>`${verification.reason}`\<close>\<close>
  "reason_text r = (case r of None \<Rightarrow> ''null'' | Some Invalid_format \<Rightarrow> ''invalid_format''
     | Some No_mx_records \<Rightarrow> ''no_mx_records'' | Some Dns_lookup_failed \<Rightarrow> ''dns_lookup_failed'')"

definition verify_and_send ::
    "smtp_env \<Rightarrow> transport_config option \<Rightarrow> string \<Rightarrow> string \<Rightarrow> string \<Rightarrow> world \<Rightarrow>
     (string + send_result) \<times> world" where
  \<comment> \<open>\<open>verifyAndSend(to, subject, content)\<close>; \<open>Inl\<close> is the message of the thrown \<open>Error\<close>\<close>
  "verify_and_send env tr to subj content w =
     (let (v, w1) = verify_in w (Some to) in
      if \<not> v_is_valid v then
        (Inl (''Invalid email address: '' @ to @ '' ('' @ reason_text (v_reason v) @ '')''), w1)
      else if v_risk v = Risk_high then (Inl (''High-risk email address: '' @ to), w1)
      else (case tr of
              None \<Rightarrow> (Inr \<lparr>sr_verified = True, sr_sent = False, sr_verification = v, sr_message_id = None\<rparr>, w1)
            | Some cfg \<Rightarrow>
                (let m = \<lparr>mail_from = js_or_str (env_email_from env) (env_smtp_user env), mail_to = to,
                          mail_subject = subj, mail_html = content, mail_attachments = []\<rparr>;
                     (ans, w2) = dispatch w1 m
                 in case ans of
                      Inl err \<Rightarrow> (Inl (''Failed to send email: '' @ err), w2)
                    | Inr mid \<Rightarrow> (Inr \<lparr>sr_verified = True, sr_sent = True, sr_verification = v,
                                         sr_message_id = Some mid\<rparr>, w2))))"

record recipient =
  r_email :: string
  r_subject :: string
  r_content :: string

datatype bulk_status =
    Bulk_success send_result
  | Bulk_skipped verification
      \<comment> \<open>\<open>reason: 'Invalid or high-risk email'\<close>\<close>
  | Bulk_error string

record bulk_entry =
  be_email :: string
  be_status :: bulk_status

fun bulk_loop ::
    "smtp_env \<Rightarrow> transport_config option \<Rightarrow> (recipient \<times> verification) list \<Rightarrow> world \<Rightarrow>
     bulk_entry list \<times> world" where
  \<comment> \<open>the \<open>for\<close> loop of \<open>verifyAndSendBulk\<close>, awaiting each recipient in turn\<close>
  "bulk_loop env tr [] w = ([], w)"
| "bulk_loop env tr ((r, v) # rvs) w =
     (let (entry, w1) =
         (if v_is_valid v \<and> v_risk v \<noteq> Risk_high then
            (case verify_and_send env tr (r_email r) (r_subject r) (r_content r) w of
               (Inr res, w') \<Rightarrow> (\<lparr>be_email = r_email r, be_status = Bulk_success res\<rparr>, w')
             | (Inl err, w') \<Rightarrow> (\<lparr>be_email = r_email r, be_status = Bulk_error err\<rparr>, w'))
          else (\<lparr>be_email = r_email r, be_status = Bulk_skipped v\<rparr>, w));
          (rest, w2) = bulk_loop env tr rvs w1
      in (entry # rest, w2))"

definition verify_and_send_bulk ::
    "smtp_env \<Rightarrow> transport_config option \<Rightarrow> recipient list \<Rightarrow> world \<Rightarrow> bulk_entry list \<times> world" where
  \<comment> \<open>\<open>verifyAndSendBulk(recipients)\<close>\<close>
  "verify_and_send_bulk env tr rs w =
     (let (vs, w1) = batch_in w (map (\<lambda>r. Some (r_email r)) rs) in bulk_loop env tr (zip rs vs) w1)"

definition email_service :: "smtp_env \<Rightarrow> transport_config option" where
  \<comment> \<open>the constructor: the verifier has no state, the transporter is made once\<close>
  "email_service env = create_transporter env"

subsection \<open>Facts\<close>

definition passes :: "verification \<Rightarrow> bool" where
  \<comment> \<open>the guard \<open>verification.isValid && verification.risk !== 'high'\<close>\<close>
  "passes v \<longleftrightarrow> v_is_valid v \<and> v_risk v \<noteq> Risk_high"

fun bulk_skipped :: "bulk_status \<Rightarrow> bool" where
  "bulk_skipped (Bulk_skipped _) = True"
| "bulk_skipped _ = False"

subsection \<open>Samples for the witnesses\<close>

definition sample_mx :: "mx_record list" where
  "sample_mx = [\<lparr>mx_priority = 10, mx_exchange = ''mx.example.com''\<rparr>]"

definition sample_world :: world where
  \<comment> \<open>a DNS that answers every round with one record and a transport that accepts every message\<close>
  "sample_world = \<lparr>w_dns = (\<lambda>n d. Dns_ok sample_mx), w_round = 0, w_send = (\<lambda>m. Inr ''<id@example.com>''),
                   w_outbox = []\<rparr>"

definition sample_smtp :: smtp_env where
  "sample_smtp = \<lparr>env_smtp_host = Some ''smtp.example.com'', env_smtp_port = Some ''587'',
                  env_smtp_secure = None, env_smtp_user = Some ''mailer'', env_smtp_pass = Some ''secret'',
                  env_email_from = None\<rparr>"

definition three_recipients :: "recipient list" where
  "three_recipients = [\<lparr>r_email = ''ann@example.com'', r_subject = ''s'', r_content = ''c''\<rparr>,
                       \<lparr>r_email = ''not-an-email'', r_subject = ''s'', r_content = ''c''\<rparr>,
                       \<lparr>r_email = ''bob@example.com'', r_subject = ''s'', r_content = ''c''\<rparr>]"

definition flaky_world :: world where
  "flaky_world = sample_world\<lparr>w_dns := (\<lambda>n d. if n = 0 then Dns_ok sample_mx else Dns_error ''ETIMEOUT'')\<rparr>"

lemmas send_defs = verify_and_send_def verify_in_def dispatch_def Let_def

lemma verify_email_valid_low: "v_is_valid (verify_email r e) \<Longrightarrow> v_risk (verify_email r e) = Risk_low"
  by (auto simp: verify_email_def Let_def resolve_domain_def split: dns_answer.splits if_splits)

lemma verify_and_send_effect:
  assumes "verify_and_send env tr to subj c w = (res, w')"
  shows "w_round w' = Suc (w_round w) \<and> w_dns w' = w_dns w \<and> w_send w' = w_send w \<and>
         (\<exists>ms. w_outbox w' = w_outbox w @ ms \<and> length ms \<le> 1)"
  using assms by (auto simp: send_defs split: if_splits option.splits sum.splits)

lemma verify_and_send_outbox:
  assumes "verify_and_send env tr to subj c w = (res, w')" "w_outbox w' \<noteq> w_outbox w"
  shows "passes (verify_email (w_dns w (w_round w)) (Some to)) \<and> tr \<noteq> None \<and>
         map mail_to (drop (length (w_outbox w)) (w_outbox w')) = [to]"
  using assms by (auto simp: send_defs passes_def split: if_splits option.splits sum.splits)

lemma bulk_loop_props:
  assumes "bulk_loop env tr rvs w = (es, w')"
  shows "list_all2 (\<lambda>e (r, v). be_email e = r_email r \<and> (bulk_skipped (be_status e) \<longleftrightarrow> \<not> passes v)) es rvs \<and>
    w_round w' = w_round w + length (filter (\<lambda>rv. passes (snd rv)) rvs) \<and> w_dns w' = w_dns w \<and>
    (\<exists>ms. w_outbox w' = w_outbox w @ ms \<and> length ms \<le> length (filter (\<lambda>rv. passes (snd rv)) rvs))"
  using assms
proof (induction rvs arbitrary: w es w')
  case Nil
  then show ?case by simp
next
  case (Cons rv rvs)
  obtain r v where rv: "rv = (r, v)" by fastforce
  show ?case
  proof (cases "passes v")
    case True
    obtain res w1 where s: "verify_and_send env tr (r_email r) (r_subject r) (r_content r) w = (res, w1)"
      by fastforce
    obtain rest w2 where b: "bulk_loop env tr rvs w1 = (rest, w2)" by fastforce
    from Cons.prems True s b rv obtain e where es: "es = e # rest" and w': "w' = w2"
        and e: "be_email e = r_email r" "\<not> bulk_skipped (be_status e)"
      by (auto simp: passes_def split: sum.splits)
    from verify_and_send_effect [OF s] obtain ms1 where
        r1: "w_round w1 = Suc (w_round w)" "w_dns w1 = w_dns w"
        and m1: "w_outbox w1 = w_outbox w @ ms1" "length ms1 \<le> 1" by blast
    from Cons.IH [OF b] obtain ms2 where
        ih: "list_all2 (\<lambda>e (r, v). be_email e = r_email r \<and> (bulk_skipped (be_status e) \<longleftrightarrow> \<not> passes v)) rest rvs"
          "w_round w2 = w_round w1 + length (filter (\<lambda>rv. passes (snd rv)) rvs)" "w_dns w2 = w_dns w1"
        and m2: "w_outbox w2 = w_outbox w1 @ ms2" "length ms2 \<le> length (filter (\<lambda>rv. passes (snd rv)) rvs)"
      by blast
    have "w_outbox w' = w_outbox w @ (ms1 @ ms2) \<and> length (ms1 @ ms2) \<le> length (filter (\<lambda>rv. passes (snd rv)) (rv # rvs))"
      using m1 m2 w' True rv by simp
    with es e ih r1 w' True rv show ?thesis by auto
  next
    case False
    obtain rest w2 where b: "bulk_loop env tr rvs w = (rest, w2)" by fastforce
    from Cons.prems False b rv have es: "es = \<lparr>be_email = r_email r, be_status = Bulk_skipped v\<rparr> # rest"
        and w': "w' = w2"
      by (auto simp: passes_def)
    from Cons.IH [OF b] es w' False rv show ?thesis by auto
  qed
qed

lemma zip_map_self: "zip rs (map f rs) = map (\<lambda>r. (r, f r)) rs"
  by (induction rs) auto

lemma bulk_props:
  assumes "verify_and_send_bulk env tr rs w = (es, w')"
  shows "list_all2 (\<lambda>e r. be_email e = r_email r \<and>
             (bulk_skipped (be_status e) \<longleftrightarrow> \<not> passes (verify_email (w_dns w (w_round w)) (Some (r_email r))))) es rs \<and>
    w_round w' = Suc (w_round w) + length (filter (\<lambda>r. passes (verify_email (w_dns w (w_round w)) (Some (r_email r)))) rs) \<and>
    (\<exists>ms. w_outbox w' = w_outbox w @ ms \<and>
          length ms \<le> length (filter (\<lambda>r. passes (verify_email (w_dns w (w_round w)) (Some (r_email r)))) rs))"
proof -
  let ?f = "\<lambda>r. verify_email (w_dns w (w_round w)) (Some (r_email r))"
  from assms have b: "bulk_loop env tr (map (\<lambda>r. (r, ?f r)) rs) (w\<lparr>w_round := Suc (w_round w)\<rparr>) = (es, w')"
    by (simp add: verify_and_send_bulk_def batch_in_def verify_batch_def zip_map_self [symmetric] comp_def)
  from bulk_loop_props [OF b] show ?thesis
    by (simp add: list_all2_map2 filter_map comp_def)
qed

subsection \<open>Properties\<close>

text \<open>
  C19: \<open>verifyAndSend\<close> hands at most one message to the transport, and only when the
  verification of the recipient (in the current DNS round) was valid with \<open>low\<close> risk and a
  transporter exists; the message is addressed to that recipient. Delivery is never attempted
  for an invalid or high-risk address.
\<close>

theorem send_only_to_verified:
  assumes "verify_and_send env tr to subj c w = (res, w')"
  shows "(\<exists>ms. w_outbox w' = w_outbox w @ ms \<and> length ms \<le> 1) \<and>
    (w_outbox w' \<noteq> w_outbox w \<longrightarrow>
       v_is_valid (verify_email (w_dns w (w_round w)) (Some to)) \<and>
       v_risk (verify_email (w_dns w (w_round w)) (Some to)) = Risk_low \<and> tr \<noteq> None \<and>
       map mail_to (drop (length (w_outbox w)) (w_outbox w')) = [to])"
  using verify_and_send_effect [OF assms] verify_and_send_outbox [OF assms] verify_email_valid_low
  by (auto simp: passes_def)

theorem send_only_to_verified_witness:
  "\<exists>ms. w_outbox (snd (verify_and_send sample_smtp (create_transporter sample_smtp) ''user@example.com''
          ''Hello'' ''<p>Hi</p>'' sample_world)) = [] @ ms \<and> length ms \<le> 1"
  using send_only_to_verified [of sample_smtp "create_transporter sample_smtp" "''user@example.com''"
      "''Hello''" "''<p>Hi</p>''" sample_world
      "fst (verify_and_send sample_smtp (create_transporter sample_smtp) ''user@example.com'' ''Hello'' ''<p>Hi</p>'' sample_world)"
      "snd (verify_and_send sample_smtp (create_transporter sample_smtp) ''user@example.com'' ''Hello'' ''<p>Hi</p>'' sample_world)"]
  by (simp add: sample_world_def)

text \<open>
  C20: for a recipient whose verification is valid, \<open>verifyAndSend\<close> resolves
  \<open>{verified: true, sent: false}\<close> without sending when there is no transporter; with a
  transporter it sends one message (from \<open>EMAIL_FROM || SMTP_USER\<close>, with the subject and
  HTML content given) and resolves \<open>{verified: true, sent: true, messageId}\<close>, or rejects
  with "Failed to send email: " and the transport's message.
\<close>

theorem send_outcomes:
  fixes env :: smtp_env and to subj c :: string and w :: world
  assumes "v_is_valid (verify_email (w_dns w (w_round w)) (Some to))"
  defines "v \<equiv> verify_email (w_dns w (w_round w)) (Some to)"
    and "m \<equiv> \<lparr>mail_from = js_or_str (env_email_from env) (env_smtp_user env), mail_to = to,
              mail_subject = subj, mail_html = c, mail_attachments = []\<rparr>"
  shows "verify_and_send env None to subj c w =
           (Inr \<lparr>sr_verified = True, sr_sent = False, sr_verification = v, sr_message_id = None\<rparr>,
            w\<lparr>w_round := Suc (w_round w)\<rparr>) \<and>
    (w_send w m = Inr mid \<longrightarrow> verify_and_send env (Some cfg) to subj c w =
           (Inr \<lparr>sr_verified = True, sr_sent = True, sr_verification = v, sr_message_id = Some mid\<rparr>,
            w\<lparr>w_round := Suc (w_round w), w_outbox := w_outbox w @ [m]\<rparr>)) \<and>
    (w_send w m = Inl err \<longrightarrow> verify_and_send env (Some cfg) to subj c w =
           (Inl (''Failed to send email: '' @ err), w\<lparr>w_round := Suc (w_round w), w_outbox := w_outbox w @ [m]\<rparr>))"
  using assms verify_email_valid_low [OF assms(1)] by (simp add: send_defs)

theorem send_outcomes_witness:
  "v_is_valid (verify_email (w_dns sample_world (w_round sample_world)) (Some ''user@example.com'')) \<and>
   fst (verify_and_send sample_smtp None ''user@example.com'' ''Hello'' ''<p>Hi</p>'' sample_world) =
     Inr \<lparr>sr_verified = True, sr_sent = False,
          sr_verification = verify_email (w_dns sample_world (w_round sample_world)) (Some ''user@example.com''),
          sr_message_id = None\<rparr>"
proof -
  have v: "v_is_valid (verify_email (w_dns sample_world (w_round sample_world)) (Some ''user@example.com''))"
    by (simp add: sample_world_def sample_mx_def) code_simp
  show ?thesis
    using send_outcomes [OF v, of sample_smtp "''Hello''" "''<p>Hi</p>''"] v by simp
qed

text \<open>
  C21: \<open>verifyAndSend\<close> rejects an invalid recipient with "Invalid email address: " followed
  by the address and the verifier's reason, and its "High-risk email address" rejection is
  unreachable: a valid verification always has \<open>low\<close> risk.
\<close>

theorem invalid_rejected_high_risk_dead:
  "fst (verify_and_send env tr to subj c w) \<noteq> Inl (''High-risk email address: '' @ to) \<and>
   (\<not> v_is_valid (verify_email (w_dns w (w_round w)) (Some to)) \<longrightarrow>
      fst (verify_and_send env tr to subj c w) =
        Inl (''Invalid email address: '' @ to @ '' ('' @
             reason_text (v_reason (verify_email (w_dns w (w_round w)) (Some to))) @ '')''))"
  using verify_email_valid_low [of "w_dns w (w_round w)" "Some to"]
  by (auto simp: send_defs split: option.splits sum.splits)

theorem invalid_rejected_high_risk_dead_witness:
  "\<not> v_is_valid (verify_email (w_dns sample_world 0) (Some ''not-an-email'')) \<and>
   fst (verify_and_send sample_smtp None ''not-an-email'' ''s'' ''c'' sample_world) =
     Inl ''Invalid email address: not-an-email (invalid_format)''"
proof -
  have v: "verify_email (w_dns sample_world 0) (Some ''not-an-email'') =
      \<lparr>v_email = ''not-an-email'', v_is_valid = False, v_risk = Risk_high, v_reason = Some Invalid_format,
       v_mx_records = [], v_error = None\<rparr>"
    by (simp add: sample_world_def) code_simp
  show ?thesis
    using invalid_rejected_high_risk_dead [of sample_smtp None "''not-an-email''" "''s''" "''c''" sample_world] v
    by (simp add: sample_world_def reason_text_def)
qed

text \<open>
  C22: \<open>verifyAndSendBulk\<close> returns one entry per recipient, in order, for that recipient's
  address; an entry is \<open>skipped\<close> exactly when the batch verification found the address
  invalid or high-risk; every other recipient is attempted (its entry is a success or a
  captured error), so no failure aborts the batch.
\<close>

theorem bulk_entries:
  assumes "verify_and_send_bulk env tr rs w = (es, w')"
  shows "length es = length rs \<and>
    (\<forall>i < length rs. be_email (es ! i) = r_email (rs ! i) \<and>
       (bulk_skipped (be_status (es ! i)) \<longleftrightarrow>
          \<not> passes (verify_email (w_dns w (w_round w)) (Some (r_email (rs ! i))))))"
  using bulk_props [OF assms] by (simp add: list_all2_conv_all_nth)

theorem bulk_entries_witness:
  "length (fst (verify_and_send_bulk sample_smtp None three_recipients sample_world)) = 3 \<and>
   \<not> bulk_skipped (be_status (fst (verify_and_send_bulk sample_smtp None three_recipients sample_world) ! 0)) \<and>
   bulk_skipped (be_status (fst (verify_and_send_bulk sample_smtp None three_recipients sample_world) ! 1)) \<and>
   \<not> bulk_skipped (be_status (fst (verify_and_send_bulk sample_smtp None three_recipients sample_world) ! 2))"
proof -
  have p: "passes (verify_email (w_dns sample_world (w_round sample_world)) (Some ''ann@example.com''))"
      "\<not> passes (verify_email (w_dns sample_world (w_round sample_world)) (Some ''not-an-email''))"
      "passes (verify_email (w_dns sample_world (w_round sample_world)) (Some ''bob@example.com''))"
    by (simp_all add: sample_world_def sample_mx_def passes_def) code_simp+
  show ?thesis
    using bulk_entries [of sample_smtp None three_recipients sample_world
        "fst (verify_and_send_bulk sample_smtp None three_recipients sample_world)"
        "snd (verify_and_send_bulk sample_smtp None three_recipients sample_world)"] p
    by (simp add: three_recipients_def)
qed

text \<open>
  C23: the bulk operation verifies every recipient once in the batch round and then each
  recipient that passed a second time inside \<open>verifyAndSend\<close>: it takes exactly
  \<open>1 + k\<close> DNS rounds for \<open>k\<close> passing recipients, and hands at most \<open>k\<close> messages to
  the transport.
\<close>

theorem bulk_rounds:
  assumes "verify_and_send_bulk env tr rs w = (es, w')"
  shows "w_round w' = Suc (w_round w) +
           length (filter (\<lambda>r. passes (verify_email (w_dns w (w_round w)) (Some (r_email r)))) rs) \<and>
    (\<exists>ms. w_outbox w' = w_outbox w @ ms \<and>
       length ms \<le> length (filter (\<lambda>r. passes (verify_email (w_dns w (w_round w)) (Some (r_email r)))) rs))"
  using bulk_props [OF assms] by blast

theorem bulk_rounds_witness:
  "w_round (snd (verify_and_send_bulk sample_smtp None three_recipients sample_world)) =
     Suc 0 + length (filter (\<lambda>r. passes (verify_email (w_dns sample_world 0) (Some (r_email r)))) three_recipients)"
  using bulk_rounds [of sample_smtp None three_recipients sample_world
      "fst (verify_and_send_bulk sample_smtp None three_recipients sample_world)"
      "snd (verify_and_send_bulk sample_smtp None three_recipients sample_world)"]
  by (simp add: sample_world_def)

text \<open>
  A consequence of the second lookup: when the DNS answer changes between the batch
  round and the recipient's own round, a recipient that passed the batch verification is
  reported as an error "Invalid email address: \<dots> (dns_lookup_failed)" instead of being
  sent to or skipped.
\<close>

theorem bulk_recheck_changes_outcome:
  "passes (verify_email (w_dns flaky_world 0) (Some ''ann@example.com'')) \<and>
   fst (verify_and_send_bulk sample_smtp None [\<lparr>r_email = ''ann@example.com'', r_subject = ''s'', r_content = ''c''\<rparr>]
          flaky_world) =
     [\<lparr>be_email = ''ann@example.com'',
       be_status = Bulk_error ''Invalid email address: ann@example.com (dns_lookup_failed)''\<rparr>]"
  by (simp add: flaky_world_def sample_world_def sample_mx_def) code_simp

end
