(* ===== verification/Invoice_Mail.thy ===== *)
theory Invoice_Mail
  imports Mailer Money
begin

section \<open>The invoice e-mail\<close>

text \<open>
  \<^verbatim>\<open>src/server/services/emailService.ts\<close>: \<open>createEmailTransporter\<close>, which validates the
  environment with \<open>validateEmailEnvironment\<close> (a module outside the repository, here the
  boolean outcome of the validation) and falls back to nodemailer's JSON transport, which
  sends nothing; and \<open>sendInvoiceEmail\<close>, which sends the branded HTML message with the
  invoice PDF attached and swallows every transport error. The message goes through the
  same world as the delivery service: an SMTP transport puts it in the outbox.
\<close>

datatype ts_transport = Smtp_transport transport_config | Json_transport

definition js_number_string :: "int option \<Rightarrow> string" where
  \<comment> \<open>\<open>String(port)\<close>, \<open>None\<close> being \<open>NaN\<close>\<close>
  "js_number_string n =
     (case n of None \<Rightarrow> ''NaN''
      | Some k \<Rightarrow> (if k < 0 then ''-'' @ dec_digits (nat (- k)) else dec_digits (nat k)))"

definition create_email_transporter :: "bool \<Rightarrow> smtp_env \<Rightarrow> ts_transport" where
  \<comment> \<open>\<open>createEmailTransporter()\<close>; \<open>env_ok\<close> is whether \<open>validateEmailEnvironment()\<close> returned\<close>
  "create_email_transporter env_ok env =
     (if \<not> env_ok then Json_transport
      else (let port = (case env_smtp_port env of
                          Some p \<Rightarrow> if p \<noteq> [] then js_parse_int p else Some 587
                        | None \<Rightarrow> Some 587)
            in Smtp_transport
                 \<lparr>tc_host = env_smtp_host env, tc_port = port,
                  tc_secure = (js_number_string port = ''465'' \<or> env_smtp_secure env = Some ''true''),
                  tc_auth = (if js_truthy_str (env_smtp_user env)
                             then Some (env_smtp_user env, env_smtp_pass env) else None)\<rparr>))"

record email_invoice_data =
  ei_email :: string
  ei_invoice_id :: string
  ei_license_key :: string
  ei_amount_cents :: cents
  ei_pdf :: string
    \<comment> \<open>the bytes of the PDF buffer\<close>

definition invoice_email_html :: "string \<Rightarrow> string \<Rightarrow> string \<Rightarrow> string" where
  \<comment> \<open>the template literal of \<open>html\<close>, lines 53--87, with its three interpolations\<close>
  \<open>invoice_email_html invoice_id license_key total_amount =
  js_join ''\<newline>'' [
     '''',
     ''      <div style="font-family: Arial, sans-serif; max-width: 600px; margin: 0 auto;">'',
     ''        <div style="background: #FF7A00; color: white; padding: 20px; text-align: center;">'',
     ''          <h1 style="margin: 0;">NK2IT PTY LTD</h1>'',
     ''          <p style="margin: 5px 0 0 0;">Professional Software Licensing Solutions</p>'',
     ''        </div>'',
     ''        '',
     ''        <div style="padding: 30px; background: #f9f9f9;">'',
     ''          <h2 style="color: #333;">Thank you for your purchase!</h2>'',
     ''          '',
     ''          <p>Your Symantec Endpoint Protection license has been processed successfully.</p>'',
     ''          '',
     ''          <div style="background: white; padding: 20px; border-radius: 8px; margin: 20px 0;">'',
     ''            <h3 style="color: #FF7A00; margin-top: 0;">Order Details</h3>'',
     ''            <p><strong>Invoice ID:</strong> ''] @
  invoice_id @
  js_join ''\<newline>'' [
     ''</p>'',
     ''            <p><strong>License Key:</strong> <code style="background: #f0f0f0; padding: 4px 8px; border-radius: 4px;">''] @
  license_key @
  js_join ''\<newline>'' [
     ''</code></p>'',
     ''            <p><strong>Total Amount:</strong> $''] @
  total_amount @
  js_join ''\<newline>'' [
     '' AUD (inc. GST)</p>'',
     ''          </div>'',
     ''          '',
     ''          <p>Your invoice PDF is attached to this email for your records.</p>'',
     ''          '',
     ''          <div style="background: #e8f5e8; padding: 15px; border-radius: 8px; border-left: 4px solid #00A65A;">'',
     ''            <p style="margin: 0;"><strong>Next Steps:</strong></p>'',
     ''            <p style="margin: 5px 0 0 0;">Use the license key above to activate your Symantec Endpoint Protection software. If you need assistance, contact our support team.</p>'',
     ''          </div>'',
     ''        </div>'',
     ''        '',
     ''        <div style="background: #00A65A; color: white; padding: 20px; text-align: center;">'',
     ''          <p style="margin: 0; font-weight: bold;">Thank you for your purchase! Powered by NK2IT</p>'',
     ''          <p style="margin: 10px 0 0 0; font-size: 14px;">'',
     ''            Email: support@nk2it.com.au | Phone: 1300 NK2 IT | Website: nk2it.com.au'',
     ''          </p>'',
     ''        </div>'',
     ''      </div>'',
     ''    '']\<close>

definition invoice_mail :: "smtp_env \<Rightarrow> email_invoice_data \<Rightarrow> mail" where
  \<comment> \<open>\<open>mailOptions\<close>\<close>
  "invoice_mail env data =
     \<lparr>mail_from = env_email_from env, mail_to = ei_email data,
      mail_subject = ''NK2IT Invoice '' @ ei_invoice_id data @ '' - Symantec License Key'',
      mail_html = invoice_email_html (ei_invoice_id data) (ei_license_key data)
                    (email_total_amount (ei_amount_cents data)),
      mail_attachments = [\<lparr>att_filename = ''NK2IT-Invoice-'' @ ei_invoice_id data @ ''.pdf'',
                            att_content = ei_pdf data, att_content_type = ''application/pdf''\<rparr>]\<rparr>"

definition send_invoice_email :: "bool \<Rightarrow> smtp_env \<Rightarrow> email_invoice_data \<Rightarrow> world \<Rightarrow> unit \<times> world" where
  \<comment> \<open>\<open>sendInvoiceEmail(data)\<close>: a transport error is logged and not rethrown\<close>
  "send_invoice_email env_ok env data w =
     (case create_email_transporter env_ok env of
        Json_transport \<Rightarrow> ((), w)
      | Smtp_transport cfg \<Rightarrow> ((), snd (dispatch w (invoice_mail env data))))"

subsection \<open>Facts\<close>

lemma js_number_string_465 [js_eval]:
  "js_number_string n = ''465'' \<longleftrightarrow> n = Some 465"
proof
  assume h: "js_number_string n = ''465''"
  show "n = Some 465"
  proof (cases n)
    case None
    with h show ?thesis by (simp add: js_number_string_def)
  next
    case (Some k)
    show ?thesis
    proof (cases "k < 0")
      case True
      with h Some show ?thesis by (simp add: js_number_string_def)
    next
      case False
      with h Some have "dec_digits (nat k) = ''465''" by (simp add: js_number_string_def)
      then have "dec_value ''465'' = Some (nat k)" by (metis dec_value_dec_digits)
      then have "nat k = 465" by (simp add: dec_value_def is_digit_def digit_val_def)
      with False Some show ?thesis by simp
    qed
  qed
next
  assume "n = Some 465"
  then show "js_number_string n = ''465''"
    by (simp add: js_number_string_def dec_digits.simps digit_char_def)
qed

lemma create_email_transporter_Smtp:
  "create_email_transporter True env = Smtp_transport cfg \<Longrightarrow>
   tc_secure cfg \<longleftrightarrow> tc_port cfg = Some 465 \<or> env_smtp_secure env = Some ''true''"
  by (auto simp add: create_email_transporter_def Let_def js_number_string_465)

lemma invoice_email_html_shape: "\<exists>a b c d. mail_html (invoice_mail env data) =
   a @ ''<p><strong>Invoice ID:</strong> '' @ ei_invoice_id data @ ''</p>'' @ b @ ei_license_key data @ c @
   ''<p><strong>Total Amount:</strong> $'' @ email_total_amount (ei_amount_cents data) @ '' AUD (inc. GST)</p>'' @ d"
proof (intro exI)
  show \<open>mail_html (invoice_mail env data) =
     (js_join ''\<newline>'' ['''', ''      <div style="font-family: Arial, sans-serif; max-width: 600px; margin: 0 auto;">'', ''        <div style="background: #FF7A00; color: white; padding: 20px; text-align: center;">'', ''          <h1 style="margin: 0;">NK2IT PTY LTD</h1>'', ''          <p style="margin: 5px 0 0 0;">Professional Software Licensing Solutions</p>'', ''        </div>'', ''        '', ''        <div style="padding: 30px; background: #f9f9f9;">'', ''          <h2 style="color: #333;">Thank you for your purchase!</h2>'', ''          '', ''          <p>Your Symantec Endpoint Protection license has been processed successfully.</p>'', ''          '', ''          <div style="background: white; padding: 20px; border-radius: 8px; margin: 20px 0;">'', ''            <h3 style="color: #FF7A00; margin-top: 0;">Order Details</h3>''] @ ''\<newline>'' @ ''            '') @ ''<p><strong>Invoice ID:</strong> '' @ ei_invoice_id data @ ''</p>'' @ (''\<newline>'' @ js_join ''\<newline>'' [''            <p><strong>License Key:</strong> <code style="background: #f0f0f0; padding: 4px 8px; border-radius: 4px;">'']) @ ei_license_key data @ (''</code></p>'' @ ''\<newline>'' @ ''            '') @
     ''<p><strong>Total Amount:</strong> $'' @ email_total_amount (ei_amount_cents data) @ '' AUD (inc. GST)</p>'' @ (''\<newline>'' @ js_join ''\<newline>'' [''          </div>'', ''          '', ''          <p>Your invoice PDF is attached to this email for your records.</p>'', ''          '', ''          <div style="background: #e8f5e8; padding: 15px; border-radius: 8px; border-left: 4px solid #00A65A;">'', ''            <p style="margin: 0;"><strong>Next Steps:</strong></p>'', ''            <p style="margin: 5px 0 0 0;">Use the license key above to activate your Symantec Endpoint Protection software. If you need assistance, contact our support team.</p>'', ''          </div>'', ''        </div>'', ''        '', ''        <div style="background: #00A65A; color: white; padding: 20px; text-align: center;">'', ''          <p style="margin: 0; font-weight: bold;">Thank you for your purchase! Powered by NK2IT</p>'', ''          <p style="margin: 10px 0 0 0; font-size: 14px;">'', ''            Email: support@nk2it.com.au | Phone: 1300 NK2 IT | Website: nk2it.com.au'', ''          </p>'', ''        </div>'', ''      </div>'', ''    ''])\<close>
    by (simp add: invoice_mail_def invoice_email_html_def)
qed

lemma invoice_mail_simps [simp]:
  "mail_to (invoice_mail env data) = ei_email data"
  "mail_subject (invoice_mail env data) = ''NK2IT Invoice '' @ ei_invoice_id data @ '' - Symantec License Key''"
  "mail_attachments (invoice_mail env data) =
     [\<lparr>att_filename = ''NK2IT-Invoice-'' @ ei_invoice_id data @ ''.pdf'', att_content = ei_pdf data,
       att_content_type = ''application/pdf''\<rparr>]"
  by (simp_all add: invoice_mail_def)

subsection \<open>Properties\<close>

text \<open>C24: \<open>sendInvoiceEmail\<close> never verifies the recipient and never fails: with a validated
  environment the message goes to the SMTP transport whatever the address, and with the JSON
  fallback nothing leaves the process. No DNS round is consumed either way.\<close>

theorem send_invoice_email_effect:
  "send_invoice_email env_ok env data w =
     ((), if env_ok then w\<lparr>w_outbox := w_outbox w @ [invoice_mail env data]\<rparr> else w)"
  by (simp add: send_invoice_email_def create_email_transporter_def dispatch_def Let_def)

text \<open>C25: the invoice message is addressed to the customer, names the invoice in its subject
  and attachment, and interpolates the invoice id, the licence key and the formatted amount into
  the HTML verbatim, without escaping.\<close>

theorem invoice_mail_contents:
  "mail_to (invoice_mail env data) = ei_email data \<and>
   mail_subject (invoice_mail env data) = ''NK2IT Invoice '' @ ei_invoice_id data @ '' - Symantec License Key'' \<and>
   map att_filename (mail_attachments (invoice_mail env data)) = [''NK2IT-Invoice-'' @ ei_invoice_id data @ ''.pdf''] \<and>
   (\<exists>a b c d. mail_html (invoice_mail env data) =
      a @ ''<p><strong>Invoice ID:</strong> '' @ ei_invoice_id data @ ''</p>'' @ b @ ei_license_key data @ c @
      ''<p><strong>Total Amount:</strong> $'' @ email_total_amount (ei_amount_cents data) @ '' AUD (inc. GST)</p>'' @ d)"
  using invoice_email_html_shape by simp

text \<open>The TypeScript transporter is secure exactly when its numeric port is 465 or
  \<open>SMTP_SECURE\<close> is \<open>'true'\<close>: the string test \<open>String(port) === '465'\<close> agrees with the number,
  and a \<open>NaN\<close> port is never secure by port.\<close>

theorem ts_transporter_secure:
  "create_email_transporter True env = Smtp_transport cfg \<Longrightarrow>
   tc_secure cfg \<longleftrightarrow> tc_port cfg = Some 465 \<or> env_smtp_secure env = Some ''true''"
  by (auto simp add: create_email_transporter_def Let_def js_number_string_465)

theorem ts_transporter_secure_witness:
  "create_email_transporter True \<lparr>env_smtp_host = Some ''mail'', env_smtp_port = Some ''465'',
      env_smtp_secure = None, env_smtp_user = None, env_smtp_pass = None, env_email_from = None\<rparr>
     = Smtp_transport \<lparr>tc_host = Some ''mail'', tc_port = Some 465, tc_secure = True, tc_auth = None\<rparr> \<and>
   tc_secure \<lparr>tc_host = Some ''mail'', tc_port = Some 465, tc_secure = True, tc_auth = None\<rparr>"
proof -
  have e: "create_email_transporter True \<lparr>env_smtp_host = Some ''mail'', env_smtp_port = Some ''465'',
      env_smtp_secure = None, env_smtp_user = None, env_smtp_pass = None, env_email_from = None\<rparr>
     = Smtp_transport \<lparr>tc_host = Some ''mail'', tc_port = Some 465, tc_secure = True, tc_auth = None\<rparr>"
    by code_simp
  show ?thesis using e ts_transporter_secure [OF e] by simp
qed

end
