(* ===== verification/Worker_Api.thy ===== *)
theory Worker_Api
  imports JS_Runtime
begin

section \<open>The API worker\<close>

text \<open>
  The Cloudflare worker of \<^verbatim>\<open>src/my-api/src/index.ts\<close> (with the header constant of
  \<^verbatim>\<open>src/my-api/src/cors.ts\<close>) and the Pages function of \<^verbatim>\<open>src/functions:api:hello.ts\<close>.
  The handler \<open>fetch(req, env)\<close> answers a CORS preflight, a health check, the API index,
  four API routes and otherwise a static asset from the \<open>ASSETS\<close> binding, with a JSON
  404 or 500 response on every other path.

  JSON values are a datatype and a response body is the value \<open>JSON.stringify\<close> is applied
  to. Object literals and spreads are association lists in insertion order (\<open>obj_set\<close>
  overwrites a key in place, as an assignment to an existing property does). A
  \<open>Headers\<close> object is an association list with lower-case names. The platform is an
  explicit environment: the parse of \<open>new URL(req.url)\<close> (which throws on an invalid URL),
  the clock as the two strings the handler reads from \<open>new Date()\<close>, and the asset fetcher,
  which may throw.
\<close>

subsection \<open>JSON values, objects and headers\<close>

datatype json =
    J_null | J_bool bool | J_num rat | J_str string | J_arr "json list"
  | J_obj "(string \<times> json) list"

fun obj_set :: "(string \<times> 'a) list \<Rightarrow> string \<Rightarrow> 'a \<Rightarrow> (string \<times> 'a) list" where
  \<comment> \<open>\<open>o[k] = v\<close>: an existing property keeps its position\<close>
  "obj_set [] k v = [(k, v)]"
| "obj_set ((k', v') # kvs) k v = (if k' = k then (k, v) # kvs else (k', v') # obj_set kvs k v)"

definition obj_spread :: "(string \<times> 'a) list \<Rightarrow> (string \<times> 'a) list \<Rightarrow> (string \<times> 'a) list" where
  \<comment> \<open>\<open>{...o, ...p}\<close>: the properties of \<open>p\<close> assigned in order onto those of \<open>o\<close>\<close>
  "obj_spread obj p = foldl (\<lambda>acc (k, v). obj_set acc k v) obj p"

fun headers_append :: "(string \<times> string) list \<Rightarrow> string \<Rightarrow> string \<Rightarrow> (string \<times> string) list" where
  \<comment> \<open>\<open>Headers.append\<close> on a lower-cased name: a repeated name combines the values\<close>
  "headers_append [] k v = [(k, v)]"
| "headers_append ((k', v') # hs) k v =
     (if k' = k then (k, v' @ '', '' @ v) # hs else (k', v') # headers_append hs k v)"

definition headers_of :: "(string \<times> string) list \<Rightarrow> (string \<times> string) list" where
  \<comment> \<open>\<open>new Headers(init)\<close> for an object \<open>init\<close>\<close>
  "headers_of init = foldl (\<lambda>h (k, v). headers_append h (js_lower k) v) [] init"

definition headers_set :: "(string \<times> string) list \<Rightarrow> string \<Rightarrow> string \<Rightarrow> (string \<times> string) list" where
  \<comment> \<open>\<open>Headers.set\<close>\<close>
  "headers_set h k v = obj_set h (js_lower k) v"

definition header_get :: "(string \<times> string) list \<Rightarrow> string \<Rightarrow> string option" where
  \<comment> \<open>\<open>Headers.get\<close>\<close>
  "header_get h k = map_of h (js_lower k)"

definition js_starts_with :: "string \<Rightarrow> string \<Rightarrow> bool" where
  \<comment> \<open>\<open>s.startsWith(p)\<close>\<close>
  "js_starts_with s p \<longleftrightarrow> take (length p) s = p"

subsection \<open>Requests, responses and the platform\<close>

record request =
  req_method :: string
  req_url :: string
  req_headers :: "(string \<times> string) list"
    \<comment> \<open>the request's \<open>Headers\<close>, as iterated\<close>
  req_cf :: "json option"
    \<comment> \<open>\<open>None\<close>: \<open>req.cf\<close> is \<open>undefined\<close>, a key \<open>JSON.stringify\<close> leaves out\<close>
  req_body :: "json option"
    \<comment> \<open>\<open>None\<close>: \<open>req.json()\<close> rejects\<close>

datatype body = Body_none | Body_json json | Body_raw string

record response =
  resp_status :: nat
  resp_headers :: "(string \<times> string) list"
  resp_body :: body

record asset =
  asset_status :: nat
  asset_headers :: "(string \<times> string) list"
  asset_body :: string

record worker_env =
  we_pathname :: "string \<Rightarrow> string + string"
    \<comment> \<open>\<open>new URL(url).pathname\<close>, or the message of the \<open>TypeError\<close> it throws\<close>
  we_now_iso :: string
    \<comment> \<open>\<open>new Date().toISOString()\<close>\<close>
  we_now_utc :: string
    \<comment> \<open>\<open>new Date().toUTCString()\<close>\<close>
  we_assets :: "request \<Rightarrow> string + asset"
    \<comment> \<open>\<open>env.ASSETS.fetch(req)\<close>, or the error it throws\<close>

subsection \<open>The worker\<close>

definition region :: string where
  "region = ''Tamil Nadu''"

definition cors_headers :: "(string \<times> string) list" where
  \<comment> \<open>\<open>corsHeaders\<close> of \<open>index.ts\<close>\<close>
  "cors_headers =
     [(''Access-Control-Allow-Origin'', ''*''),
      (''Access-Control-Allow-Methods'', ''GET,HEAD,POST,PUT,DELETE,OPTIONS''),
      (''Access-Control-Allow-Headers'', ''Content-Type,Authorization''),
      (''Access-Control-Max-Age'', ''86400'')]"

definition cors_module_headers :: "(string \<times> string) list" where
  \<comment> \<open>\<open>corsHeaders\<close> of \<open>cors.ts\<close>\<close>
  "cors_module_headers =
     [(''Access-Control-Allow-Origin'', ''*''),
      (''Access-Control-Allow-Methods'', ''GET,HEAD,POST,OPTIONS,PUT,DELETE''),
      (''Access-Control-Allow-Headers'', ''Content-Type,Authorization''),
      (''Access-Control-Max-Age'', ''86400'')]"

definition json_response :: "json \<Rightarrow> nat \<Rightarrow> (string \<times> string) list \<Rightarrow> response" where
  \<comment> \<open>\<open>jsonResponse(data, status, extraHeaders)\<close>\<close>
  "json_response data status extra =
     \<lparr>resp_status = status,
      resp_headers = headers_of (obj_spread (obj_set cors_headers ''Content-Type'' ''application/json'') extra),
      resp_body = Body_json data\<rparr>"

definition from_entries :: "(string \<times> string) list \<Rightarrow> json" where
  \<comment> \<open>\<open>Object.fromEntries(req.headers)\<close>\<close>
  "from_entries hs = J_obj (foldl (\<lambda>obj (k, v). obj_set obj k (J_str v)) [] hs)"

definition api_route :: "worker_env \<Rightarrow> request \<Rightarrow> string \<Rightarrow> response option" where
  \<comment> \<open>the \<open>switch (pathname)\<close>: \<open>None\<close> where it breaks out\<close>
  "api_route env req p =
     (if p = ''/api/hello'' \<and> req_method req = ''GET'' then
        Some (json_response (J_obj [(''message'', J_str ''Hello from NK2IT API!''),
          (''timestamp'', J_str (we_now_iso env)), (''region'', J_str region)]) 200 [])
      else if p = ''/api/time'' \<and> req_method req = ''GET'' then
        Some (json_response (J_obj [(''iso'', J_str (we_now_iso env)), (''utc'', J_str (we_now_utc env)),
          (''timezone'', J_str ''Asia/Kolkata''), (''region'', J_str region)]) 200 [])
      else if p = ''/api/echo'' \<and> req_method req = ''POST'' then
        Some (json_response (J_obj [(''received'', case req_body req of None \<Rightarrow> J_obj [] | Some b \<Rightarrow> b),
          (''headers'', from_entries (req_headers req)), (''timestamp'', J_str (we_now_iso env)),
          (''region'', J_str region)]) 200 [])
      else if p = ''/api/info'' \<and> req_method req = ''GET'' then
        Some (json_response (J_obj [
          (''worker'', J_obj [(''version'', J_str ''1.0.0''), (''name'', J_str ''NK2IT API''),
                             (''timestamp'', J_str (we_now_iso env)), (''region'', J_str region)]),
          (''request'', J_obj ((case req_cf req of None \<Rightarrow> [] | Some cf \<Rightarrow> [(''cf'', cf)]) @
                              [(''url'', J_str (req_url req)), (''method'', J_str (req_method req)),
                               (''headers'', from_entries (req_headers req))]))]) 200 [])
      else None)"

definition api_index :: "worker_env \<Rightarrow> json" where
  "api_index env =
     J_obj [(''name'', J_str ''NK2IT API''), (''version'', J_str ''1.0.0''),
            (''timestamp'', J_str (we_now_iso env)), (''region'', J_str region),
            (''endpoints'', J_obj [(''base'', J_str ''/api''),
               (''available'', J_arr (map J_str [''/api/hello'', ''/api/time'', ''/api/echo'', ''/api/info'']))])]"

definition not_found :: "string \<Rightarrow> response" where
  \<comment> \<open>the default 404 for non-API routes\<close>
  "not_found p = json_response (J_obj [(''error'', J_str ''Not Found''), (''path'', J_str p),
     (''availableAt'', J_str ''/api''), (''region'', J_str region)]) 404 []"

definition serve_static :: "worker_env \<Rightarrow> request \<Rightarrow> string \<Rightarrow> response" where
  \<comment> \<open>the inner \<open>try\<close>: a 200 asset is re-wrapped with a cache header, anything else is a 404\<close>
  "serve_static env req p =
     (case we_assets env req of
        Inr a \<Rightarrow> if asset_status a = 200 then
                   \<lparr>resp_status = asset_status a,
                    resp_headers = headers_set (asset_headers a) ''Cache-Control'' ''public, max-age=14400'',
                    resp_body = Body_raw (asset_body a)\<rparr>
                 else not_found p
      | Inl _ \<Rightarrow> not_found p)"

definition route :: "worker_env \<Rightarrow> request \<Rightarrow> string \<Rightarrow> response" where
  \<comment> \<open>the body of the outer \<open>try\<close> once the path is known\<close>
  "route env req p =
     (if p = ''/health'' then
        json_response (J_obj [(''status'', J_str ''ok''), (''timestamp'', J_str (we_now_iso env)),
                              (''region'', J_str region)]) 200 []
      else if p = ''/api'' \<or> p = ''/api/'' then json_response (api_index env) 200 []
      else if js_starts_with p ''/api/'' then
        (case api_route env req p of
           Some r \<Rightarrow> r
         | None \<Rightarrow> json_response (J_obj [(''error'', J_str ''API endpoint not found or method not allowed''),
                     (''path'', J_str p), (''method'', J_str (req_method req)),
                     (''availableAt'', J_str ''/api''), (''region'', J_str region)]) 404 [])
      else serve_static env req p)"

definition worker_fetch :: "worker_env \<Rightarrow> request \<Rightarrow> response" where
  \<comment> \<open>\<open>fetch(req, env, ctx)\<close> of the default export\<close>
  "worker_fetch env req =
     (if req_method req = ''OPTIONS'' then
        \<lparr>resp_status = 200, resp_headers = headers_of cors_headers, resp_body = Body_none\<rparr>
      else (case we_pathname env (req_url req) of
              Inl msg \<Rightarrow> json_response (J_obj [(''error'', J_str ''Internal Server Error''),
                           (''message'', J_str msg), (''region'', J_str region)]) 500 []
            | Inr p \<Rightarrow> route env req p))"

definition pages_hello :: response where
  \<comment> \<open>\<open>onRequestGet\<close> of the Pages function\<close>
  "pages_hello =
     \<lparr>resp_status = 200, resp_headers = headers_of [(''content-type'', ''application/json'')],
      resp_body = Body_json (J_obj [(''ok'', J_bool True),
                                    (''msg'', J_str ''Hello from Cloudflare Pages Functions!'')])\<rparr>"

definition sample_worker_env :: worker_env where
  "sample_worker_env =
     \<lparr>we_pathname = (\<lambda>u. if take 8 u = ''https://'' then Inr (dropWhile (\<lambda>c. c \<noteq> CHR ''/'') (drop 8 u))
                         else Inl (''Invalid URL: '' @ u)),
      we_now_iso = ''2025-01-01T00:00:00.000Z'', we_now_utc = ''Wed, 01 Jan 2025 00:00:00 GMT'',
      we_assets = (\<lambda>r. if req_url r = ''https://nk2it.com.au/index.html''
                       then Inr \<lparr>asset_status = 200, asset_headers = [(''content-type'', ''text/html'')],
                                 asset_body = ''<html></html>''\<rparr>
                       else Inl ''asset fetch failed'')\<rparr>"

definition sample_request :: "string \<Rightarrow> string \<Rightarrow> request" where
  "sample_request m u = \<lparr>req_method = m, req_url = u, req_headers = [], req_cf = None, req_body = None\<rparr>"

subsection \<open>Facts\<close>

lemma map_of_obj_set [simp]: "map_of (obj_set kvs k v) = (map_of kvs)(k \<mapsto> v)"
  by (induction kvs k v rule: obj_set.induct) (auto simp: fun_eq_iff)

lemma json_response_headers:
  "resp_headers (json_response d s []) =
     [(''access-control-allow-origin'', ''*''),
      (''access-control-allow-methods'', ''GET,HEAD,POST,PUT,DELETE,OPTIONS''),
      (''access-control-allow-headers'', ''Content-Type,Authorization''),
      (''access-control-max-age'', ''86400''), (''content-type'', ''application/json'')]"
  unfolding json_response_def by code_simp

lemma preflight_headers:
  "headers_of cors_headers =
     [(''access-control-allow-origin'', ''*''),
      (''access-control-allow-methods'', ''GET,HEAD,POST,PUT,DELETE,OPTIONS''),
      (''access-control-allow-headers'', ''Content-Type,Authorization''),
      (''access-control-max-age'', ''86400'')]"
  by code_simp

lemma js_lower_acao [js_eval]: "js_lower ''Access-Control-Allow-Origin'' = ''access-control-allow-origin''"
  by code_simp

lemma json_response_simps [simp]:
  "resp_status (json_response d s e) = s"
  "resp_body (json_response d s e) = Body_json d"
  by (simp_all add: json_response_def)

lemma json_response_cors [simp]:
  "header_get (resp_headers (json_response d s [])) ''Access-Control-Allow-Origin'' = Some ''*''"
  by (simp add: header_get_def json_response_headers js_lower_acao)

lemma preflight_cors [simp]:
  "header_get (headers_of cors_headers) ''Access-Control-Allow-Origin'' = Some ''*''"
  by (simp add: header_get_def preflight_headers js_lower_acao)

lemma worker_fetch_path:
  "req_method req \<noteq> ''OPTIONS'' \<Longrightarrow> we_pathname env (req_url req) = Inr p \<Longrightarrow>
   worker_fetch env req = route env req p"
  by (simp add: worker_fetch_def)

lemma route_api:
  "js_starts_with p ''/api/'' \<or> p = ''/api'' \<Longrightarrow> route env req p =
     (if p = ''/api'' \<or> p = ''/api/'' then json_response (api_index env) 200 []
      else case api_route env req p of Some r \<Rightarrow> r
         | None \<Rightarrow> json_response (J_obj [(''error'', J_str ''API endpoint not found or method not allowed''),
                     (''path'', J_str p), (''method'', J_str (req_method req)),
                     (''availableAt'', J_str ''/api''), (''region'', J_str region)]) 404 [])"
  by (auto simp add: route_def js_starts_with_def)

lemma route_static:
  "\<not> js_starts_with p ''/api/'' \<Longrightarrow> p \<noteq> ''/api'' \<Longrightarrow> p \<noteq> ''/health'' \<Longrightarrow>
   route env req p = serve_static env req p"
  by (auto simp add: route_def js_starts_with_def)

lemma api_route_status:
  "api_route env req p = Some r \<Longrightarrow> resp_status r = 200"
  by (auto simp add: api_route_def split: if_splits)

lemma api_route_defined:
  "api_route env req p \<noteq> None \<longleftrightarrow>
     (p, req_method req) \<in> {(''/api/hello'', ''GET''), (''/api/time'', ''GET''), (''/api/echo'', ''POST''), (''/api/info'', ''GET'')}"
  by (simp add: api_route_def)


lemma api_route_cors:
  "api_route env req p = Some r \<Longrightarrow>
   header_get (resp_headers r) ''Access-Control-Allow-Origin'' = Some ''*''"
  unfolding api_route_def by (auto split: if_splits)


lemma route_cors:
  "(\<exists>a. we_assets env req = Inr a \<and> asset_status a = 200 \<and> resp_body (route env req p) = Body_raw (asset_body a)) \<or>
   header_get (resp_headers (route env req p)) ''Access-Control-Allow-Origin'' = Some ''*''"
proof (cases "js_starts_with p ''/api/'' \<or> p = ''/api''")
  case True
  then show ?thesis
    by (simp add: route_api api_route_cors split: option.splits)
next
  case False
  show ?thesis
  proof (cases "p = ''/health''")
    case True
    then show ?thesis by (simp add: route_def)
  next
    case nh: False
    with False have "route env req p = serve_static env req p" by (simp add: route_static)
    then show ?thesis by (simp add: serve_static_def not_found_def split: sum.splits)
  qed
qed

lemma js_lower_cache_control [js_eval]: "js_lower ''Cache-Control'' = ''cache-control''"
  by code_simp

subsection \<open>Properties\<close>

text \<open>A CORS preflight (\<open>OPTIONS\<close>) is answered with status 200, the four CORS
  headers and no body, whatever the URL, before the URL is even parsed.\<close>

theorem preflight_response:
  "worker_fetch env (req\<lparr>req_method := ''OPTIONS''\<rparr>) =
     \<lparr>resp_status = 200,
      resp_headers = [(''access-control-allow-origin'', ''*''),
                      (''access-control-allow-methods'', ''GET,HEAD,POST,PUT,DELETE,OPTIONS''),
                      (''access-control-allow-headers'', ''Content-Type,Authorization''),
                      (''access-control-max-age'', ''86400'')],
      resp_body = Body_none\<rparr>"
  by (simp add: worker_fetch_def preflight_headers)

text \<open>Every response of the worker has status 200, 404 or 500.\<close>

theorem worker_status_codes: "resp_status (worker_fetch env req) \<in> {200, 404, 500}"
  unfolding worker_fetch_def route_def api_route_def serve_static_def not_found_def
  by (simp split: sum.splits option.splits)

text \<open>C30: every response carries \<open>Access-Control-Allow-Origin: *\<close> except a static asset
  served from \<open>ASSETS\<close>, which keeps the asset's own headers.\<close>

theorem cors_except_static:
  "(\<exists>a. we_assets env req = Inr a \<and> asset_status a = 200 \<and> resp_body (worker_fetch env req) = Body_raw (asset_body a)) \<or>
   header_get (resp_headers (worker_fetch env req)) ''Access-Control-Allow-Origin'' = Some ''*''"
  using route_cors [of env req] by (simp add: worker_fetch_def split: sum.splits)

text \<open>A path under \<open>/api\<close> is answered by the worker alone: the asset binding is
  never consulted, so its answer cannot change the response.\<close>

theorem api_never_assets:
  "we_pathname env (req_url req) = Inr p \<Longrightarrow> js_starts_with p ''/api/'' \<or> p = ''/api'' \<Longrightarrow>
   worker_fetch (env\<lparr>we_assets := f\<rparr>) req = worker_fetch env req"
  unfolding worker_fetch_def by (simp add: route_api api_route_def api_index_def)

theorem api_never_assets_witness:
  "worker_fetch (sample_worker_env\<lparr>we_assets := (\<lambda>_. Inl ''down'')\<rparr>) (sample_request ''GET'' ''https://nk2it.com.au/api/hello'') =
   worker_fetch sample_worker_env (sample_request ''GET'' ''https://nk2it.com.au/api/hello'')"
proof -
  have "we_pathname sample_worker_env (req_url (sample_request ''GET'' ''https://nk2it.com.au/api/hello'')) = Inr ''/api/hello''"
       "js_starts_with ''/api/hello'' ''/api/''"
    by code_simp+
  then show ?thesis using api_never_assets by blast
qed

text \<open>C31: below \<open>/api/\<close> exactly four (path, method) pairs are served, with status 200;
  every other path or method, the documented products, auth, payment and invoice endpoints
  included, gets the JSON 404 ``API endpoint not found or method not allowed''.\<close>

theorem api_route_table:
  assumes "req_method req \<noteq> ''OPTIONS''" "we_pathname env (req_url req) = Inr p"
    "js_starts_with p ''/api/''" "p \<noteq> ''/api/''"
  shows "resp_status (worker_fetch env req) =
           (if (p, req_method req) \<in> {(''/api/hello'', ''GET''), (''/api/time'', ''GET''), (''/api/echo'', ''POST''), (''/api/info'', ''GET'')}
            then 200 else 404)"
proof -
  have "p \<noteq> ''/api''" using assms(3) by (auto simp: js_starts_with_def)
  then show ?thesis using assms api_route_status [of env req p] api_route_defined [of env req p]
    by (auto simp add: worker_fetch_path route_api split: option.splits)
qed

theorem api_route_table_witness:
  "resp_status (worker_fetch sample_worker_env (sample_request ''GET'' ''https://nk2it.com.au/api/products'')) = 404"
proof -
  have "we_pathname sample_worker_env (req_url (sample_request ''GET'' ''https://nk2it.com.au/api/products'')) = Inr ''/api/products''"
       "js_starts_with ''/api/products'' ''/api/''" "req_method (sample_request ''GET'' ''https://nk2it.com.au/api/products'') = ''GET''"
    by code_simp+
  then show ?thesis using api_route_table [of "sample_request ''GET'' ''https://nk2it.com.au/api/products''"] by simp
qed

text \<open>The only error the outer \<open>try\<close> catches is an unparsable request URL; it is
  answered with status 500 and the error's message.\<close>

theorem invalid_url_500:
  "req_method req \<noteq> ''OPTIONS'' \<Longrightarrow> we_pathname env (req_url req) = Inl msg \<Longrightarrow>
   resp_status (worker_fetch env req) = 500 \<and>
   resp_body (worker_fetch env req) =
     Body_json (J_obj [(''error'', J_str ''Internal Server Error''), (''message'', J_str msg), (''region'', J_str ''Tamil Nadu'')])"
  by (simp add: worker_fetch_def region_def)

theorem invalid_url_500_witness:
  "resp_status (worker_fetch sample_worker_env (sample_request ''GET'' ''nk2it'')) = 500"
proof -
  have "req_method (sample_request ''GET'' ''nk2it'') \<noteq> ''OPTIONS''"
       "we_pathname sample_worker_env (req_url (sample_request ''GET'' ''nk2it'')) = Inl ''Invalid URL: nk2it''"
    by code_simp+
  then show ?thesis using invalid_url_500 by blast
qed

text \<open>C32: any other path is a static asset: a 200 answer of \<open>ASSETS\<close> is returned with its
  body and headers and \<open>Cache-Control: public, max-age=14400\<close>; any other answer, a thrown
  error included, becomes the JSON 404 ``Not Found'', never a 500.\<close>

theorem static_assets:
  assumes "req_method req \<noteq> ''OPTIONS''" "we_pathname env (req_url req) = Inr p"
    "\<not> js_starts_with p ''/api/''" "p \<noteq> ''/api''" "p \<noteq> ''/health''"
  shows "case we_assets env req of
            Inr a \<Rightarrow>
              (if asset_status a = 200 then
                 resp_status (worker_fetch env req) = 200 \<and>
                 resp_body (worker_fetch env req) = Body_raw (asset_body a) \<and>
                 header_get (resp_headers (worker_fetch env req)) ''Cache-Control'' = Some ''public, max-age=14400'' \<and>
                 (\<forall>k. js_lower k \<noteq> ''cache-control'' \<longrightarrow>
                    header_get (resp_headers (worker_fetch env req)) k = header_get (asset_headers a) k)
               else worker_fetch env req = not_found p)
          | Inl _ \<Rightarrow> worker_fetch env req = not_found p"
  using assms
  by (auto simp add: worker_fetch_path route_static serve_static_def headers_set_def header_get_def
      js_lower_cache_control split: sum.splits)

theorem static_assets_witness:
  "resp_status (worker_fetch sample_worker_env (sample_request ''GET'' ''https://nk2it.com.au/index.html'')) = 200 \<and>
   worker_fetch sample_worker_env (sample_request ''GET'' ''https://nk2it.com.au/about'') = not_found ''/about''"
proof -
  have a: "req_method (sample_request ''GET'' ''https://nk2it.com.au/about'') \<noteq> ''OPTIONS''"
       "we_pathname sample_worker_env (req_url (sample_request ''GET'' ''https://nk2it.com.au/about'')) = Inr ''/about''"
       "\<not> js_starts_with ''/about'' ''/api/''"
       "we_assets sample_worker_env (sample_request ''GET'' ''https://nk2it.com.au/about'') = Inl ''asset fetch failed''"
    by code_simp+
  have i: "req_method (sample_request ''GET'' ''https://nk2it.com.au/index.html'') \<noteq> ''OPTIONS''"
       "we_pathname sample_worker_env (req_url (sample_request ''GET'' ''https://nk2it.com.au/index.html'')) = Inr ''/index.html''"
       "\<not> js_starts_with ''/index.html'' ''/api/''"
       "we_assets sample_worker_env (sample_request ''GET'' ''https://nk2it.com.au/index.html'') =
          Inr \<lparr>asset_status = 200, asset_headers = [(''content-type'', ''text/html'')], asset_body = ''<html></html>''\<rparr>"
    by code_simp+
  have "worker_fetch sample_worker_env (sample_request ''GET'' ''https://nk2it.com.au/about'') = not_found ''/about''"
    using static_assets [OF a(1,2,3)] a(4) by simp
  moreover have "resp_status (worker_fetch sample_worker_env (sample_request ''GET'' ''https://nk2it.com.au/index.html'')) = 200"
    using static_assets [OF i(1,2,3)] i(4) by simp
  ultimately show ?thesis by simp
qed

end
