(* ===== verification/Utf8_Decode.thy ===== *)
theory Utf8_Decode
  imports Prelude "HOL-Library.Word"
begin

section \<open>Decoding a Buffer as UTF-8\<close>

text \<open>
  Node's \<open>Buffer.prototype.toString()\<close>, which \<open>body += chunk\<close> calls on each request
  chunk, decodes the chunk's bytes as UTF-8 by the WHATWG decoder: a byte machine with the
  number of continuation bytes still needed, the code point read so far, and the admissible
  range of the next byte. A byte that cannot continue the current sequence yields U+FFFD and
  is read again from the initial state; a sequence cut off by the end of the buffer yields one
  U+FFFD. The decoded text is a list of code points. Decoding is a library routine, modelled
  here from the WHATWG Encoding standard (section "UTF-8 decoder"); the facts below are the
  ones the checkout model needs: decoding distributes over a split at a character boundary,
  and a buffer that ends inside a character decodes to text ending in U+FFFD.
\<close>

unbundle bit_operations_syntax

type_synonym byte = "8 word"

record utf8_state =
  u_needed :: nat
  u_seen :: nat
  u_cp :: nat
  u_lower :: byte
  u_upper :: byte

definition utf8_init :: utf8_state where
  "utf8_init = \<lparr>u_needed = 0, u_seen = 0, u_cp = 0, u_lower = 0x80, u_upper = 0xBF\<rparr>"

definition replacement_char :: nat where
  "replacement_char = 0xFFFD"

definition utf8_lead :: "byte \<Rightarrow> nat list \<times> utf8_state" where
  \<comment> \<open>a byte read while no continuation byte is needed\<close>
  "utf8_lead b =
     (if b \<le> 0x7F then ([unat b], utf8_init)
      else if 0xC2 \<le> b \<and> b \<le> 0xDF then ([], utf8_init\<lparr>u_needed := 1, u_cp := unat (b AND 0x1F)\<rparr>)
      else if 0xE0 \<le> b \<and> b \<le> 0xEF then
        ([], utf8_init\<lparr>u_needed := 2, u_cp := unat (b AND 0xF),
                      u_lower := (if b = 0xE0 then 0xA0 else 0x80),
                      u_upper := (if b = 0xED then 0x9F else 0xBF)\<rparr>)
      else if 0xF0 \<le> b \<and> b \<le> 0xF4 then
        ([], utf8_init\<lparr>u_needed := 3, u_cp := unat (b AND 0x7),
                      u_lower := (if b = 0xF0 then 0x90 else 0x80),
                      u_upper := (if b = 0xF4 then 0x8F else 0xBF)\<rparr>)
      else ([replacement_char], utf8_init))"

definition utf8_byte :: "utf8_state \<Rightarrow> byte \<Rightarrow> nat list \<times> utf8_state" where
  \<comment> \<open>one step of the decoder: the code points it emits and the next state\<close>
  "utf8_byte st b =
     (if u_needed st = 0 then utf8_lead b
      else if b < u_lower st \<or> u_upper st < b then
        (replacement_char # fst (utf8_lead b), snd (utf8_lead b))
      else let cp = u_cp st * 64 + unat (b AND 0x3F); seen = Suc (u_seen st) in
        if seen = u_needed st then ([cp], utf8_init)
        else ([], st\<lparr>u_cp := cp, u_seen := seen, u_lower := 0x80, u_upper := 0xBF\<rparr>))"

fun utf8_feed :: "utf8_state \<Rightarrow> byte list \<Rightarrow> nat list \<times> utf8_state" where
  "utf8_feed st [] = ([], st)"
| "utf8_feed st (b # bs) =
     (let (o1, st1) = utf8_byte st b; (o2, st2) = utf8_feed st1 bs in (o1 @ o2, st2))"

definition utf8_flush :: "utf8_state \<Rightarrow> nat list" where
  \<comment> \<open>end of the buffer: an unfinished sequence is one U+FFFD\<close>
  "utf8_flush st = (if u_needed st = 0 then [] else [replacement_char])"

definition utf8_decode :: "byte list \<Rightarrow> nat list" where
  \<comment> \<open>\<open>buf.toString()\<close>, whose default encoding is UTF-8\<close>
  "utf8_decode bs = (let (out, st) = utf8_feed utf8_init bs in out @ utf8_flush st)"

definition utf8_complete :: "byte list \<Rightarrow> bool" where
  \<comment> \<open>the buffer ends on a character boundary\<close>
  "utf8_complete bs \<longleftrightarrow> u_needed (snd (utf8_feed utf8_init bs)) = 0"

subsection \<open>Facts\<close>

lemma utf8_lead_needed_0: "u_needed (snd (utf8_lead b)) = 0 \<Longrightarrow> snd (utf8_lead b) = utf8_init"
  unfolding utf8_lead_def by (auto simp add: utf8_init_def split: if_split_asm)

lemma utf8_byte_needed_0: "u_needed (snd (utf8_byte st b)) = 0 \<Longrightarrow> snd (utf8_byte st b) = utf8_init"
  by (auto simp add: utf8_byte_def Let_def utf8_lead_needed_0 utf8_init_def)

lemma utf8_feed_needed_0:
  "u_needed (snd (utf8_feed st bs)) = 0 \<Longrightarrow> bs \<noteq> [] \<Longrightarrow> snd (utf8_feed st bs) = utf8_init"
proof (induction bs arbitrary: st)
  case Nil then show ?case by simp
next
  case (Cons b bs)
  show ?case
  proof (cases bs)
    case Nil
    then show ?thesis using Cons.prems utf8_byte_needed_0 [of st b]
      by (simp add: split_beta)
  next
    case (Cons b' bs')
    then show ?thesis using Cons.IH [of "snd (utf8_byte st b)"] Cons.prems
      by (simp add: split_beta)
  qed
qed

lemma utf8_feed_append:
  "utf8_feed st (xs @ ys) =
     (let (o1, st1) = utf8_feed st xs; (o2, st2) = utf8_feed st1 ys in (o1 @ o2, st2))"
  by (induction xs arbitrary: st) (simp_all add: split_beta)

lemma utf8_flush_init [simp]: "utf8_flush utf8_init = []"
  by (simp add: utf8_flush_def utf8_init_def)

lemma utf8_decode_append:
  assumes "utf8_complete xs"
  shows "utf8_decode (xs @ ys) = utf8_decode xs @ utf8_decode ys"
proof (cases "xs = []")
  case True then show ?thesis by (simp add: utf8_decode_def)
next
  case False
  then have "snd (utf8_feed utf8_init xs) = utf8_init"
    using assms utf8_feed_needed_0 unfolding utf8_complete_def by blast
  then show ?thesis by (simp add: utf8_decode_def utf8_feed_append split_beta)
qed

lemma utf8_decode_concat:
  "\<forall>c\<in>set (butlast cs). utf8_complete c \<Longrightarrow> concat (map utf8_decode cs) = utf8_decode (concat cs)"
proof (induction cs)
  case Nil then show ?case by (simp add: utf8_decode_def)
next
  case (Cons c cs)
  show ?case
  proof (cases "cs = []")
    case True then show ?thesis by simp
  next
    case False
    then have "utf8_complete c" "\<forall>c\<in>set (butlast cs). utf8_complete c" using Cons.prems by auto
    then show ?thesis using Cons.IH by (simp add: utf8_decode_append)
  qed
qed

lemma utf8_decode_incomplete:
  "\<not> utf8_complete bs \<Longrightarrow> last (utf8_decode bs) = replacement_char"
  by (simp add: utf8_complete_def utf8_decode_def utf8_flush_def split_beta)

end
