(* ===== verification/Demo_Server.thy ===== *)
theory Demo_Server
  imports Worker_Api Utf8_Decode
begin

section \<open>The demo and proxy server\<close>

text \<open>
  \<^verbatim>\<open>src/server.js\<close> starts a Node HTTP server in front of Next.js. Its configuration comes
  from the environment (\<open>PORT\<close>, \<open>DEMO\<close>, \<open>NODE_ENV\<close>). In demo mode a request listener
  answers four kinds of \<open>/api\<close> request itself with JSON; a checkout reads the request body
  from \<open>data\<close> events and answers at \<open>end\<close>. Every other request whose URL starts with
  \<open>/api\<close> goes to the proxy branch, which calls \<open>http.request\<close>; \<open>http\<close> is never bound
  in the module (only \<open>createServer\<close> is imported), so that call throws a
  \<open>ReferenceError\<close> out of the listener. All other requests go to the Next.js handler.

  The listener's outcome for one request is a value of \<open>server_action\<close>; the checkout's
  body reading is a deterministic machine over the stream's events, run over a list of
  them. The request stream delivers \<open>Buffer\<close> chunks (no encoding is set on it), and
  \<open>body += chunk\<close> converts each chunk to a string on its own with \<open>Buffer.toString()\<close>,
  modelled by \<open>utf8_decode\<close> of \<open>Utf8_Decode\<close>; the body is the decoded text, a list of
  code points. \<open>new URL\<close>, \<open>Date.now()\<close> and \<open>JSON.parse\<close> are parameters.
\<close>

subsection \<open>Configuration\<close>

record node_env =
  ne_port :: "string option"
  ne_demo :: "string option"
  ne_node_env :: "string option"

record server_config =
  sc_port :: int
  sc_demo :: bool
  sc_dev :: bool

definition server_config :: "node_env \<Rightarrow> server_config" where
  \<comment> \<open>lines 5--7: \<open>parseInt(PORT, 10) || 3000\<close>, the demo flag and the dev flag\<close>
  "server_config env =
     (let demo = (ne_demo env = Some ''true'' \<or> ne_node_env env = Some ''demo'')
      in \<lparr>sc_port = (case js_parse_int (case ne_port env of None \<Rightarrow> ''undefined'' | Some p \<Rightarrow> p) of
                       None \<Rightarrow> 3000 | Some n \<Rightarrow> if n = 0 then 3000 else n),
          sc_demo = demo,
          sc_dev = (\<not> demo \<and> ne_node_env env \<noteq> Some ''production'')\<rparr>)"

record next_config =
  nc_output :: string
  nc_images_unoptimized :: bool

definition next_config :: next_config where
  \<comment> \<open>\<^verbatim>\<open>src/next.config.js\<close>: a static export with unoptimised images\<close>
  "next_config = \<lparr>nc_output = ''export'', nc_images_unoptimized = True\<rparr>"

definition next_app_options :: "server_config \<Rightarrow> bool \<times> string" where
  \<comment> \<open>line 8: \<open>next({ dev, dir: '.' })\<close>, the Next.js application the listener falls back to\<close>
  "next_app_options cfg = (sc_dev cfg, ''.'')"

subsection \<open>The request listener\<close>

record node_request =
  nr_method :: string
  nr_url :: string
    \<comment> \<open>\<open>req.url\<close>: the path and query of the request line\<close>
  nr_host :: "string option"
    \<comment> \<open>\<open>req.headers.host\<close>\<close>

record server_env =
  se_parse_url :: "string \<Rightarrow> string + string"
    \<comment> \<open>\<open>new URL(s).pathname\<close>, or the error it throws\<close>
  se_now :: int
    \<comment> \<open>\<open>Date.now()\<close>\<close>

datatype server_action =
    Send_json nat json
      \<comment> \<open>\<open>sendJson(res, obj, status)\<close>\<close>
  | Await_body
      \<comment> \<open>the checkout's \<open>data\<close> and \<open>end\<close> listeners are registered\<close>
  | Next_handler
      \<comment> \<open>\<open>handle(req, res)\<close>\<close>
  | Throws string
      \<comment> \<open>an exception escapes the listener\<close>

definition sample_products :: json where
  \<comment> \<open>\<open>sampleProducts\<close>\<close>
  "sample_products =
     J_arr [J_obj [(''id'', J_num 1), (''name'', J_str ''Demo Product''), (''price'', J_num (999 / 100))],
            J_obj [(''id'', J_num 2), (''name'', J_str ''Demo Subscription''), (''price'', J_num (499 / 100))]]"

definition demo_route :: "server_env \<Rightarrow> node_request \<Rightarrow> server_action option" where
  \<comment> \<open>lines 25--62: the demo \<open>try\<close> block; \<open>None\<close> falls through (also after a caught error)\<close>
  "demo_route env r =
     (let host = (if js_truthy_str (nr_host r) then the (nr_host r) else ''localhost'')
      in case se_parse_url env (''http://'' @ host @ nr_url r) of
           Inl _ \<Rightarrow> None
         | Inr p \<Rightarrow>
             if p = ''/api/health'' \<and> nr_method r = ''GET'' then
               Some (Send_json 200 (J_obj [(''ok'', J_bool True), (''demo'', J_bool True),
                                           (''time'', J_num (of_int (se_now env)))]))
             else if p = ''/api/products'' \<and> nr_method r = ''GET'' then Some (Send_json 200 sample_products)
             else if p = ''/api/checkout'' \<and> nr_method r = ''POST'' then Some Await_body
             else if js_starts_with p ''/api/'' then
               Some (Send_json 200 (J_obj [(''ok'', J_bool False), (''demo'', J_bool True),
                       (''message'', J_str ''Demo mode: endpoint not implemented''), (''path'', J_str p)]))
             else None)"

definition proxy_or_next :: "node_request \<Rightarrow> server_action" where
  \<comment> \<open>lines 65--87: \<open>http.request\<close> with \<open>http\<close> unbound throws before anything is sent\<close>
  "proxy_or_next r =
     (if js_starts_with (nr_url r) ''/api'' then Throws ''ReferenceError: http is not defined''
      else Next_handler)"

definition server_handle :: "server_config \<Rightarrow> server_env \<Rightarrow> node_request \<Rightarrow> server_action" where
  \<comment> \<open>the listener passed to \<open>createServer\<close>, lines 23--88\<close>
  "server_handle cfg env r =
     (case (if sc_demo cfg then demo_route env r else None) of
        Some a \<Rightarrow> a
      | None \<Rightarrow> proxy_or_next r)"

subsection \<open>The checkout body\<close>

datatype stream_event = Ev_data "byte list" | Ev_end
  \<comment> \<open>a \<open>data\<close> event carries the chunk's \<open>Buffer\<close>\<close>

record checkout_conn =
  cc_body :: "nat list"
    \<comment> \<open>the string \<open>body\<close>, as its code points\<close>
  cc_sent :: "(nat \<times> json) list"
    \<comment> \<open>the responses sent, status and body\<close>

definition checkout_reply :: "(nat list \<Rightarrow> json option) \<Rightarrow> nat list \<Rightarrow> json" where
  \<comment> \<open>lines 46--48: \<open>body ? JSON.parse(body) : null\<close>, a parse error leaving \<open>null\<close>\<close>
  "checkout_reply parse body =
     J_obj [(''ok'', J_bool True), (''demo'', J_bool True), (''orderId'', J_str ''demo-ORDER-1234''),
            (''request'', if body = [] then J_null else case parse body of None \<Rightarrow> J_null | Some j \<Rightarrow> j)]"

fun checkout_step :: "(nat list \<Rightarrow> json option) \<Rightarrow> checkout_conn \<Rightarrow> stream_event \<Rightarrow> checkout_conn" where
  \<comment> \<open>the \<open>data\<close> and \<open>end\<close> listeners, lines 43--49\<close>
  "checkout_step parse c (Ev_data chunk) = c\<lparr>cc_body := cc_body c @ utf8_decode chunk\<rparr>"
| "checkout_step parse c Ev_end = c\<lparr>cc_sent := cc_sent c @ [(200, checkout_reply parse (cc_body c))]\<rparr>"

definition checkout_start :: checkout_conn where
  "checkout_start = \<lparr>cc_body = [], cc_sent = []\<rparr>"

definition checkout_run :: "(nat list \<Rightarrow> json option) \<Rightarrow> stream_event list \<Rightarrow> checkout_conn" where
  "checkout_run parse es = foldl (checkout_step parse) checkout_start es"

definition sample_server_env :: server_env where
  "sample_server_env =
     \<lparr>se_parse_url = (\<lambda>u. if take 7 u = ''http://'' then Inr (dropWhile (\<lambda>c. c \<noteq> CHR ''/'') (drop 7 u))
                          else Inl ''TypeError: Invalid URL''),
      se_now = 1756000000000\<rparr>"

definition sample_node_request :: "string \<Rightarrow> string \<Rightarrow> node_request" where
  "sample_node_request m u = \<lparr>nr_method = m, nr_url = u, nr_host = Some ''localhost:3000''\<rparr>"

subsection \<open>Facts\<close>

lemma checkout_foldl_data:
  "foldl (checkout_step parse) c (map Ev_data cs) = c\<lparr>cc_body := cc_body c @ concat (map utf8_decode cs)\<rparr>"
  by (induction cs arbitrary: c) simp_all

lemma checkout_foldl_invariant:
  "cc_body (foldl (checkout_step parse) c es) = cc_body c @ concat [utf8_decode ch. Ev_data ch \<leftarrow> es] \<and>
   length (cc_sent (foldl (checkout_step parse) c es)) = length (cc_sent c) + count_list es Ev_end"
proof (induction es arbitrary: c)
  case Nil
  then show ?case by simp
next
  case (Cons e es)
  then show ?case by (cases e) simp_all
qed

lemma demo_route_never_throws: "demo_route env r \<noteq> Some (Throws e)"
  by (simp add: demo_route_def Let_def split: sum.splits)

subsection \<open>Properties\<close>

text \<open>C37: the proxy branch never proxies: every request that reaches it (a URL starting with
  \<open>/api\<close> outside demo mode, or one the demo routes do not answer) throws the
  \<open>ReferenceError\<close> of the unbound \<open>http\<close>, and that is the only exception that escapes.\<close>

theorem proxy_branch_throws:
  "(server_handle cfg env r = Throws ''ReferenceError: http is not defined'' \<longleftrightarrow>
      js_starts_with (nr_url r) ''/api'' \<and> (sc_demo cfg \<longrightarrow> demo_route env r = None)) \<and>
   (server_handle cfg env r = Throws e \<longrightarrow> e = ''ReferenceError: http is not defined'')"
proof (cases "sc_demo cfg \<and> demo_route env r \<noteq> None")
  case True
  then obtain a where a: "demo_route env r = Some a" by blast
  then have "a \<noteq> Throws e" for e using demo_route_never_throws [of env r e] by blast
  with True a show ?thesis by (simp add: server_handle_def)
next
  case False
  then have "server_handle cfg env r = proxy_or_next r" by (auto simp add: server_handle_def)
  with False show ?thesis by (simp add: proxy_or_next_def)
qed

theorem proxy_branch_throws_witness:
  "server_handle \<lparr>sc_port = 3000, sc_demo = False, sc_dev = False\<rparr> sample_server_env
     (sample_node_request ''GET'' ''/api/products'') = Throws ''ReferenceError: http is not defined''"
proof -
  have "js_starts_with (nr_url (sample_node_request ''GET'' ''/api/products'')) ''/api''" by code_simp
  then show ?thesis using conjunct1 [OF proxy_branch_throws [of "\<lparr>sc_port = 3000, sc_demo = False, sc_dev = False\<rparr>"
      sample_server_env "sample_node_request ''GET'' ''/api/products''"]] by simp
qed

text \<open>C38: in demo mode every path under \<open>/api/\<close> is answered by the listener itself: the
  checkout waits for its body, every other request gets a JSON reply with status 200, the
  endpoints that are not implemented included.\<close>

theorem demo_api_answers:
  assumes "sc_demo cfg"
    and "se_parse_url env (''http://'' @ (if js_truthy_str (nr_host r) then the (nr_host r) else ''localhost'') @ nr_url r)
           = Inr p"
    and "js_starts_with p ''/api/''"
  shows "(server_handle cfg env r = Await_body \<longleftrightarrow> p = ''/api/checkout'' \<and> nr_method r = ''POST'') \<and>
         (server_handle cfg env r \<noteq> Await_body \<longrightarrow> (\<exists>j. server_handle cfg env r = Send_json 200 j))"
proof -
  have h: "server_handle cfg env r =
    (if p = ''/api/health'' \<and> nr_method r = ''GET'' then
       Send_json 200 (J_obj [(''ok'', J_bool True), (''demo'', J_bool True), (''time'', J_num (of_int (se_now env)))])
     else if p = ''/api/products'' \<and> nr_method r = ''GET'' then Send_json 200 sample_products
     else if p = ''/api/checkout'' \<and> nr_method r = ''POST'' then Await_body
     else Send_json 200 (J_obj [(''ok'', J_bool False), (''demo'', J_bool True),
                       (''message'', J_str ''Demo mode: endpoint not implemented''), (''path'', J_str p)]))"
    using assms by (simp add: server_handle_def demo_route_def Let_def)
  show ?thesis unfolding h by simp
qed

theorem demo_api_answers_witness:
  "\<exists>j. server_handle \<lparr>sc_port = 3000, sc_demo = True, sc_dev = False\<rparr> sample_server_env
         (sample_node_request ''POST'' ''/api/orders'') = Send_json 200 j"
proof -
  have c: "sc_demo \<lparr>sc_port = 3000, sc_demo = True, sc_dev = False\<rparr>" by simp
  have u: "se_parse_url sample_server_env
      (''http://'' @ (if js_truthy_str (nr_host (sample_node_request ''POST'' ''/api/orders''))
          then the (nr_host (sample_node_request ''POST'' ''/api/orders'')) else ''localhost'') @
          nr_url (sample_node_request ''POST'' ''/api/orders'')) = Inr ''/api/orders''"
    by code_simp
  have s: "js_starts_with ''/api/orders'' ''/api/''" by code_simp
  have m: "nr_method (sample_node_request ''POST'' ''/api/orders'') = ''POST''"
    by (simp add: sample_node_request_def)
  show ?thesis using demo_api_answers [OF c u s] m by simp
qed

text \<open>C39: reading the checkout body chunk by chunk refines reading it whole when every
  chunk but the last ends on a character boundary: a stream of \<open>data\<close> chunks followed by
  \<open>end\<close> leaves as body the decoding of all the bytes at once, and sends exactly one reply,
  the one for that body.\<close>

theorem checkout_stream_refines:
  assumes "\<forall>c\<in>set (butlast cs). utf8_complete c"
  shows "checkout_run parse (map Ev_data cs @ [Ev_end]) =
     \<lparr>cc_body = utf8_decode (concat cs), cc_sent = [(200, checkout_reply parse (utf8_decode (concat cs)))]\<rparr>"
  using utf8_decode_concat [OF assms]
  by (simp add: checkout_run_def checkout_foldl_data checkout_start_def)

theorem checkout_stream_refines_witness:
  "checkout_run (\<lambda>_. Some J_null) [Ev_data [0x7B, 0x22, 0xC3, 0xA9], Ev_data [0x22, 0x7D], Ev_end] =
     \<lparr>cc_body = [0x7B, 0x22, 0xE9, 0x22, 0x7D], cc_sent = [(200, checkout_reply (\<lambda>_. Some J_null) [0x7B, 0x22, 0xE9, 0x22, 0x7D])]\<rparr>"
proof -
  have c: "\<forall>c\<in>set (butlast [[0x7B, 0x22, 0xC3, 0xA9], [0x22, 0x7D :: byte]]). utf8_complete c"
    by (simp add: utf8_complete_def utf8_byte_def utf8_lead_def utf8_init_def)
  have d: "utf8_decode (concat [[0x7B, 0x22, 0xC3, 0xA9], [0x22, 0x7D]]) = [0x7B, 0x22, 0xE9, 0x22, 0x7D]"
    by (simp add: utf8_decode_def utf8_byte_def utf8_lead_def utf8_init_def utf8_flush_def)
  show ?thesis using checkout_stream_refines [OF c, of "\<lambda>_. Some J_null"] d by simp
qed

text \<open>C40: on any event stream the checkout has accumulated exactly the decodings of its data
  chunks, each decoded on its own, and has sent one reply per \<open>end\<close> event: none before the
  stream ends, one after a stream that ends once.\<close>

theorem checkout_replies_per_end:
  "cc_body (checkout_run parse es) = concat [utf8_decode ch. Ev_data ch \<leftarrow> es] \<and>
   length (cc_sent (checkout_run parse es)) = count_list es Ev_end"
  using checkout_foldl_invariant [of parse checkout_start es]
  by (simp add: checkout_run_def checkout_start_def)

text \<open>C29: a data chunk that ends inside a multi-byte character puts U+FFFD into the body:
  the chunk is decoded on its own, so the character's first bytes become a replacement
  character, whatever the following chunks hold. A JSON body whose non-ASCII text straddles a
  chunk boundary reaches \<open>JSON.parse\<close> altered.\<close>

theorem checkout_split_character:
  assumes "Ev_data c \<in> set es" "\<not> utf8_complete c"
  shows "replacement_char \<in> set (cc_body (checkout_run parse es))"
proof -
  have "utf8_decode c \<noteq> []" using assms(2) by (simp add: utf8_decode_def utf8_flush_def split_beta utf8_complete_def)
  then have "replacement_char \<in> set (utf8_decode c)"
    using utf8_decode_incomplete [OF assms(2)] last_in_set by metis
  moreover have "utf8_decode c \<in> set [utf8_decode ch. Ev_data ch \<leftarrow> es]" using assms(1) by force
  ultimately show ?thesis using checkout_foldl_invariant [of parse checkout_start es]
    by (auto simp add: checkout_run_def checkout_start_def)
qed

theorem checkout_split_character_witness:
  "replacement_char \<in> set (cc_body (checkout_run (\<lambda>_. None) [Ev_data [0x22, 0xC3], Ev_data [0xA9, 0x22], Ev_end])) \<and>
   utf8_decode [0x22, 0xC3, 0xA9, 0x22] = [0x22, 0xE9, 0x22]"
proof -
  have "\<not> utf8_complete [0x22, 0xC3]"
    by (simp add: utf8_complete_def utf8_byte_def utf8_lead_def utf8_init_def)
  moreover have "utf8_decode [0x22, 0xC3, 0xA9, 0x22] = [0x22, 0xE9, 0x22]"
    by (simp add: utf8_decode_def utf8_byte_def utf8_lead_def utf8_init_def utf8_flush_def)
  ultimately show ?thesis
    using checkout_split_character [of "[0x22, 0xC3]" "[Ev_data [0x22, 0xC3], Ev_data [0xA9, 0x22], Ev_end]" "\<lambda>_. None"]
    by simp
qed

end
