(* ===== verification/Invoice_Store.thy ===== *)
theory Invoice_Store
  imports Money
begin

section \<open>The invoice store\<close>

text \<open>
  \<open>saveInvoiceRecord\<close> of \<^verbatim>\<open>src/server/services/pdfService.ts\<close> builds one row from the
  invoice data and hands it to \<open>prisma.invoice.create\<close>, returning what that call resolves
  with. The Prisma client is a library and its schema is not part of the repository, so
  \<open>invoice_db\<close>, \<open>prisma_invoice_create\<close> and \<open>unique_id_error\<close> are not translations of
  repository code: they are the environment the function runs in, described from Prisma's
  documented behaviour under one assumption, that the \<open>Invoice\<close> model's \<open>id\<close> is its
  primary key (a second row with a stored id is rejected with Prisma's \<open>P2002\<close>, an
  unreachable server with \<open>P1001\<close>, any other row inserted as given). What is proved of the
  repository's code is what \<open>saveInvoiceRecord\<close> contributes: which fields of the invoice go
  into which columns, and that the stored GST is the caller's, not recomputed.
\<close>

record invoice_db =
  db_rows :: "string \<rightharpoonup> invoice_record"
  db_up :: bool
    \<comment> \<open>the connection of \<open>new PrismaClient()\<close> is usable\<close>

definition unique_id_error :: string where
  "unique_id_error = ''P2002: Unique constraint failed on the fields: (`id`)''"

definition prisma_invoice_create :: "invoice_record \<Rightarrow> invoice_db \<Rightarrow> (string + invoice_record) \<times> invoice_db" where
  \<comment> \<open>\<open>prisma.invoice.create({data})\<close>: the created row, or the rejection\<close>
  "prisma_invoice_create r db =
     (if \<not> db_up db then (Inl ''P1001: Can't reach database server'', db)
      else if rec_id r \<in> dom (db_rows db) then (Inl unique_id_error, db)
      else (Inr r, db\<lparr>db_rows := (db_rows db)(rec_id r \<mapsto> r)\<rparr>))"

definition save_invoice ::
    "invoice_db \<Rightarrow> invoice_data \<Rightarrow> cents \<Rightarrow> string \<Rightarrow> string \<Rightarrow> (string + invoice_record) \<times> invoice_db" where
  \<comment> \<open>\<open>saveInvoiceRecord(data, gstCents, pdfFileName)\<close> at time \<open>now\<close>\<close>
  "save_invoice db d gst fname now = prisma_invoice_create (save_invoice_record d gst fname now) db"

definition empty_db :: invoice_db where
  "empty_db = \<lparr>db_rows = Map.empty, db_up = True\<rparr>"

definition invoice_of_record :: "invoice_record \<Rightarrow> invoice_data" where
  \<comment> \<open>the invoice data a stored row describes\<close>
  "invoice_of_record r =
     \<lparr>inv_id = rec_id r, inv_email = rec_user_email r, inv_license_key = rec_license_key r,
      inv_amount_cents = rec_amount_cents r\<rparr>"

definition sample_store_invoice :: invoice_data where
  "sample_store_invoice = \<lparr>inv_id = ''NK2IT-1756000000'', inv_email = ''user@example.com'',
     inv_license_key = ''ABCD-EFGH'', inv_amount_cents = 1995\<rparr>"

subsection \<open>Facts\<close>

lemma save_invoice_record_id [simp]: "rec_id (save_invoice_record d gst fname now) = inv_id d"
  by (simp add: save_invoice_record_def)

lemma invoice_of_save_invoice_record [simp]: "invoice_of_record (save_invoice_record d gst fname now) = d"
  by (simp add: invoice_of_record_def save_invoice_record_def)

lemma save_invoice_cases:
  "save_invoice db d gst fname now =
     (if \<not> db_up db then (Inl ''P1001: Can't reach database server'', db)
      else if db_rows db (inv_id d) \<noteq> None then (Inl unique_id_error, db)
      else (Inr (save_invoice_record d gst fname now),
            db\<lparr>db_rows := (db_rows db)(inv_id d \<mapsto> save_invoice_record d gst fname now)\<rparr>))"
  by (auto simp add: save_invoice_def prisma_invoice_create_def)

lemma gst_not_checked:
  "rec_gst_cents (the (db_rows (snd (save_invoice empty_db sample_store_invoice 0 ''invoice.pdf'' ''now''))
                     ''NK2IT-1756000000'')) = 0 \<and>
   gst_cents (inv_amount_cents sample_store_invoice) = 200"
proof -
  have "gst_cents 1995 = 200" unfolding gst_cents_def js_round_tenth by simp
  then show ?thesis
    by (simp add: save_invoice_cases empty_db_def sample_store_invoice_def save_invoice_record_def)
qed

subsection \<open>Properties\<close>

text \<open>C28: saving an invoice whose id is not yet stored, on a live connection, resolves with
  the row it built and stores it: reading the row back gives the invoice data, and no other
  row changes.\<close>

theorem save_invoice_roundtrip:
  assumes "db_up db" "db_rows db (inv_id d) = None"
  shows "fst (save_invoice db d gst fname now) = Inr (save_invoice_record d gst fname now) \<and>
         map_option invoice_of_record (db_rows (snd (save_invoice db d gst fname now)) (inv_id d)) = Some d \<and>
         (\<forall>k. k \<noteq> inv_id d \<longrightarrow> db_rows (snd (save_invoice db d gst fname now)) k = db_rows db k)"
  using assms by (simp add: save_invoice_cases)

theorem save_invoice_roundtrip_witness:
  "map_option invoice_of_record
     (db_rows (snd (save_invoice empty_db sample_store_invoice 200 ''invoice.pdf'' ''now'')) ''NK2IT-1756000000'')
   = Some sample_store_invoice"
proof -
  have "db_up empty_db" "db_rows empty_db (inv_id sample_store_invoice) = None"
    by (simp_all add: empty_db_def)
  from save_invoice_roundtrip [OF this, of 200 "''invoice.pdf''" "''now''"]
  show ?thesis by (simp add: sample_store_invoice_def)
qed

end
