(* ===== verification/Design_Reference.thy ===== *)
theory Design_Reference
  imports Invoice_Page
begin

section \<open>The invoice header mock-up\<close>

text \<open>
  \<^verbatim>\<open>src/.local/state/replit/agent/design_reference/.../pdfinvoice.ts\<close> holds no code: it is
  an HTML mock-up of the invoice header, a left column with the logo and the issuer's name
  and address and a right column with the title, the invoice number and the date. Its
  content is modelled as data, each element with its weight and colour class, so that the
  header \<open>generateInvoicePDF\<close> draws can be compared with it: the issuer lines agree, the
  right column's labels do not.
\<close>

datatype design_el =
    Design_image string
      \<comment> \<open>\<open><img src>\<close>\<close>
  | Design_text bool string string
      \<comment> \<open>bold, colour class, text\<close>

definition design_left :: "design_el list" where
  \<comment> \<open>lines 2--12\<close>
  "design_left =
     [Design_image ''/assets/nk2it-logo.png'',
      Design_text True ''text-nk-orange'' ''NK2IT PTY LTD'',
      Design_text False ''text-gray-700'' ''222, 20B Lexington Drive'',
      Design_text False ''text-gray-700'' ''Norwest Business Park'',
      Design_text False ''text-gray-700'' ''Baulkham Hills NSW 2153'']"

definition design_right :: "design_el list" where
  \<comment> \<open>lines 14--18; the sample number ends in an ellipsis character, written \<open>...\<close> here\<close>
  "design_right =
     [Design_text True ''text-gray-600'' ''INVOICE'',
      Design_text True '''' ''Invoice No:'', Design_text False '''' ''NK2IT-1756...'',
      Design_text True '''' ''Date:'', Design_text False '''' ''25/08/2025'']"

fun design_text :: "design_el \<Rightarrow> string option" where
  "design_text (Design_text _ _ s) = Some s"
| "design_text (Design_image _) = None"

fun drawn_text :: "draw_op \<Rightarrow> string option" where
  "drawn_text (Draw_text _ _ _ s _ _ _ _) = Some s"
| "drawn_text _ = None"

subsection \<open>Comparison with the rendered header\<close>

lemma company_block_matches_design:
  "List.map_filter drawn_text (drop (length (ops d)) (ops (company_block m d))) =
   List.map_filter design_text design_left"
  by (simp add: company_block_state design_left_def map_filter_simps)

lemma meta_block_labels:
  "List.map_filter drawn_text (drop (length (ops d)) (ops (meta_block env fs lines d))) =
     [''INVOICE NUMBER:'', js_join ''\<newline>'' lines, ''Date:'', env_date env] \<and>
   List.map_filter design_text design_right =
     [''INVOICE'', ''Invoice No:'', ''NK2IT-1756...'', ''Date:'', ''25/08/2025'']"
  by (simp add: meta_block_state design_right_def map_filter_simps)

lemma issuer_name_colour:
  "Draw_text Helvetica_Bold 12 ''#000000'' ''NK2IT PTY LTD'' (pg_margin d) company_y None Align_left
     \<in> set (ops (company_block m d)) \<and>
   Design_text True ''text-nk-orange'' ''NK2IT PTY LTD'' \<in> set design_left"
  by (simp add: company_block_state design_left_def)

end
