(* ===== verification/Spec2Isabelle.thy ===== *)
theory Spec2Isabelle
  imports Legacy_Pdf Invoice_Mail Demo_Server Invoice_Store Design_Reference
begin

text \<open>
  \<^bold>\<open>A verification library for the NK2IT secure-cart backend.\<close>
  The repository sells software licences. Its server side renders a PDF invoice, stores an
  invoice row, verifies and e-mails customers, and is fronted by a Node demo/proxy server
  and a Cloudflare worker. Each theory below models one part of \<^verbatim>\<open>src/\<close> as executable
  HOL definitions (shallow embedding) and proves what that part guarantees; this theory adds
  the properties that span several parts.

  \<^bold>\<open>Parts and how they interact.\<close>
  \<^item> \<open>Prelude\<close>: type names (\<open>cents = int\<close>, \<open>pt = rat\<close>), the rule collections
    \<open>js_eval\<close>, \<open>layout_simps\<close> and \<open>verdict_simps\<close>, and list lemmas the components share.
  \<^item> \<open>JS_Runtime\<close>: the JavaScript built-ins the sources call, as HOL functions:
    \<open>Math.round\<close> (\<open>js_round\<close>), \<open>toFixed(2)\<close> on cents (\<open>js_to_fixed2\<close>), \<open>parseInt\<close>
    (\<open>js_parse_int\<close>, \<open>None\<close> for \<open>NaN\<close>), \<open>substring\<close>, \<open>split\<close>, \<open>join\<close>,
    \<open>toLowerCase\<close>, truthiness of strings and \<open>||\<close>.
  \<^item> \<open>Money\<close> (\<^verbatim>\<open>pdfService.ts\<close>, \<^verbatim>\<open>emailService.ts\<close>): \<open>InvoiceData\<close>, the GST
    \<open>gst_cents\<close>, \<open>total_cents\<close>, the printed amounts and the row \<open>saveInvoiceRecord\<close> builds.
    Lemmas: the GST is half-up rounding of a tenth and within half a cent of it (C1, C2);
    printed amounts parse back to their cents (C3).
  \<^item> \<open>Id_Wrap\<close> and \<open>Invoice_Page\<close> (\<open>generateInvoicePDF\<close> of \<^verbatim>\<open>pdfService.ts\<close>): the
    font-shrinking loop, the character-count chunking loop (\<open>partial_function (option)\<close>,
    proved equal to the reference \<open>chunks\<close>), and every pdfkit call of the page as a
    function on a document record (fill, font, size, cursor, operation list), block by
    block in source order. Lemmas: the loops end and their results (C4--C6), the promise
    settles (C7), the page prints the id and the date below its measured height (C8, C9),
    an empty id is
    handled (C10), the data and totals are printed at the layout's positions (C11), a
    missing logo is harmless (C12), and a very long id reaches the product table (C13).
  \<^item> \<open>Design_Reference\<close> (the HTML mock-up under \<^verbatim>\<open>.local/\<close>): its header content as
    data, compared with the blocks the renderer draws.
  \<^item> \<open>Verifier\<close> (\<^verbatim>\<open>email-verifier.js\<close>): the format regex as a matcher proved equal to
    its language (C14), the stable MX sort (C15), and \<open>verifyEmail\<close> with its risk
    classification, lookup errors and result invariant (C16--C18); the code follows the
    spec's \<open>medium\<close> for a failed lookup where a comment says "unknown".
  \<^item> \<open>Mailer\<close> (\<^verbatim>\<open>emailService.js\<close>): \<open>verifyAndSend\<close> and \<open>verifyAndSendBulk\<close> over an
    explicit world (DNS answer per verification round, transport answers, outbox).
    Lemmas: only verified recipients are sent to (C19), the outcomes (C20, C21), the bulk
    entries and the double verification (C22, C23), and a DNS answer that changes between
    the two verifications turns a passing recipient into an error.
  \<^item> \<open>Invoice_Mail\<close> (\<^verbatim>\<open>emailService.ts\<close>): \<open>createEmailTransporter\<close> and
    \<open>sendInvoiceEmail\<close>, which sends the HTML invoice message through the same world with
    no verification (C24) and interpolates its fields unescaped (C25).
  \<^item> \<open>Invoice_Store\<close> (\<open>saveInvoiceRecord\<close>): the row it builds handed to
    \<open>prisma.invoice.create\<close>, with the database as a state of rows by id. The Prisma client is
    a library and is described, not translated. Lemma: a fresh save reads back as the
    invoice's data (C28); the stored GST is the caller's, unchecked.
  \<^item> \<open>Worker_Api\<close> (\<^verbatim>\<open>my-api/src/index.ts\<close>, \<^verbatim>\<open>cors.ts\<close>, \<^verbatim>\<open>functions:api:hello.ts\<close>):
    the worker's \<open>fetch\<close> over JSON values, object spreads and \<open>Headers\<close>, with URL parsing,
    clock and asset binding as an environment. Lemmas: CORS on every response but static
    assets (C30), the route table (C31), static assets and their 404 (C32), and the asset
    binding is never consulted for \<open>/api\<close>.
  \<^item> \<open>Legacy_Pdf\<close> (\<^verbatim>\<open>newpdfinvoice.ts\<close>): the wrapper that delegates to
    \<open>generateInvoicePDF\<close> and otherwise draws an A4 fallback with the same document model and
    the same chunking loop. Lemmas: the fallback's date sits below the measured invoice
    number (C33), it settles (C34), falls back on every failure (C35), and prints a total
    without GST (C36).
  \<^item> \<open>Utf8_Decode\<close>: Node's \<open>Buffer.toString()\<close>, the WHATWG UTF-8 decoder as a byte
    machine over \<open>8 word\<close> with U+FFFD for malformed and cut-off sequences; decoding
    distributes over a split at a character boundary.
  \<^item> \<open>Demo_Server\<close> (\<^verbatim>\<open>server.js\<close>, \<^verbatim>\<open>next.config.js\<close>): the configuration, the request
    listener's outcome and the checkout's body stream as a machine over \<open>data\<close>/\<open>end\<close>
    events carrying \<open>Buffer\<close> chunks, each decoded on its own by \<open>body += chunk\<close>.
    Lemmas: the proxy branch always throws (C37), demo mode answers \<open>/api/\<close> itself (C38),
    the stream refines reading the body whole when chunks end on character boundaries (C39),
    replies once per \<open>end\<close> (C40), and a chunk that ends inside a character puts U+FFFD into
    the body (C29).
  \<^item> This theory: the e-mail total against the invoice total (C26) and the two transporters'
    reading of \<open>SMTP_PORT\<close> (C27).

  \<^bold>\<open>Modelling choices and bounds.\<close>
  JavaScript numbers are modelled exactly, amounts as integer cents and coordinates as
  rationals; the double rounding of \<open>amountCents * 0.1\<close> and of \<open>toFixed\<close> agrees with the
  exact value for integer cents below \<open>2^45\<close>, far above any price. Strings are lists of
  Latin-1 code units, so \<open>\s\<close> and \<open>toLowerCase\<close> are those of U+0000--U+00FF; the
  checkout body, read from bytes, is a list of code points. Loops that
  could spin (the chunking \<open>for\<close> loop with a zero step) are \<open>partial_function (option)\<close>,
  and every such loop is proved to return; the font loop is a \<open>function\<close> with a measure.
  pdfkit's glyph metrics, DNS, SMTP, URL parsing, the clock, module loading, the file
  system and the database connection are parameters or state, so the theorems hold for
  every answer they may give unless a hypothesis says otherwise. The Prisma schema is not in
  the repository; the store's description of \<open>prisma.invoice.create\<close> takes \<open>id\<close> as the
  primary key of \<open>Invoice\<close>, and no theorem about the repository's code rests on its
  duplicate or connection branches.

  \<^bold>\<open>Not modelled.\<close> pdfkit's byte output, the database beyond the \<open>create\<close> call
  (and that call only as described above),
  Next.js itself (\<^verbatim>\<open>next.config.js\<close> is kept as the configuration constant it is), the
  console logging, and the body of the proxied HTTP exchange, which is unreachable (C37).
\<close>


text \<open>C26: the invoice e-mail labels its amount ``inc. GST'' but prints \<open>amountCents\<close> as
  given, while the invoice prints \<open>amountCents + gstCents\<close> as TOTAL: for the same
  \<open>amountCents\<close> the two totals differ whenever the GST is not zero.\<close>

theorem email_total_differs_from_invoice_total:
  "gst_cents a \<noteq> 0 \<Longrightarrow> ''$'' @ email_total_amount a \<noteq> format_money (total_cents a)"
  unfolding email_total_amount_def format_money_def total_cents_def
  using js_to_fixed2_inj by fastforce

theorem email_total_differs_from_invoice_total_witness:
  "gst_cents 1995 \<noteq> 0 \<and> ''$'' @ email_total_amount 1995 = ''$19.95'' \<and>
   format_money (total_cents 1995) = ''$21.95''"
  using email_total_differs_from_invoice_total [of 1995]
  by (code_simp)

text \<open>C27: the two transporters read \<open>SMTP_PORT\<close> differently: for a non-empty port that does
  not parse, the JavaScript service falls back to 587 while the TypeScript one passes \<open>NaN\<close>
  to nodemailer.\<close>

theorem transporter_port_divergence:
  assumes "create_transporter env = Some c1" "create_email_transporter True env = Smtp_transport c2"
    and "env_smtp_port env = Some p" "p \<noteq> []" "js_parse_int p = None"
  shows "tc_port c1 = Some 587 \<and> tc_port c2 = None"
  using assms by (auto simp add: create_transporter_def create_email_transporter_def Let_def split: if_splits)

theorem transporter_port_divergence_witness:
  "tc_port \<lparr>tc_host = Some ''mail'', tc_port = Some 587, tc_secure = False, tc_auth = None\<rparr> = Some 587 \<and>
   tc_port \<lparr>tc_host = Some ''mail'', tc_port = None, tc_secure = False, tc_auth = None\<rparr> = None"
proof -
  define env where "env = \<lparr>env_smtp_host = Some ''mail'', env_smtp_port = Some ''smtp'',
      env_smtp_secure = None, env_smtp_user = None, env_smtp_pass = None, env_email_from = None\<rparr>"
  have c1: "create_transporter env =
          Some \<lparr>tc_host = Some ''mail'', tc_port = Some 587, tc_secure = False, tc_auth = None\<rparr>"
    unfolding env_def by code_simp
  have c2: "create_email_transporter True env =
          Smtp_transport \<lparr>tc_host = Some ''mail'', tc_port = None, tc_secure = False, tc_auth = None\<rparr>"
    unfolding env_def by code_simp
  have p: "env_smtp_port env = Some ''smtp''" and n: "js_parse_int ''smtp'' = None"
    unfolding env_def by code_simp+
  show ?thesis using transporter_port_divergence [OF c1 c2 p _ n] by simp
qed

end
